theory Spec2Isabelle
  imports Complex_Main
begin

unbundle bit_operations_syntax

section \<open>Visibility culling of the painter (src/painter.c)\<close>

text \<open>
  A shallow embedding of the clip tests and of the viewport cap builder of
  \<^verbatim>\<open>src/painter.c\<close>.

  Conventions of the model:
  \<^item> a C \<^verbatim>\<open>double\<close> is a \<^typ>\<open>real\<close>: rounding, infinities and NaN are outside the
    model (so \<^verbatim>\<open>isnan\<close> is constantly false and its assertion cannot fail), but for
    two places. The 2D circle test, whose answer at the border of the window depends on
    the rounding, is modelled in binary64 arithmetic. And a division by a window size
    that is 0, in \<^verbatim>\<open>painter_unproject\<close>, has no value: it is \<open>None\<close>, and the assertion
    that then tests the NaN fails;
  \<^item> a C \<^verbatim>\<open>int\<close> is an \<^typ>\<open>int\<close>; none of the modelled integers can overflow (loop
    counters bounded by 4 or 6, flag words that are only masked);
  \<^item> \<^verbatim>\<open>double[2]\<close>, \<^verbatim>\<open>double[3]\<close>, \<^verbatim>\<open>double[4]\<close> are tuples, \<^verbatim>\<open>double[4][4]\<close> a
    4-tuple of rows, arrays that are indexed by a loop counter are lists;
  \<^item> a failed \<^verbatim>\<open>assert\<close> is the error value \<open>Inl AssertionFailed\<close>;
  \<^item> a function pointer that may be \<^verbatim>\<open>NULL\<close> is an \<^typ>\<open>'a option\<close>.
\<close>

type_synonym vec2 = "real \<times> real"
type_synonym vec3 = "real \<times> real \<times> real"
type_synonym vec4 = "real \<times> real \<times> real \<times> real"
type_synonym mat4 = "vec4 \<times> vec4 \<times> vec4 \<times> vec4"

datatype error = AssertionFailed

subsection \<open>Frustum test: \<^verbatim>\<open>is_clipped\<close>\<close>

text \<open>The table \<^verbatim>\<open>P[6][4]\<close> of the six plane equations, local to \<^verbatim>\<open>is_clipped\<close>.\<close>

definition is_clipped_P :: "(int \<times> int \<times> int \<times> int) list" where
  "is_clipped_P =
     [(-1, 0, 0, -1), (1, 0, 0, -1),
      (0, -1, 0, -1), (0, 1, 0, -1),
      (0, 0, -1, -1), (0, 0, 1, -1)]"

text \<open>The expression \<^verbatim>\<open>P[p][0] * pos[i][0] + ... + P[p][3] * pos[i][3]\<close>.\<close>

definition plane_dot :: "int \<times> int \<times> int \<times> int \<Rightarrow> vec4 \<Rightarrow> real" where
  "plane_dot pl v =
     (case pl of (a, b, c, d) \<Rightarrow> case v of (x, y, z, w) \<Rightarrow>
        real_of_int a * x + real_of_int b * y + real_of_int c * z + real_of_int d * w)"

text \<open>
  The inner loop \<^verbatim>\<open>for (i = 0; i < n; i++) if (... <= 0) break;\<close>, started at \<open>i\<close>:
  its value is the value of \<open>i\<close> when the loop is left.
\<close>

function is_clipped_inner :: "int \<Rightarrow> vec4 list \<Rightarrow> int \<Rightarrow> int \<Rightarrow> int" where
  "is_clipped_inner n pos p i =
     (if i < n then
        (if plane_dot (is_clipped_P ! nat p) (pos ! nat i) \<le> 0 then i
         else is_clipped_inner n pos p (i + 1))
      else i)"
  by pat_completeness auto
termination
  by (relation "measure (\<lambda>(n, pos, p, i). nat (n - i))") auto

declare is_clipped_inner.simps [simp del]

text \<open>The outer loop over the planes, started at plane \<open>p\<close>.\<close>

function is_clipped_outer :: "int \<Rightarrow> vec4 list \<Rightarrow> int \<Rightarrow> bool" where
  "is_clipped_outer n pos p =
     (if p < 6 then
        (if is_clipped_inner n pos p 0 = n then True
         else is_clipped_outer n pos (p + 1))
      else False)"
  by pat_completeness auto
termination
  by (relation "measure (\<lambda>(n, pos, p). nat (6 - p))") auto

declare is_clipped_outer.simps [simp del]

definition is_clipped :: "int \<Rightarrow> vec4 list \<Rightarrow> bool" where
  "is_clipped n pos = is_clipped_outer n pos 0"

subsection \<open>The painter state\<close>

text \<open>
  The structures are declared in headers that are not among the sources; the records
  below hold the fields that \<^verbatim>\<open>painter.c\<close> reads or writes.

  \<^verbatim>\<open>projection_t\<close>: the window size, the flag word and the optional predicate
  \<^verbatim>\<open>intersect_discontinuity\<close> (a function pointer, \<^verbatim>\<open>NULL\<close> when the projection has no seam).
\<close>

record projection_t =
  window_size :: vec2
  proj_flags :: int
  intersect_discontinuity :: "(vec4 \<Rightarrow> vec4 \<Rightarrow> bool) option"

text \<open>
  One entry of \<^verbatim>\<open>painter->clip_info[FRAMES_NB]\<close>. The side caps are \<^verbatim>\<open>double[4]\<close> values:
  \<^verbatim>\<open>cap_intersects_cap\<close> reads all four components of \<^verbatim>\<open>viewport_caps[i]\<close>.
\<close>

record clip_info_t =
  bounding_cap :: vec4
  viewport_caps :: "vec4 list"
  nb_viewport_caps :: int
  sky_cap :: vec4

text \<open>
  The renderer: \<^verbatim>\<open>REND(rend, f, ...)\<close> calls the entry \<^verbatim>\<open>f\<close> only when it is not \<^verbatim>\<open>NULL\<close>.
  The field says whether the entry \<^verbatim>\<open>line\<close> is set; what the entry draws is outside
  \<^verbatim>\<open>painter.c\<close>, so the model records the calls that reach the renderer.
\<close>

record renderer_t =
  line :: bool


record 'o painter_t =
  rend :: renderer_t
  obs :: 'o
  transform :: mat4
  proj :: projection_t
  flags :: int
  clip_info :: "clip_info_t list"

text \<open>
  \<^verbatim>\<open>uv_map_t\<close>: the subdivision order, read as \<^verbatim>\<open>map->order\<close>; the mapping function and its
  data are kept abstract in \<open>user\<close>.
\<close>

record 'u uv_map_t =
  order :: int
  user :: 'u

subsection \<open>What \<^verbatim>\<open>painter.c\<close> takes from the rest of the engine\<close>

text \<open>
  Constants and functions of \<^verbatim>\<open>swe.h\<close>, \<^verbatim>\<open>line_mesh.h\<close> and the ERFA library, none of
  which is among the sources. They are parameters of the model: every theorem holds
  whatever they are, unless it states a hypothesis about them.
  \<^item> \<open>convert_frame obs origin dest at_inf v\<close> and \<open>convert_framev4 obs origin dest v\<close>;
  \<^item> \<open>project proj flags out_dim v\<close> returns the success flag and the output vector;
  \<^item> \<open>uv_map_subdivide\<close> returns the four children, \<open>uv_map_grid map n\<close> the
    \<open>(n + 1)\<^sup>2\<close> grid points;
  \<^item> \<open>line_tesselate f split\<close> returns the polyline (its length is the \<^verbatim>\<open>size\<close> of the
    C function).
  \<open>vec3_normalize\<close> is a parameter too: at the zero vector the C function divides by
  zero, which has no counterpart over the reals.
\<close>

record ('o, 'u) swe =
  FRAMES_NB :: int
  FRAME_VIEW :: int
  FRAME_OBSERVED :: int
  PROJ_BACKWARD :: int
  PROJ_ALREADY_NORMALIZED :: int
  PROJ_TO_WINDOW_SPACE :: int
  PAINTER_HIDE_BELOW_HORIZON :: int
  PAINTER_SKIP_DISCONTINUOUS :: int
  convert_frame :: "'o \<Rightarrow> int \<Rightarrow> int \<Rightarrow> bool \<Rightarrow> vec3 \<Rightarrow> vec3"
  convert_framev4 :: "'o \<Rightarrow> int \<Rightarrow> int \<Rightarrow> vec4 \<Rightarrow> vec4"
  project :: "projection_t \<Rightarrow> int \<Rightarrow> int \<Rightarrow> vec4 \<Rightarrow> bool \<times> vec4"
  eraSepp :: "vec3 \<Rightarrow> vec3 \<Rightarrow> real"
  vec3_is_normalized :: "vec3 \<Rightarrow> bool"
  vec3_normalize :: "vec3 \<Rightarrow> vec3"
  vec4_mix :: "vec4 \<Rightarrow> vec4 \<Rightarrow> real \<Rightarrow> vec4"
  mat4_mul_vec4 :: "mat4 \<Rightarrow> vec4 \<Rightarrow> vec4"
  mat4_mul_vec3_dir :: "mat4 \<Rightarrow> vec3 \<Rightarrow> vec3"
  cap_intersects_cap :: "vec4 \<Rightarrow> vec4 \<Rightarrow> bool"
  uv_map_get_bounding_cap :: "'u uv_map_t \<Rightarrow> vec4"
  uv_map_subdivide :: "'u uv_map_t \<Rightarrow> 'u uv_map_t list"
  uv_map_grid :: "'u uv_map_t \<Rightarrow> int \<Rightarrow> vec4 list"
  uv_map :: "'u uv_map_t \<Rightarrow> vec4 \<Rightarrow> vec4"
  line_tesselate :: "(real \<Rightarrow> vec2) \<Rightarrow> int \<Rightarrow> vec2 list"

text \<open>Reading and writing the first three components of a \<^verbatim>\<open>double[4]\<close>.\<close>

definition xyz :: "vec4 \<Rightarrow> vec3" where
  "xyz v = (case v of (x, y, z, w) \<Rightarrow> (x, y, z))"

definition set_xyz :: "vec4 \<Rightarrow> vec3 \<Rightarrow> vec4" where
  "set_xyz v u = (case v of (x, y, z, w) \<Rightarrow> case u of (a, b, c) \<Rightarrow> (a, b, c, w))"

definition set_w :: "vec4 \<Rightarrow> real \<Rightarrow> vec4" where
  "set_w v d = (case v of (x, y, z, w) \<Rightarrow> (x, y, z, d))"

subsection \<open>Vector and cap helpers with a fixed meaning\<close>

text \<open>
  Modelled from the spec: \<^verbatim>\<open>vec3_dot\<close> of the vector header, which is not among the sources.
  The spec writes it \<open>dot(a, b)\<close> and uses it as the scalar product.
\<close>

definition vec3_dot :: "vec3 \<Rightarrow> vec3 \<Rightarrow> real" where
  "vec3_dot a b =
     (case a of (a0, a1, a2) \<Rightarrow> case b of (b0, b1, b2) \<Rightarrow> a0 * b0 + a1 * b1 + a2 * b2)"

text \<open>
  Modelled from the spec: \<^verbatim>\<open>vec3_cross\<close> of the vector header, which is not among the
  sources. The spec writes it \<open>cross(corner[i], corner[(i+1) mod 4])\<close>, the vector product.
\<close>

definition vec3_cross :: "vec3 \<Rightarrow> vec3 \<Rightarrow> vec3" where
  "vec3_cross a b =
     (case a of (a0, a1, a2) \<Rightarrow> case b of (b0, b1, b2) \<Rightarrow>
        (a1 * b2 - a2 * b1, a2 * b0 - a0 * b2, a0 * b1 - a1 * b0))"

text \<open>
  Modelled from the spec: \<^verbatim>\<open>vec3_mul\<close> of the vector header, which is not among the sources.
  \<^verbatim>\<open>vec3_mul(-1, v, v)\<close> is the sign flip of the spec (section 4.2): the product of a
  vector by a scalar.
\<close>

definition vec3_mul :: "real \<Rightarrow> vec3 \<Rightarrow> vec3" where
  "vec3_mul k v = (case v of (x, y, z) \<Rightarrow> (k * x, k * y, k * z))"

text \<open>
  Modelled from the spec: \<^verbatim>\<open>cap_contains_vec3\<close>, which is not among the sources. The spec
  (section 4.1): \<open>capContainsPoint(cap, unitVector)\<close> is true iff
  \<open>dot(cap.center, unitVector) \<ge> cap.cosHalfAngle\<close>.
\<close>

definition cap_contains_vec3 :: "vec4 \<Rightarrow> vec3 \<Rightarrow> bool" where
  "cap_contains_vec3 cap v = (vec3_dot (xyz cap) v \<ge> (case cap of (x, y, z, w) \<Rightarrow> w))"

text \<open>
  Modelled from the spec: the half-angle of a cap, whose cosine is the fourth component
  of the cap (section 3 of the spec; no function of the sources computes it).
\<close>

definition cap_angle :: "vec4 \<Rightarrow> real" where
  "cap_angle cap = (case cap of (x, y, z, w) \<Rightarrow> arccos w)"

text \<open>
  Modelled from the spec: \<open>capIntersectsCap\<close>, as section 4.1 of the spec defines it, by
  the inequality \<open>dot(a.center, b.center) > cos(a.angle + b.angle)\<close>. The function
  \<^verbatim>\<open>cap_intersects_cap\<close> that the code calls is not among the sources; in the model of
  the code it is a parameter (above).
\<close>

definition capIntersectsCap :: "vec4 \<Rightarrow> vec4 \<Rightarrow> bool" where
  "capIntersectsCap a b = (vec3_dot (xyz a) (xyz b) > cos (cap_angle a + cap_angle b))"

subsection \<open>Binary64 arithmetic\<close>

text \<open>
  The circle test compares sums and differences of window coordinates, and its answer
  at the border of the window depends on how these are rounded. Its arithmetic is
  therefore modelled as the C code performs it on IEEE 754 binary64 values, each
  operation rounded once, to nearest, ties to even (the default rounding mode; no
  extended precision and no fused multiply-add).

  \<open>round_even q\<close> is the integer nearest to \<open>q\<close>, the even one of the two when \<open>q\<close> lies
  half way.
\<close>

definition round_even :: "real \<Rightarrow> int" where
  "round_even q =
     (let f = \<lfloor>q\<rfloor>; d = q - of_int f
      in if d < 1/2 then f else if 1/2 < d then f + 1 else if even f then f else f + 1)"

text \<open>
  \<open>binade a\<close> is the exponent \<open>e\<close> of a positive \<open>a\<close>, \<open>2\<^sup>e \<le> a < 2\<^sup>e\<^sup>+\<^sup>1\<close>, kept between the
  exponent \<open>- 1022\<close> of the smallest normal numbers (subnormal numbers have the same
  spacing) and the largest exponent \<open>1023\<close>. It is found by a search upwards from
  \<open>- 1022\<close>.
\<close>

fun binade_from :: "nat \<Rightarrow> int \<Rightarrow> real \<Rightarrow> int" where
  "binade_from 0 e a = e"
| "binade_from (Suc n) e a = (if a < 2 powi (e + 1) then e else binade_from n (e + 1) a)"

definition binade :: "real \<Rightarrow> int" where
  "binade a = binade_from 2045 (- 1022) a"

text \<open>
  The spacing of the binary64 numbers around \<open>x\<close> (53 significant bits), and the
  rounding of a real number to the nearest of them.
\<close>

definition double_ulp :: "real \<Rightarrow> real" where
  "double_ulp x = 2 powi (binade \<bar>x\<bar> - 52)"

definition double_round :: "real \<Rightarrow> real" where
  "double_round x = of_int (round_even (x / double_ulp x)) * double_ulp x"

text \<open>The largest finite binary64 number, \<^verbatim>\<open>DBL_MAX\<close>.\<close>

definition max_double :: real where
  "max_double = (2 ^ 53 - 1) * 2 ^ 971"

text \<open>
  A binary64 value. \<open>Finite 0\<close> stands for both zeros: the sign of a zero shows only in
  a division by zero, where the divisor is taken to be \<open>+0\<close>.
\<close>

datatype double = Finite real | PlusInf | MinusInf | NaN

text \<open>The value of an operation whose exact result is \<open>x\<close>: rounded, with overflow.\<close>

definition to_double :: "real \<Rightarrow> double" where
  "to_double x =
     (let y = double_round x
      in if max_double < y then PlusInf else if y < - max_double then MinusInf else Finite y)"

text \<open>
  The real numbers that are finite binary64 values: the rounding leaves them as they
  are and they do not exceed \<^verbatim>\<open>DBL_MAX\<close>.
\<close>

definition is_double :: "real \<Rightarrow> bool" where
  "is_double d = (to_double d = Finite d)"

text \<open>The operators \<^verbatim>\<open>+\<close>, \<^verbatim>\<open>-\<close>, \<^verbatim>\<open>*\<close>, \<^verbatim>\<open>/\<close>, \<^verbatim>\<open>fabs\<close>, \<^verbatim>\<open>>\<close> and \<^verbatim>\<open><=\<close> on \<^verbatim>\<open>double\<close>.\<close>

fun double_neg :: "double \<Rightarrow> double" where
  "double_neg (Finite a) = Finite (- a)"
| "double_neg PlusInf = MinusInf"
| "double_neg MinusInf = PlusInf"
| "double_neg NaN = NaN"

fun double_add :: "double \<Rightarrow> double \<Rightarrow> double" where
  "double_add (Finite a) (Finite b) = to_double (a + b)"
| "double_add NaN b = NaN"
| "double_add a NaN = NaN"
| "double_add PlusInf MinusInf = NaN"
| "double_add MinusInf PlusInf = NaN"
| "double_add PlusInf b = PlusInf"
| "double_add a PlusInf = PlusInf"
| "double_add MinusInf b = MinusInf"
| "double_add a MinusInf = MinusInf"

fun double_sub :: "double \<Rightarrow> double \<Rightarrow> double" where
  "double_sub (Finite a) (Finite b) = to_double (a - b)"
| "double_sub NaN b = NaN"
| "double_sub a NaN = NaN"
| "double_sub PlusInf PlusInf = NaN"
| "double_sub MinusInf MinusInf = NaN"
| "double_sub PlusInf b = PlusInf"
| "double_sub a PlusInf = MinusInf"
| "double_sub MinusInf b = MinusInf"
| "double_sub a MinusInf = PlusInf"

fun double_mul :: "double \<Rightarrow> double \<Rightarrow> double" where
  "double_mul (Finite a) (Finite b) = to_double (a * b)"
| "double_mul NaN b = NaN"
| "double_mul a NaN = NaN"
| "double_mul (Finite a) b = (if a = 0 then NaN else if 0 < a then b else double_neg b)"
| "double_mul a (Finite b) = (if b = 0 then NaN else if 0 < b then a else double_neg a)"
| "double_mul PlusInf b = b"
| "double_mul MinusInf b = double_neg b"

fun double_div :: "double \<Rightarrow> double \<Rightarrow> double" where
  "double_div (Finite a) (Finite b) =
     (if b = 0 then (if a = 0 then NaN else if 0 < a then PlusInf else MinusInf)
      else to_double (a / b))"
| "double_div NaN b = NaN"
| "double_div a NaN = NaN"
| "double_div (Finite a) b = Finite 0"
| "double_div a (Finite b) = (if 0 \<le> b then a else double_neg a)"
| "double_div a b = NaN"

fun double_fabs :: "double \<Rightarrow> double" where
  "double_fabs (Finite a) = Finite \<bar>a\<bar>"
| "double_fabs PlusInf = PlusInf"
| "double_fabs MinusInf = PlusInf"
| "double_fabs NaN = NaN"

fun double_gt :: "double \<Rightarrow> double \<Rightarrow> bool" where
  "double_gt (Finite a) (Finite b) = (b < a)"
| "double_gt NaN b = False"
| "double_gt a NaN = False"
| "double_gt a PlusInf = False"
| "double_gt MinusInf b = False"
| "double_gt PlusInf b = True"
| "double_gt a MinusInf = True"

fun double_le :: "double \<Rightarrow> double \<Rightarrow> bool" where
  "double_le (Finite a) (Finite b) = (a \<le> b)"
| "double_le NaN b = False"
| "double_le a NaN = False"
| "double_le MinusInf b = True"
| "double_le a PlusInf = True"
| "double_le PlusInf b = False"
| "double_le a MinusInf = False"

subsection \<open>The 2D tests\<close>

text \<open>
  \<^verbatim>\<open>intersect_circle_rect\<close>, with \<open>rect = (x, y, w, h)\<close>, in binary64 arithmetic; \<^verbatim>\<open>sqr\<close> is
  its local macro.
\<close>

definition sqr :: "double \<Rightarrow> double" where
  "sqr x = double_mul x x"

definition intersect_circle_rect ::
  "double \<times> double \<times> double \<times> double \<Rightarrow> double \<times> double \<Rightarrow> double \<Rightarrow> bool" where
  "intersect_circle_rect rect c_center r =
     (case rect of (rect0, rect1, rect2, rect3) \<Rightarrow> case c_center of (c0, c1) \<Rightarrow>
        let circle_dist_x =
              double_fabs (double_sub c0 (double_add rect0 (double_div rect2 (Finite 2))));
            circle_dist_y =
              double_fabs (double_sub c1 (double_add rect1 (double_div rect3 (Finite 2))))
        in if double_gt circle_dist_x (double_add (double_div rect2 (Finite 2)) r) then False
           else if double_gt circle_dist_y (double_add (double_div rect3 (Finite 2)) r) then False
           else if double_le circle_dist_x (double_div rect2 (Finite 2)) then True
           else if double_le circle_dist_y (double_div rect3 (Finite 2)) then True
           else (let corner_dist_sq =
                       double_add (sqr (double_sub circle_dist_x (double_div rect2 (Finite 2))))
                                  (sqr (double_sub circle_dist_y (double_div rect3 (Finite 2))))
                 in double_le corner_dist_sq (double_mul r r)))"

text \<open>
  The two tests of the painter. The point, the radius and the window size are finite
  values; the point test only compares them.
\<close>

definition painter_is_2d_point_clipped :: "'o painter_t \<Rightarrow> vec2 \<Rightarrow> bool" where
  "painter_is_2d_point_clipped painter p =
     (case p of (p0, p1) \<Rightarrow>
        p0 \<ge> 0 \<and> p0 \<le> fst (window_size (proj painter)) \<and>
        p1 \<ge> 0 \<and> p1 \<le> snd (window_size (proj painter)))"

definition painter_is_2d_circle_clipped :: "'o painter_t \<Rightarrow> vec2 \<Rightarrow> real \<Rightarrow> bool" where
  "painter_is_2d_circle_clipped painter p radius =
     (let rect = (Finite 0, Finite 0, Finite (fst (window_size (proj painter))),
                  Finite (snd (window_size (proj painter))))
      in \<not> intersect_circle_rect rect (Finite (fst p), Finite (snd p)) (Finite radius))"

subsection \<open>The cap test: \<^verbatim>\<open>painter_is_cap_clipped\<close>\<close>

text \<open>The loop over the side caps, started at \<open>i\<close>.\<close>

function painter_is_cap_clipped_loop ::
  "('o, 'u) swe \<Rightarrow> clip_info_t \<Rightarrow> vec4 \<Rightarrow> int \<Rightarrow> bool" where
  "painter_is_cap_clipped_loop E clipinfo cap i =
     (if i < nb_viewport_caps clipinfo then
        (if \<not> cap_intersects_cap E (viewport_caps clipinfo ! nat i) cap then True
         else painter_is_cap_clipped_loop E clipinfo cap (i + 1))
      else False)"
  by pat_completeness auto
termination
  by (relation "measure (\<lambda>(E, clipinfo, cap, i). nat (nb_viewport_caps clipinfo - i))") auto

declare painter_is_cap_clipped_loop.simps [simp del]

definition painter_is_cap_clipped ::
  "('o, 'u) swe \<Rightarrow> 'o painter_t \<Rightarrow> int \<Rightarrow> vec4 \<Rightarrow> bool" where
  "painter_is_cap_clipped E painter frame cap =
     (if \<not> cap_intersects_cap E (bounding_cap (clip_info painter ! nat frame)) cap then True
      else if flags painter AND PAINTER_HIDE_BELOW_HORIZON E \<noteq> 0 \<and>
              \<not> cap_intersects_cap E (sky_cap (clip_info painter ! nat frame)) cap then True
      else (let clipinfo = clip_info painter ! nat frame
            in if nb_viewport_caps clipinfo > 0
               then painter_is_cap_clipped_loop E clipinfo cap 0
               else False))"

subsection \<open>The quad test: \<^verbatim>\<open>painter_is_quad_clipped\<close>\<close>

text \<open>
  The local \<^verbatim>\<open>bounding_cap\<close>: the cap of the quad, its direction multiplied by the
  transform (\<^verbatim>\<open>mat4_mul_vec3_dir\<close> writes three components).
\<close>

definition quad_bounding_cap ::
  "('o, 'u) swe \<Rightarrow> 'o painter_t \<Rightarrow> 'u uv_map_t \<Rightarrow> vec4" where
  "quad_bounding_cap E painter m =
     (let bounding_cap = uv_map_get_bounding_cap E m
      in set_xyz bounding_cap (mat4_mul_vec3_dir E (transform painter) (xyz bounding_cap)))"

text \<open>
  The block \<^verbatim>\<open>if (outside) { ... }\<close>: \<open>Some r\<close> when the block returns \<open>r\<close> (or an
  assertion fails), \<open>None\<close> when control goes on below it.
\<close>

definition quad_outside_block ::
  "('o, 'u) swe \<Rightarrow> 'o painter_t \<Rightarrow> int \<Rightarrow> 'u uv_map_t \<Rightarrow> bool \<Rightarrow> (error + bool) option" where
  "quad_outside_block E painter frame m outside =
     (if outside then
        (let bounding_cap = quad_bounding_cap E painter m
         in if \<not> vec3_is_normalized E (xyz bounding_cap) then Some (Inl AssertionFailed)
            else if painter_is_cap_clipped E painter frame bounding_cap then Some (Inr True)
            else if order m < 2 then Some (Inr False)
            else None)
      else None)"

text \<open>
  \<^verbatim>\<open>p[i]\<close>: the corner with fourth component 1, multiplied by the transform, converted to
  the view frame and projected (the result flag of \<^verbatim>\<open>project\<close> is not read).
\<close>

definition quad_corner_projected ::
  "('o, 'u) swe \<Rightarrow> 'o painter_t \<Rightarrow> int \<Rightarrow> vec4 \<Rightarrow> vec4" where
  "quad_corner_projected E painter frame corner =
     (let quad = set_w corner 1;
          quad = mat4_mul_vec4 E (transform painter) quad;
          quad = convert_framev4 E (obs painter) frame (FRAME_VIEW E) quad
      in snd (project E (proj painter) 0 4 quad))"

text \<open>The vector \<^verbatim>\<open>direction\<close>: row 3 of the transform, normalized, in the view frame.\<close>

definition quad_direction :: "('o, 'u) swe \<Rightarrow> 'o painter_t \<Rightarrow> int \<Rightarrow> vec3" where
  "quad_direction E painter frame =
     (let direction = xyz (case transform painter of (m0, m1, m2, m3) \<Rightarrow> m3);
          direction = vec3_normalize E direction
      in convert_frame E (obs painter) frame (FRAME_VIEW E) True direction)"

text \<open>The vector \<^verbatim>\<open>normal\<close> of one corner, as it is when the dot product is taken.\<close>

definition quad_corner_normal ::
  "('o, 'u) swe \<Rightarrow> 'o painter_t \<Rightarrow> int \<Rightarrow> vec4 \<Rightarrow> vec4" where
  "quad_corner_normal E painter frame corner =
     (let normal = set_w corner 0;
          normal = mat4_mul_vec4 E (transform painter) normal;
          normal = set_xyz normal (vec3_normalize E (xyz normal))
      in set_xyz normal (convert_frame E (obs painter) frame (FRAME_VIEW E) True (xyz normal)))"

text \<open>The loop of the back-face test, started at \<open>i\<close>.\<close>

function quad_backface_loop ::
  "('o, 'u) swe \<Rightarrow> 'o painter_t \<Rightarrow> int \<Rightarrow> vec4 list \<Rightarrow> vec3 \<Rightarrow> int \<Rightarrow> bool" where
  "quad_backface_loop E painter frame corners direction i =
     (if i < 4 then
        (if vec3_dot (xyz (quad_corner_normal E painter frame (corners ! nat i))) direction < 0
         then False
         else quad_backface_loop E painter frame corners direction (i + 1))
      else True)"
  by pat_completeness auto
termination
  by (relation "measure (\<lambda>(E, painter, frame, corners, direction, i). nat (4 - i))") auto

declare quad_backface_loop.simps [simp del]

text \<open>
  The part after the recursion: the four corners, the frustum test and the back-face
  test. \<^verbatim>\<open>assert(!isnan(p[i][0]))\<close> cannot fail over the reals.
\<close>

definition quad_corner_tests ::
  "('o, 'u) swe \<Rightarrow> 'o painter_t \<Rightarrow> int \<Rightarrow> 'u uv_map_t \<Rightarrow> bool \<Rightarrow> error + bool" where
  "quad_corner_tests E painter frame m outside =
     (let corners = uv_map_grid E m 1;
          p = map (\<lambda>i. quad_corner_projected E painter frame (corners ! i)) [0 ..< 4]
      in if is_clipped 4 p then Inr True
         else if \<not> outside \<and> order m > 1 then
           Inr (quad_backface_loop E painter frame corners (quad_direction E painter frame) 0)
         else Inr False)"

text \<open>
  \<^verbatim>\<open>painter_is_quad_clipped\<close>. The function calls itself on the children that
  \<^verbatim>\<open>uv_map_subdivide\<close> returns, so it is a partial function: \<open>None\<close> is a recursion
  that does not end, \<open>Some (Inl AssertionFailed)\<close> a failed assertion and
  \<open>Some (Inr b)\<close> the returned value. The loop over the four children is written out.
\<close>

partial_function (option) painter_is_quad_clipped ::
  "('o, 'u) swe \<Rightarrow> 'o painter_t \<Rightarrow> int \<Rightarrow> 'u uv_map_t \<Rightarrow> bool \<Rightarrow> (error + bool) option" where
  "painter_is_quad_clipped E painter frame m outside =
     (case quad_outside_block E painter frame m outside of
        Some r \<Rightarrow> Some r
      | None \<Rightarrow>
          if order m < 2 then
            (if outside then Some (Inl AssertionFailed)
             else
               (let children = uv_map_subdivide E m
                in Option.bind (painter_is_quad_clipped E painter frame (children ! 0) outside)
                   (\<lambda>r0. case r0 of Inl e \<Rightarrow> Some (Inl e) | Inr c0 \<Rightarrow>
                    if \<not> c0 then Some (Inr False) else
                   Option.bind (painter_is_quad_clipped E painter frame (children ! 1) outside)
                   (\<lambda>r1. case r1 of Inl e \<Rightarrow> Some (Inl e) | Inr c1 \<Rightarrow>
                    if \<not> c1 then Some (Inr False) else
                   Option.bind (painter_is_quad_clipped E painter frame (children ! 2) outside)
                   (\<lambda>r2. case r2 of Inl e \<Rightarrow> Some (Inl e) | Inr c2 \<Rightarrow>
                    if \<not> c2 then Some (Inr False) else
                   Option.bind (painter_is_quad_clipped E painter frame (children ! 3) outside)
                   (\<lambda>r3. case r3 of Inl e \<Rightarrow> Some (Inl e) | Inr c3 \<Rightarrow>
                    if \<not> c3 then Some (Inr False) else Some (Inr True)))))))
          else Some (quad_corner_tests E painter frame m outside))"

subsection \<open>Unprojection and the viewport cap builder\<close>

text \<open>
  \<^verbatim>\<open>painter_unproject\<close>. The window position is divided by the window size. When a
  component of the window size is 0 the quotient is an infinity or a NaN, which is not
  a real number: the result is then \<open>None\<close>, and the projection, which the model knows
  on real coordinates only, is not applied. The local \<^verbatim>\<open>p[4]\<close> has only its first two
  components set when it is passed to \<^verbatim>\<open>project\<close>: the other two are unspecified values
  (\<open>undefined\<close>), and nothing is proved about a projection that reads them. The function
  reads the projection and the observer of the painter, not its \<^verbatim>\<open>clip_info\<close>.
\<close>

definition painter_unproject ::
  "('o, 'u) swe \<Rightarrow> 'o painter_t \<Rightarrow> int \<Rightarrow> vec2 \<Rightarrow> (bool \<times> vec3) option" where
  "painter_unproject E painter frame win_pos =
     (case win_pos of (win_pos0, win_pos1) \<Rightarrow>
        if fst (window_size (proj painter)) = 0 \<or> snd (window_size (proj painter)) = 0 then None
        else
          (let p0 = win_pos0 / fst (window_size (proj painter)) * 2 - 1;
               p1 = 1 - win_pos1 / snd (window_size (proj painter)) * 2;
               r = project E (proj painter) (PROJ_BACKWARD E) 4 (p0, p1, undefined, undefined);
               pos = convert_frame E (obs painter) (FRAME_VIEW E) frame True (xyz (snd r))
           in Some (fst r, pos)))"

definition MARGIN :: real where
  "MARGIN = 0"

text \<open>
  The locals of \<^verbatim>\<open>compute_viewport_cap\<close>: the direction written to \<^verbatim>\<open>cap\<close> (the centre of
  the window), the four corners \<^verbatim>\<open>p[0..3]\<close> with the flag of each unprojection (all four
  are evaluated: \<^verbatim>\<open>r &= ...\<close> does not short-circuit), and \<^verbatim>\<open>max_sep\<close>. They are \<open>None\<close>
  when the window size has a component 0.
\<close>

definition viewport_center :: "('o, 'u) swe \<Rightarrow> 'o painter_t \<Rightarrow> int \<Rightarrow> vec3 option" where
  "viewport_center E painter frame =
     (let w = fst (window_size (proj painter)); h = snd (window_size (proj painter))
      in map_option snd (painter_unproject E painter frame (w / 2, h / 2)))"

definition viewport_corners ::
  "('o, 'u) swe \<Rightarrow> 'o painter_t \<Rightarrow> int \<Rightarrow> (bool \<times> vec3) list option" where
  "viewport_corners E painter frame =
     (let w = fst (window_size (proj painter)); h = snd (window_size (proj painter))
      in case painter_unproject E painter frame (MARGIN, MARGIN) of None \<Rightarrow> None | Some p0 \<Rightarrow>
         case painter_unproject E painter frame (w - MARGIN, MARGIN) of None \<Rightarrow> None | Some p1 \<Rightarrow>
         case painter_unproject E painter frame (w - MARGIN, h - MARGIN) of None \<Rightarrow> None | Some p2 \<Rightarrow>
         case painter_unproject E painter frame (MARGIN, h - MARGIN) of None \<Rightarrow> None | Some p3 \<Rightarrow>
           Some [p0, p1, p2, p3])"

text \<open>The loop \<^verbatim>\<open>max_sep = max(max_sep, eraSepp(cap, p[i]))\<close> with its assertion.\<close>

function viewport_max_sep_loop ::
  "('o, 'u) swe \<Rightarrow> vec3 \<Rightarrow> vec3 list \<Rightarrow> int \<Rightarrow> real \<Rightarrow> error + real" where
  "viewport_max_sep_loop E cap p i max_sep =
     (if i < 4 then
        (if \<not> vec3_is_normalized E (p ! nat i) then Inl AssertionFailed
         else viewport_max_sep_loop E cap p (i + 1) (max max_sep (eraSepp E cap (p ! nat i))))
      else Inr max_sep)"
  by pat_completeness auto
termination
  by (relation "measure (\<lambda>(E, cap, p, i, max_sep). nat (4 - i))") auto

declare viewport_max_sep_loop.simps [simp del]

text \<open>
  The value of \<^verbatim>\<open>max_sep\<close> after the loop. With a window size that has a component 0 the
  corners are NaN and the assertion of the loop fails.
\<close>

definition viewport_max_sep ::
  "('o, 'u) swe \<Rightarrow> 'o painter_t \<Rightarrow> int \<Rightarrow> error + real" where
  "viewport_max_sep E painter frame =
     (case viewport_center E painter frame of
        None \<Rightarrow> Inl AssertionFailed
      | Some cap \<Rightarrow>
          (case viewport_corners E painter frame of
             None \<Rightarrow> Inl AssertionFailed
           | Some cs \<Rightarrow>
               (let max_sep = 0;
                    r = (fst (cs ! 0) \<and> fst (cs ! 1) \<and> fst (cs ! 2) \<and> fst (cs ! 3));
                    max_sep = (if \<not> r then pi else max_sep)
                in viewport_max_sep_loop E cap (map snd cs) 0 max_sep)))"

text \<open>
  The loop that computes the side caps, on the array \<^verbatim>\<open>viewport_caps\<close>: \<^verbatim>\<open>vec3_copy\<close> and
  \<^verbatim>\<open>vec3_mul\<close> write three components of \<^verbatim>\<open>viewport_caps[i]\<close>, the fourth is left as it is.
\<close>

function side_caps_loop ::
  "('o, 'u) swe \<Rightarrow> vec3 \<Rightarrow> vec3 list \<Rightarrow> int \<Rightarrow> vec4 list \<Rightarrow> vec4 list" where
  "side_caps_loop E cap p i caps =
     (if i < 4 then
        (let c = vec3_cross (p ! nat i) (p ! nat ((i + 1) mod 4));
             c = vec3_normalize E c;
             caps = caps[nat i := set_xyz (caps ! nat i) c];
             caps = (if \<not> cap_contains_vec3 (caps ! nat i) cap
                     then caps[nat i := set_xyz (caps ! nat i) (vec3_mul (- 1) (xyz (caps ! nat i)))]
                     else caps)
         in side_caps_loop E cap p (i + 1) caps)
      else caps)"
  by pat_completeness auto
termination
  by (relation "measure (\<lambda>(E, cap, p, i, caps). nat (4 - i))") auto

declare side_caps_loop.simps [simp del]

text \<open>
  \<^verbatim>\<open>compute_viewport_cap\<close>, on the entry \<^verbatim>\<open>clip_info[frame]\<close> of the painter. When
  \<^verbatim>\<open>max_sep > M_PI_2\<close> the function returns after writing the bounding cap only.

  With a window size that has a component 0 the centre \<^verbatim>\<open>(w / 2, h / 2)\<close> of the window
  is divided by 0: a coordinate is \<^verbatim>\<open>0 / 0\<close>, a NaN. The projection and the frame
  conversion compute \<^verbatim>\<open>cap\<close> from it by arithmetic, which propagates a NaN, and
  \<^verbatim>\<open>vec3_is_normalized\<close> is false of a vector with a NaN: the first assertion fails.
\<close>

definition compute_viewport_cap ::
  "('o, 'u) swe \<Rightarrow> 'o painter_t \<Rightarrow> int \<Rightarrow> error + 'o painter_t" where
  "compute_viewport_cap E painter frame =
     (case viewport_center E painter frame of
        None \<Rightarrow> Inl AssertionFailed
      | Some center \<Rightarrow>
          (let info = clip_info painter ! nat frame;
               cap = set_xyz (bounding_cap info) center
           in if \<not> vec3_is_normalized E (xyz cap) then Inl AssertionFailed
              else
                (case viewport_max_sep E painter frame of
                   Inl e \<Rightarrow> Inl e
                 | Inr max_sep \<Rightarrow>
                     (let cap = set_w cap (cos max_sep);
                          info = info\<lparr>bounding_cap := cap\<rparr>
                      in if max_sep > pi / 2
                         then Inr (painter\<lparr>clip_info := (clip_info painter)[nat frame := info]\<rparr>)
                         else
                           (case viewport_corners E painter frame of
                              None \<Rightarrow> Inl AssertionFailed
                            | Some cs \<Rightarrow>
                                (let info = info\<lparr>nb_viewport_caps := 4\<rparr>;
                                     info = info\<lparr>viewport_caps :=
                                       side_caps_loop E (xyz cap) (map snd cs) 0
                                         (viewport_caps info)\<rparr>
                                 in Inr (painter\<lparr>clip_info :=
                                           (clip_info painter)[nat frame := info]\<rparr>)))))))"

definition compute_sky_cap :: "('o, 'u) swe \<Rightarrow> 'o \<Rightarrow> int \<Rightarrow> vec4 \<Rightarrow> vec4" where
  "compute_sky_cap E observer frame cap =
     (let p = (0, 0, 1);
          cap = set_xyz cap (convert_frame E observer (FRAME_OBSERVED E) frame True p)
      in set_w cap (cos (91 * pi / 180)))"

text \<open>The loop of \<^verbatim>\<open>painter_update_clip_info\<close> over the frames, started at \<open>i\<close>.\<close>

function painter_update_clip_info_loop ::
  "('o, 'u) swe \<Rightarrow> 'o painter_t \<Rightarrow> int \<Rightarrow> error + 'o painter_t" where
  "painter_update_clip_info_loop E painter i =
     (if i < FRAMES_NB E then
        (case compute_viewport_cap E painter i of
           Inl e \<Rightarrow> Inl e
         | Inr painter1 \<Rightarrow>
             (let info = clip_info painter1 ! nat i;
                  info = info\<lparr>sky_cap := compute_sky_cap E (obs painter1) i (sky_cap info)\<rparr>
              in painter_update_clip_info_loop E
                   (painter1\<lparr>clip_info := (clip_info painter1)[nat i := info]\<rparr>) (i + 1)))
      else Inr painter)"
  by pat_completeness auto
termination
  by (relation "measure (\<lambda>(E, painter, i). nat (FRAMES_NB E - i))") auto

declare painter_update_clip_info_loop.simps [simp del]

definition painter_update_clip_info ::
  "('o, 'u) swe \<Rightarrow> 'o painter_t \<Rightarrow> error + 'o painter_t" where
  "painter_update_clip_info E painter = painter_update_clip_info_loop E painter 0"

text \<open>
  What one iteration of \<^verbatim>\<open>side_caps_loop\<close> leaves in \<^verbatim>\<open>viewport_caps[i]\<close>, given the value
  \<open>old\<close> that the entry had before (used to state the properties of the loop).
\<close>

definition side_cap :: "('o, 'u) swe \<Rightarrow> vec3 \<Rightarrow> vec3 list \<Rightarrow> nat \<Rightarrow> vec4 \<Rightarrow> vec4" where
  "side_cap E cap p i old =
     (let c = vec3_normalize E (vec3_cross (p ! i) (p ! ((i + 1) mod 4)));
          v = set_xyz old c
      in if \<not> cap_contains_vec3 v cap then set_xyz v (vec3_mul (- 1) (xyz v)) else v)"

subsection \<open>Lines: \<^verbatim>\<open>line_func\<close> and \<^verbatim>\<open>paint_line\<close>\<close>




subsection \<open>A concrete engine and concrete states for the examples\<close>

text \<open>
  An instance of the parameters, used to evaluate the model on concrete inputs. There
  are two frames (observed 0, view 1) that coincide; matrices multiply column-major
  (\<open>out[i] = \<Sum>j. mat[j][i] * v[j]\<close>); angular separation is the arc cosine of the dot
  product; \<open>cap_intersects_cap\<close> is the spec's inequality. The backward projection maps the
  corners \<open>(\<plusminus>1, \<plusminus>1)\<close> of the viewport to the unit vectors \<open>(\<plusminus>2/3, \<plusminus>1/3, 2/3)\<close> and the
  centre to \<open>(0, 0, 1)\<close>; it fails (flag false) for a projection whose flag word is not 0.
  The forward projection keeps \<open>x\<close>, \<open>y\<close> and \<open>w\<close>.
\<close>

definition mat4_identity :: mat4 where
  "mat4_identity = ((1, 0, 0, 0), (0, 1, 0, 0), (0, 0, 1, 0), (0, 0, 0, 1))"

definition ex_project :: "projection_t \<Rightarrow> int \<Rightarrow> int \<Rightarrow> vec4 \<Rightarrow> bool \<times> vec4" where
  "ex_project p fl out_dim v =
     (case v of (x, y, z, w) \<Rightarrow>
        if fl = 4 then
          (if proj_flags p = 0 then (True, (2 * x / 3, y / 3, 1 - x * x / 3, 0))
           else (False, (0, 0, 1, 0)))
        else (True, (x, y, 0, w)))"

definition ex_mat4_mul_vec4 :: "mat4 \<Rightarrow> vec4 \<Rightarrow> vec4" where
  "ex_mat4_mul_vec4 m v =
     (case m of ((a0, a1, a2, a3), (b0, b1, b2, b3), (c0, c1, c2, c3), (d0, d1, d2, d3)) \<Rightarrow>
      case v of (x, y, z, w) \<Rightarrow>
        (a0 * x + b0 * y + c0 * z + d0 * w, a1 * x + b1 * y + c1 * z + d1 * w,
         a2 * x + b2 * y + c2 * z + d2 * w, a3 * x + b3 * y + c3 * z + d3 * w))"

definition ex_tile_caps :: "vec4 list" where
  "ex_tile_caps = [(3/5, 0, - 4/5, 1), (4/5, 0, - 3/5, 1), (2/3, 1/3, - 2/3, 1), (2/3, - 1/3, - 2/3, 1)]"

definition ex_swe :: "(unit, nat) swe" where
  "ex_swe = \<lparr>
     FRAMES_NB = 2, FRAME_VIEW = 1, FRAME_OBSERVED = 0,
     PROJ_BACKWARD = 4, PROJ_ALREADY_NORMALIZED = 2, PROJ_TO_WINDOW_SPACE = 8,
     PAINTER_HIDE_BELOW_HORIZON = 4, PAINTER_SKIP_DISCONTINUOUS = 1,
     convert_frame = (\<lambda>observer origin dest at_inf v. v),
     convert_framev4 = (\<lambda>observer origin dest v. v),
     project = ex_project,
     eraSepp = (\<lambda>a b. arccos (vec3_dot a b)),
     vec3_is_normalized = (\<lambda>v. vec3_dot v v = 1),
     vec3_normalize = (\<lambda>v. vec3_mul (1 / sqrt (vec3_dot v v)) v),
     vec4_mix = (\<lambda>a b t. case a of (a0, a1, a2, a3) \<Rightarrow> case b of (b0, b1, b2, b3) \<Rightarrow>
        (a0 * (1 - t) + b0 * t, a1 * (1 - t) + b1 * t, a2 * (1 - t) + b2 * t, a3 * (1 - t) + b3 * t)),
     mat4_mul_vec4 = ex_mat4_mul_vec4,
     mat4_mul_vec3_dir = (\<lambda>m v. case v of (x, y, z) \<Rightarrow> xyz (ex_mat4_mul_vec4 m (x, y, z, 0))),
     cap_intersects_cap = capIntersectsCap,
     uv_map_get_bounding_cap =
       (\<lambda>m. if order m < 2 then (1, 0, 0, 0) else ex_tile_caps ! (user m mod 4)),
     uv_map_subdivide =
       (\<lambda>m. map (\<lambda>i. \<lparr>order = order m + 1, user = 4 * user m + i\<rparr>) [0, 1, 2, 3]),
     uv_map_grid =
       (\<lambda>m n. if even (user m)
              then [(2/3, 1/3, - 2/3, 0), (2/3, - 1/3, - 2/3, 0), (- 2/3, - 1/3, - 2/3, 0), (- 2/3, 1/3, - 2/3, 0)]
              else [(2/3, 1/3, 2/3, 0), (2/3, - 1/3, 2/3, 0), (- 2/3, - 1/3, 2/3, 0), (- 2/3, 1/3, 2/3, 0)]),
     uv_map = (\<lambda>m v. v),
     line_tesselate = (\<lambda>f split. map (\<lambda>k. f (real k / real_of_int split)) [0 ..< nat split + 1])
   \<rparr>"

text \<open>A seam on the half plane \<open>x < 0\<close>, \<open>y = 0\<close>.\<close>

definition ex_seam :: "vec4 \<Rightarrow> vec4 \<Rightarrow> bool" where
  "ex_seam a b =
     (case a of (ax, ay, az, aw) \<Rightarrow> case b of (bx, by, bz, bw) \<Rightarrow> ax < 0 \<and> bx < 0 \<and> ay * by < 0)"

definition ex_proj :: projection_t where
  "ex_proj = \<lparr>window_size = (800, 600), proj_flags = 0, intersect_discontinuity = Some ex_seam\<rparr>"

text \<open>A projection whose backward mapping fails.\<close>

definition ex_proj_wide :: projection_t where
  "ex_proj_wide = \<lparr>window_size = (800, 600), proj_flags = 1, intersect_discontinuity = None\<rparr>"

text \<open>A zero-initialised entry of \<^verbatim>\<open>clip_info\<close>, and a painter that holds two of them.\<close>

definition ex_clip_info_zero :: clip_info_t where
  "ex_clip_info_zero =
     \<lparr>bounding_cap = (0, 0, 0, 0),
      viewport_caps = [(0, 0, 0, 0), (0, 0, 0, 0), (0, 0, 0, 0), (0, 0, 0, 0)],
      nb_viewport_caps = 0,
      sky_cap = (0, 0, 0, 0)\<rparr>"

definition ex_painter :: "unit painter_t" where
  "ex_painter =
     \<lparr>rend = \<lparr>line = True\<rparr>, obs = (), transform = mat4_identity, proj = ex_proj,
      flags = 0, clip_info = [ex_clip_info_zero, ex_clip_info_zero]\<rparr>"

text \<open>
  An entry as a refresh leaves it for a viewport of half-angle 120 degrees around
  \<open>(0, 0, 1)\<close>: no side caps, the sky cap around the zenith.
\<close>

definition ex_clip_info_wide :: clip_info_t where
  "ex_clip_info_wide =
     \<lparr>bounding_cap = (0, 0, 1, - 1/2),
      viewport_caps = [(0, 0, 0, 0), (0, 0, 0, 0), (0, 0, 0, 0), (0, 0, 0, 0)],
      nb_viewport_caps = 0,
      sky_cap = (0, 0, 1, cos (91 * pi / 180))\<rparr>"

definition ex_painter_wide :: "unit painter_t" where
  "ex_painter_wide =
     \<lparr>rend = \<lparr>line = True\<rparr>, obs = (), transform = mat4_identity, proj = ex_proj_wide,
      flags = 0, clip_info = [ex_clip_info_wide, ex_clip_info_wide]\<rparr>"

text \<open>
  An entry with four side caps, for a viewport that looks below the horizon, around the
  direction \<open>(3/5, 0, - 4/5)\<close>: the side caps are the hemispheres of a pyramid around that
  direction. The painter that holds it hides what is below the horizon.
\<close>

definition ex_clip_info_down :: clip_info_t where
  "ex_clip_info_down =
     \<lparr>bounding_cap = (3/5, 0, - 4/5, 3/5),
      viewport_caps = [(9/25, 4/5, - 12/25, 0), (1, 0, 0, 0),
                       (9/25, - 4/5, - 12/25, 0), (- 7/25, 0, - 24/25, 0)],
      nb_viewport_caps = 4,
      sky_cap = (0, 0, 1, cos (91 * pi / 180))\<rparr>"

definition ex_painter_down :: "unit painter_t" where
  "ex_painter_down =
     \<lparr>rend = \<lparr>line = True\<rparr>, obs = (), transform = mat4_identity, proj = ex_proj,
      flags = 4, clip_info = [ex_clip_info_down, ex_clip_info_down]\<rparr>"

text \<open>
  A painter that holds four side caps in each entry of its \<^verbatim>\<open>clip_info\<close> and whose
  projection is the one whose backward mapping fails.
\<close>

definition ex_painter_stale :: "unit painter_t" where
  "ex_painter_stale =
     \<lparr>rend = \<lparr>line = True\<rparr>, obs = (), transform = mat4_identity, proj = ex_proj_wide,
      flags = 0, clip_info = [ex_clip_info_down, ex_clip_info_down]\<rparr>"


text \<open>
  A body whose centre is at \<open>(0, 0, 1)\<close> in the view frame: row 3 of the transform is the
  translation.
\<close>

definition ex_painter_planet :: "unit painter_t" where
  "ex_painter_planet =
     \<lparr>rend = \<lparr>line = True\<rparr>, obs = (),
      transform = ((1, 0, 0, 0), (0, 1, 0, 0), (0, 0, 1, 0), (0, 0, 1, 1)), proj = ex_proj,
      flags = 0, clip_info = [ex_clip_info_wide, ex_clip_info_wide]\<rparr>"

text \<open>
  An engine whose frames differ, for the back-face test. The conversion between two
  different frames is the rotation \<open>(x, y, z) \<mapsto> (y, z, x)\<close>, and the forward projection
  divides \<open>x\<close> and \<open>y\<close> by 8. The painter \<open>ex_painter_planet_rot\<close> draws a body of radius 2
  whose centre is at \<open>(0, 4, 0)\<close>: its transform is that rotation, scaled by 2, followed
  by the translation (row \<open>j\<close> of the matrix is the image of the axis \<open>j\<close>, row 3 the
  translation).
\<close>

definition ex_swe_rot :: "(unit, nat) swe" where
  "ex_swe_rot = ex_swe\<lparr>
     convert_frame := (\<lambda>observer origin dest at_inf v.
        if origin = dest then v else case v of (x, y, z) \<Rightarrow> (y, z, x)),
     convert_framev4 := (\<lambda>observer origin dest v.
        if origin = dest then v else case v of (x, y, z, w) \<Rightarrow> (y, z, x, w)),
     project := (\<lambda>p fl out_dim v. case v of (x, y, z, w) \<Rightarrow> (True, (x / 8, y / 8, 0, w)))\<rparr>"

definition ex_painter_planet_rot :: "unit painter_t" where
  "ex_painter_planet_rot =
     \<lparr>rend = \<lparr>line = True\<rparr>, obs = (),
      transform = ((0, 0, 2, 0), (2, 0, 0, 0), (0, 2, 0, 0), (0, 4, 0, 1)), proj = ex_proj,
      flags = 0, clip_info = [ex_clip_info_wide, ex_clip_info_wide]\<rparr>"


text \<open>
  A painter whose first stored side cap has the fourth component 1 (the cap of
  half-angle 0) before the viewport caps are computed.
\<close>

definition ex_clip_info_point_caps :: clip_info_t where
  "ex_clip_info_point_caps =
     \<lparr>bounding_cap = (0, 0, 0, 0),
      viewport_caps = [(0, 0, 0, 1), (0, 0, 0, 0), (0, 0, 0, 0), (0, 0, 0, 0)],
      nb_viewport_caps = 0,
      sky_cap = (0, 0, 0, 0)\<rparr>"

definition ex_painter_point_caps :: "unit painter_t" where
  "ex_painter_point_caps = ex_painter\<lparr>clip_info := [ex_clip_info_point_caps, ex_clip_info_point_caps]\<rparr>"

section \<open>Properties\<close>

subsection \<open>The frustum test\<close>

lemma is_clipped_inner_range:
  "i \<le> n \<Longrightarrow> i \<le> is_clipped_inner n pos p i \<and> is_clipped_inner n pos p i \<le> n"
proof (induction n pos p i rule: is_clipped_inner.induct)
  case (1 n pos p i)
  show ?case
  proof (cases "i < n")
    case False
    with "1.prems" show ?thesis by (simp add: is_clipped_inner.simps)
  next
    case True
    show ?thesis
    proof (cases "plane_dot (is_clipped_P ! nat p) (pos ! nat i) \<le> 0")
      case True
      with \<open>i < n\<close> show ?thesis by (simp add: is_clipped_inner.simps)
    next
      case False
      with \<open>i < n\<close> "1.IH" have "i + 1 \<le> is_clipped_inner n pos p (i + 1)
          \<and> is_clipped_inner n pos p (i + 1) \<le> n" by simp
      with False \<open>i < n\<close> show ?thesis
        by (subst (1 2) is_clipped_inner.simps) simp
    qed
  qed
qed

lemma is_clipped_inner_all:
  "0 \<le> i \<Longrightarrow> i \<le> n \<Longrightarrow>
   (is_clipped_inner n pos p i = n) =
   (\<forall>j. i \<le> j \<and> j < n \<longrightarrow> 0 < plane_dot (is_clipped_P ! nat p) (pos ! nat j))"
proof (induction n pos p i rule: is_clipped_inner.induct)
  case (1 n pos p i)
  show ?case
  proof (cases "i < n")
    case False
    with "1.prems" show ?thesis by (simp add: is_clipped_inner.simps)
  next
    case True
    show ?thesis
    proof (cases "plane_dot (is_clipped_P ! nat p) (pos ! nat i) \<le> 0")
      case True
      with \<open>i < n\<close> have "is_clipped_inner n pos p i = i"
        by (simp add: is_clipped_inner.simps)
      moreover from True \<open>i < n\<close>
      have "\<not> (\<forall>j. i \<le> j \<and> j < n \<longrightarrow> 0 < plane_dot (is_clipped_P ! nat p) (pos ! nat j))"
        by (intro notI) (drule spec [of _ i], simp)
      ultimately show ?thesis using \<open>i < n\<close> by simp
    next
      case False
      with \<open>i < n\<close> have eq: "is_clipped_inner n pos p i = is_clipped_inner n pos p (i + 1)"
        by (subst is_clipped_inner.simps) simp
      from False \<open>i < n\<close> "1.IH" "1.prems"
      have IH: "(is_clipped_inner n pos p (i + 1) = n) =
        (\<forall>j. i + 1 \<le> j \<and> j < n \<longrightarrow> 0 < plane_dot (is_clipped_P ! nat p) (pos ! nat j))"
        by simp
      have "(\<forall>j. i \<le> j \<and> j < n \<longrightarrow> 0 < plane_dot (is_clipped_P ! nat p) (pos ! nat j)) =
            (\<forall>j. i + 1 \<le> j \<and> j < n \<longrightarrow> 0 < plane_dot (is_clipped_P ! nat p) (pos ! nat j))"
      proof (intro iffI allI impI)
        fix j assume h: "\<forall>j. i \<le> j \<and> j < n \<longrightarrow> 0 < plane_dot (is_clipped_P ! nat p) (pos ! nat j)"
          and "i + 1 \<le> j \<and> j < n"
        then show "0 < plane_dot (is_clipped_P ! nat p) (pos ! nat j)" by simp
      next
        fix j assume h: "\<forall>j. i + 1 \<le> j \<and> j < n \<longrightarrow> 0 < plane_dot (is_clipped_P ! nat p) (pos ! nat j)"
          and j: "i \<le> j \<and> j < n"
        show "0 < plane_dot (is_clipped_P ! nat p) (pos ! nat j)"
        proof (cases "j = i")
          case True with False show ?thesis by simp
        next
          case False with h j show ?thesis by simp
        qed
      qed
      with eq IH show ?thesis by simp
    qed
  qed
qed

lemma is_clipped_outer_ex:
  "0 \<le> p \<Longrightarrow> 0 \<le> n \<Longrightarrow>
   is_clipped_outer n pos p =
   (\<exists>q. p \<le> q \<and> q < 6 \<and>
      (\<forall>j. 0 \<le> j \<and> j < n \<longrightarrow> 0 < plane_dot (is_clipped_P ! nat q) (pos ! nat j)))"
proof (induction n pos p rule: is_clipped_outer.induct)
  case (1 n pos p)
  show ?case
  proof (cases "p < 6")
    case False
    then show ?thesis by (simp add: is_clipped_outer.simps)
  next
    case True
    have inner: "(is_clipped_inner n pos p 0 = n) =
      (\<forall>j. 0 \<le> j \<and> j < n \<longrightarrow> 0 < plane_dot (is_clipped_P ! nat p) (pos ! nat j))"
      using is_clipped_inner_all [of 0 n pos p] "1.prems" by simp
    show ?thesis
    proof (cases "is_clipped_inner n pos p 0 = n")
      case True
      with \<open>p < 6\<close> have "is_clipped_outer n pos p" by (simp add: is_clipped_outer.simps)
      moreover from True inner \<open>p < 6\<close>
      have "\<exists>q. p \<le> q \<and> q < 6 \<and>
        (\<forall>j. 0 \<le> j \<and> j < n \<longrightarrow> 0 < plane_dot (is_clipped_P ! nat q) (pos ! nat j))"
        by (intro exI [of _ p]) simp
      ultimately show ?thesis by simp
    next
      case False
      with \<open>p < 6\<close> have eq: "is_clipped_outer n pos p = is_clipped_outer n pos (p + 1)"
        by (subst is_clipped_outer.simps) simp
      from False \<open>p < 6\<close> "1.IH" "1.prems"
      have IH: "is_clipped_outer n pos (p + 1) =
        (\<exists>q. p + 1 \<le> q \<and> q < 6 \<and>
          (\<forall>j. 0 \<le> j \<and> j < n \<longrightarrow> 0 < plane_dot (is_clipped_P ! nat q) (pos ! nat j)))"
        by simp
      from False inner
      have np: "\<not> (\<forall>j. 0 \<le> j \<and> j < n \<longrightarrow> 0 < plane_dot (is_clipped_P ! nat p) (pos ! nat j))"
        by simp
      have "(\<exists>q. p \<le> q \<and> q < 6 \<and>
          (\<forall>j. 0 \<le> j \<and> j < n \<longrightarrow> 0 < plane_dot (is_clipped_P ! nat q) (pos ! nat j))) =
        (\<exists>q. p + 1 \<le> q \<and> q < 6 \<and>
          (\<forall>j. 0 \<le> j \<and> j < n \<longrightarrow> 0 < plane_dot (is_clipped_P ! nat q) (pos ! nat j)))"
      proof
        assume "\<exists>q. p \<le> q \<and> q < 6 \<and>
          (\<forall>j. 0 \<le> j \<and> j < n \<longrightarrow> 0 < plane_dot (is_clipped_P ! nat q) (pos ! nat j))"
        then obtain q where q: "p \<le> q" "q < 6"
          "\<forall>j. 0 \<le> j \<and> j < n \<longrightarrow> 0 < plane_dot (is_clipped_P ! nat q) (pos ! nat j)"
          by blast
        with np have "q \<noteq> p" by blast
        with q show "\<exists>q. p + 1 \<le> q \<and> q < 6 \<and>
          (\<forall>j. 0 \<le> j \<and> j < n \<longrightarrow> 0 < plane_dot (is_clipped_P ! nat q) (pos ! nat j))"
          by (intro exI [of _ q]) simp
      next
        assume "\<exists>q. p + 1 \<le> q \<and> q < 6 \<and>
          (\<forall>j. 0 \<le> j \<and> j < n \<longrightarrow> 0 < plane_dot (is_clipped_P ! nat q) (pos ! nat j))"
        then obtain q where q: "p + 1 \<le> q" "q < 6"
          "\<forall>j. 0 \<le> j \<and> j < n \<longrightarrow> 0 < plane_dot (is_clipped_P ! nat q) (pos ! nat j)"
          by blast
        then show "\<exists>q. p \<le> q \<and> q < 6 \<and>
          (\<forall>j. 0 \<le> j \<and> j < n \<longrightarrow> 0 < plane_dot (is_clipped_P ! nat q) (pos ! nat j))"
          by (intro exI [of _ q]) simp
      qed
      with eq IH show ?thesis by simp
    qed
  qed
qed

lemma plane_dot_origin:
  "p < 6 \<Longrightarrow> plane_dot (is_clipped_P ! p) (0, 0, 0, 1) = -1"
proof -
  assume "p < 6"
  then consider "p = 0" | "p = 1" | "p = 2" | "p = 3" | "p = 4" | "p = 5" by linarith
  then show ?thesis
    by cases (simp_all add: is_clipped_P_def plane_dot_def)
qed

lemma is_clipped_char:
  assumes "int (length pos) = n"
  shows "is_clipped n pos =
    (\<exists>p<6. \<forall>i<length pos. 0 < plane_dot (is_clipped_P ! p) (pos ! i))"
proof -
  from assms have n0: "0 \<le> n" by simp
  have "is_clipped n pos =
    (\<exists>q. 0 \<le> q \<and> q < 6 \<and>
      (\<forall>j. 0 \<le> j \<and> j < n \<longrightarrow> 0 < plane_dot (is_clipped_P ! nat q) (pos ! nat j)))"
    unfolding is_clipped_def using is_clipped_outer_ex [of 0 n pos] n0 by simp
  also have "\<dots> = (\<exists>p<6. \<forall>i<length pos. 0 < plane_dot (is_clipped_P ! p) (pos ! i))"
  proof
    assume "\<exists>q. 0 \<le> q \<and> q < 6 \<and>
      (\<forall>j. 0 \<le> j \<and> j < n \<longrightarrow> 0 < plane_dot (is_clipped_P ! nat q) (pos ! nat j))"
    then obtain q where q: "0 \<le> q" "q < 6"
      and all: "\<forall>j. 0 \<le> j \<and> j < n \<longrightarrow> 0 < plane_dot (is_clipped_P ! nat q) (pos ! nat j)"
      by blast
    have "\<forall>i<length pos. 0 < plane_dot (is_clipped_P ! nat q) (pos ! i)"
    proof (intro allI impI)
      fix i assume "i < length pos"
      with assms all have "0 < plane_dot (is_clipped_P ! nat q) (pos ! nat (int i))"
        by (intro all [rule_format]) simp
      then show "0 < plane_dot (is_clipped_P ! nat q) (pos ! i)" by simp
    qed
    moreover from q have "nat q < 6" by simp
    ultimately show "\<exists>p<6. \<forall>i<length pos. 0 < plane_dot (is_clipped_P ! p) (pos ! i)"
      by blast
  next
    assume "\<exists>p<6. \<forall>i<length pos. 0 < plane_dot (is_clipped_P ! p) (pos ! i)"
    then obtain p where p: "p < 6"
      and all: "\<forall>i<length pos. 0 < plane_dot (is_clipped_P ! p) (pos ! i)"
      by blast
    have "\<forall>j. 0 \<le> j \<and> j < n \<longrightarrow> 0 < plane_dot (is_clipped_P ! nat (int p)) (pos ! nat j)"
    proof (intro allI impI)
      fix j :: int assume "0 \<le> j \<and> j < n"
      with assms have "nat j < length pos" by (auto simp: nat_less_iff)
      with all show "0 < plane_dot (is_clipped_P ! nat (int p)) (pos ! nat j)" by simp
    qed
    moreover from p have "0 \<le> int p \<and> int p < 6" by simp
    ultimately show "\<exists>q. 0 \<le> q \<and> q < 6 \<and>
      (\<forall>j. 0 \<le> j \<and> j < n \<longrightarrow> 0 < plane_dot (is_clipped_P ! nat q) (pos ! nat j))"
      by blast
  qed
  finally show ?thesis .
qed

lemma ex_less_6:
  "(\<exists>p<6. Q p) = (Q 0 \<or> Q 1 \<or> Q 2 \<or> Q 3 \<or> Q 4 \<or> Q (5::nat))"
proof
  assume "\<exists>p<6. Q p"
  then obtain p where p: "p < 6" "Q p" by blast
  then consider "p = 0" | "p = 1" | "p = 2" | "p = 3" | "p = 4" | "p = 5" by linarith
  with p show "Q 0 \<or> Q 1 \<or> Q 2 \<or> Q 3 \<or> Q 4 \<or> Q 5" by cases auto
next
  assume "Q 0 \<or> Q 1 \<or> Q 2 \<or> Q 3 \<or> Q 4 \<or> Q 5"
  moreover have "(0::nat) < 6" "(1::nat) < 6" "(2::nat) < 6" "(3::nat) < 6" "(4::nat) < 6" "(5::nat) < 6"
    by simp_all
  ultimately show "\<exists>p<6. Q p" by blast
qed

lemma plane_dot_planes:
  "plane_dot (is_clipped_P ! 0) (x, y, z, w) = - x - w"
  "plane_dot (is_clipped_P ! 1) (x, y, z, w) = x - w"
  "plane_dot (is_clipped_P ! 2) (x, y, z, w) = - y - w"
  "plane_dot (is_clipped_P ! 3) (x, y, z, w) = y - w"
  "plane_dot (is_clipped_P ! 4) (x, y, z, w) = - z - w"
  "plane_dot (is_clipped_P ! 5) (x, y, z, w) = z - w"
  by (simp_all add: is_clipped_P_def plane_dot_def)

lemma all_nth_plane:
  "(\<forall>i<length pos. 0 < plane_dot pl (pos ! i)) = (\<forall>v\<in>set pos. 0 < plane_dot pl v)"
  by (simp add: all_set_conv_all_nth)

lemma is_clipped_planes:
  assumes "int (length pos) = n"
  shows "is_clipped n pos =
    ((\<forall>(x, y, z, w)\<in>set pos. - x - w > 0) \<or> (\<forall>(x, y, z, w)\<in>set pos. x - w > 0) \<or>
     (\<forall>(x, y, z, w)\<in>set pos. - y - w > 0) \<or> (\<forall>(x, y, z, w)\<in>set pos. y - w > 0) \<or>
     (\<forall>(x, y, z, w)\<in>set pos. - z - w > 0) \<or> (\<forall>(x, y, z, w)\<in>set pos. z - w > 0))"
proof -
  have e: "(\<forall>v\<in>set pos. 0 < plane_dot pl v) =
      (\<forall>(x, y, z, w)\<in>set pos. 0 < plane_dot pl (x, y, z, w))" for pl
    by auto
  show ?thesis
    unfolding is_clipped_char [OF assms] ex_less_6 all_nth_plane e plane_dot_planes
    by (rule refl)
qed

text \<open>
  Claim C3. For \<open>n \<ge> 1\<close> points \<open>(x, y, z, w)\<close> in clip space, \<^verbatim>\<open>is_clipped\<close> reports the shape
  fully clipped exactly when one of the six canonical planes is violated by every point
  (\<open>plane \<cdot> point > 0\<close>, the planes being those of \<open>\<plusminus>x \<le> w\<close>, \<open>\<plusminus>y \<le> w\<close>, \<open>\<plusminus>z \<le> w\<close>: the dot
  products are \<open>- x - w\<close>, \<open>x - w\<close>, \<open>- y - w\<close>, \<open>y - w\<close>, \<open>- z - w\<close>, \<open>z - w\<close>); as a consequence a
  list of points that contains \<open>(0, 0, 0, 1)\<close> is never reported fully clipped.
\<close>

theorem is_clipped_iff_one_plane_rejects_all:
  "1 \<le> n \<Longrightarrow> int (length pos) = n \<Longrightarrow>
   (is_clipped n pos =
      ((\<forall>(x, y, z, w)\<in>set pos. - x - w > 0) \<or> (\<forall>(x, y, z, w)\<in>set pos. x - w > 0) \<or>
       (\<forall>(x, y, z, w)\<in>set pos. - y - w > 0) \<or> (\<forall>(x, y, z, w)\<in>set pos. y - w > 0) \<or>
       (\<forall>(x, y, z, w)\<in>set pos. - z - w > 0) \<or> (\<forall>(x, y, z, w)\<in>set pos. z - w > 0))) \<and>
   ((0, 0, 0, 1) \<in> set pos \<longrightarrow> \<not> is_clipped n pos)"
proof (intro conjI impI)
  assume len: "int (length pos) = n"
  then show char: "is_clipped n pos =
      ((\<forall>(x, y, z, w)\<in>set pos. - x - w > 0) \<or> (\<forall>(x, y, z, w)\<in>set pos. x - w > 0) \<or>
       (\<forall>(x, y, z, w)\<in>set pos. - y - w > 0) \<or> (\<forall>(x, y, z, w)\<in>set pos. y - w > 0) \<or>
       (\<forall>(x, y, z, w)\<in>set pos. - z - w > 0) \<or> (\<forall>(x, y, z, w)\<in>set pos. z - w > 0))"
    by (rule is_clipped_planes)
  assume o: "(0, 0, 0, 1) \<in> set pos"
  show "\<not> is_clipped n pos"
    unfolding char using o by fastforce
qed

text \<open>
  Three lists of two points: both beyond the plane \<open>x \<le> w\<close> (clipped); one beyond that
  plane and the origin of the clip space (not clipped); one beyond \<open>x \<le> w\<close> and one beyond
  \<open>- x \<le> w\<close>, so that each point is clipped and no plane rejects both (not clipped).
\<close>

theorem is_clipped_iff_one_plane_rejects_all_witness:
  "(1::int) \<le> 2 \<and>
   int (length [(3, 0, 0, 1), (2, 1, 0, 1::real)]) = 2 \<and>
   is_clipped 2 [(3, 0, 0, 1), (2, 1, 0, 1)] \<and>
   int (length [(2, 0, 0, 1), (0, 0, 0, 1::real)]) = 2 \<and>
   (0, 0, 0, 1) \<in> set [(2, 0, 0, 1), (0, 0, 0, 1::real)] \<and>
   \<not> is_clipped 2 [(2, 0, 0, 1), (0, 0, 0, 1)] \<and>
   int (length [(3, 0, 0, 1), (- 3, 0, 0, 1::real)]) = 2 \<and>
   \<not> is_clipped 2 [(3, 0, 0, 1), (- 3, 0, 0, 1)]"
proof -
  have h1: "(1::int) \<le> 2" by simp
  have a: "int (length [(3, 0, 0, 1), (2, 1, 0, 1::real)]) = 2" by simp
  have b: "int (length [(2, 0, 0, 1), (0, 0, 0, 1::real)]) = 2" by simp
  have c: "int (length [(3, 0, 0, 1), (- 3, 0, 0, 1::real)]) = 2" by simp
  have o: "(0, 0, 0, 1) \<in> set [(2, 0, 0, 1), (0, 0, 0, 1::real)]" by simp
  from is_clipped_iff_one_plane_rejects_all [OF h1 a]
  have ra: "is_clipped 2 [(3, 0, 0, 1), (2, 1, 0, 1)]" by simp
  from is_clipped_iff_one_plane_rejects_all [OF h1 b] o
  have rb: "\<not> is_clipped 2 [(2, 0, 0, 1), (0, 0, 0, 1)]" by blast
  from is_clipped_iff_one_plane_rejects_all [OF h1 c]
  have rc: "\<not> is_clipped 2 [(3, 0, 0, 1), (- 3, 0, 0, 1)]" by simp
  from h1 a b c o ra rb rc show ?thesis by blast
qed
subsection \<open>The 2D tests\<close>

text \<open>
  Properties of the rounding: to an integer, \<open>round_even\<close> is monotone and odd and
  leaves the integers as they are; the search of \<open>binade\<close> finds the binade of its
  argument; \<open>double_round\<close> is monotone and odd.
\<close>

lemma round_even_bounds: "\<lfloor>q\<rfloor> \<le> round_even q \<and> round_even q \<le> \<lfloor>q\<rfloor> + 1"
  by (simp add: round_even_def Let_def)

lemma round_even_of_int [simp]: "round_even (of_int n) = n"
  by (simp add: round_even_def)

lemma round_even_0 [simp]: "round_even 0 = 0"
  by (simp add: round_even_def)

lemma round_even_numeral [simp]: "round_even (numeral n) = numeral n"
  using round_even_of_int [of "numeral n"] by simp

lemma round_even_mono: "q \<le> q' \<Longrightarrow> round_even q \<le> round_even q'"
proof -
  assume le: "q \<le> q'"
  then have fl: "\<lfloor>q\<rfloor> \<le> \<lfloor>q'\<rfloor>" by (rule floor_mono)
  show ?thesis
  proof (cases "\<lfloor>q\<rfloor> = \<lfloor>q'\<rfloor>")
    case True
    with le have "q - of_int \<lfloor>q\<rfloor> \<le> q' - of_int \<lfloor>q'\<rfloor>" by simp
    with True show ?thesis by (auto simp: round_even_def Let_def)
  next
    case False
    with fl have "\<lfloor>q\<rfloor> + 1 \<le> \<lfloor>q'\<rfloor>" by simp
    with round_even_bounds [of q] round_even_bounds [of q'] show ?thesis by linarith
  qed
qed

lemma round_even_minus: "round_even (- q) = - round_even q"
proof (cases "q \<in> \<int>")
  case True
  then obtain n where "q = of_int n" by (auto elim: Ints_cases)
  then have "- q = of_int (- n)" by simp
  then show ?thesis unfolding \<open>q = of_int n\<close> by (simp only: round_even_of_int)
next
  case False
  then have ne: "q \<noteq> of_int \<lfloor>q\<rfloor>" by (metis Ints_of_int)
  then have f: "\<lfloor>- q\<rfloor> = - \<lfloor>q\<rfloor> - 1"
    by (simp add: floor_minus ceiling_altdef)
  have d: "- q - of_int (- \<lfloor>q\<rfloor> - 1) = 1 - (q - of_int \<lfloor>q\<rfloor>)" by simp
  show ?thesis
    unfolding round_even_def Let_def f d by auto
qed

lemma binade_from_range: "e \<le> binade_from n e a \<and> binade_from n e a \<le> e + int n"
proof (induction n arbitrary: e)
  case 0
  show ?case by simp
next
  case (Suc n)
  from Suc [of "e + 1"] show ?case by auto
qed

lemma binade_from_upper:
  "binade_from n e a < e + int n \<Longrightarrow> a < 2 powi (binade_from n e a + 1)"
proof (induction n arbitrary: e)
  case 0
  then show ?case by simp
next
  case (Suc n)
  show ?case
  proof (cases "a < 2 powi (e + 1)")
    case True
    then show ?thesis by simp
  next
    case False
    with Suc.prems have "binade_from n (e + 1) a < e + 1 + int n" by simp
    then have "a < 2 powi (binade_from n (e + 1) a + 1)" by (rule Suc.IH)
    with False show ?thesis by simp
  qed
qed

lemma binade_from_lower:
  "e < binade_from n e a \<Longrightarrow> 2 powi (binade_from n e a) \<le> a"
proof (induction n arbitrary: e)
  case 0
  then show ?case by simp
next
  case (Suc n)
  show ?case
  proof (cases "a < 2 powi (e + 1)")
    case True
    with Suc.prems show ?thesis by simp
  next
    case False
    then have r: "binade_from (Suc n) e a = binade_from n (e + 1) a" by simp
    show ?thesis
    proof (cases "e + 1 < binade_from n (e + 1) a")
      case True
      then have "2 powi (binade_from n (e + 1) a) \<le> a" by (rule Suc.IH)
      with r show ?thesis by simp
    next
      case False
      with binade_from_range [of "e + 1" n a] have "binade_from n (e + 1) a = e + 1" by simp
      with r \<open>\<not> a < 2 powi (e + 1)\<close> show ?thesis by simp
    qed
  qed
qed

lemma binade_from_mono: "a \<le> b \<Longrightarrow> binade_from n e a \<le> binade_from n e b"
proof (induction n arbitrary: e)
  case 0
  show ?case by simp
next
  case (Suc n)
  show ?case
  proof (cases "a < 2 powi (e + 1)")
    case True
    with binade_from_range [of e "Suc n" b] show ?thesis by simp
  next
    case False
    with Suc.prems have "\<not> b < 2 powi (e + 1)" by simp
    with False Suc.IH [OF Suc.prems, of "e + 1"] show ?thesis by simp
  qed
qed

lemma binade_range: "- 1022 \<le> binade a \<and> binade a \<le> 1023"
  using binade_from_range [of "- 1022" 2045 a] by (simp add: binade_def)

lemma binade_upper: "binade a < 1023 \<Longrightarrow> a < 2 powi (binade a + 1)"
  unfolding binade_def by (rule binade_from_upper) simp

lemma binade_lower: "- 1022 < binade a \<Longrightarrow> 2 powi (binade a) \<le> a"
  unfolding binade_def by (rule binade_from_lower)

lemma binade_mono: "a \<le> b \<Longrightarrow> binade a \<le> binade b"
  unfolding binade_def by (rule binade_from_mono)

lemma binade_eq:
  assumes "2 powi e \<le> a" and "a < 2 powi (e + 1)" and "- 1022 \<le> e" and "e \<le> 1023"
  shows "binade a = e"
proof (rule ccontr)
  assume ne: "binade a \<noteq> e"
  show False
  proof (cases "binade a < e")
    case True
    with assms(4) have "binade a < 1023" by simp
    then have "a < 2 powi (binade a + 1)" by (rule binade_upper)
    also from True have "(2::real) powi (binade a + 1) \<le> 2 powi e"
      by (intro power_int_increasing) simp_all
    finally show False using assms(1) by simp
  next
    case False
    with ne have gt: "e < binade a" by simp
    with assms(3) have "- 1022 < binade a" by simp
    then have "2 powi (binade a) \<le> a" by (rule binade_lower)
    moreover from gt have "(2::real) powi (e + 1) \<le> 2 powi (binade a)"
      by (intro power_int_increasing) simp_all
    ultimately show False using assms(2) by simp
  qed
qed

lemma double_ulp_pos: "0 < double_ulp x"
  by (simp add: double_ulp_def zero_less_power_int)

lemma pow2_53: "(2::real) powi (e + 1) = 2 ^ 53 * 2 powi (e - 52)"
proof -
  have "(2::real) powi (53 + (e - 52)) = 2 powi 53 * 2 powi (e - 52)"
    by (rule power_int_add) simp
  then show ?thesis by (simp add: add.commute)
qed

lemma pow2_52: "(2::real) powi e = 2 ^ 52 * 2 powi (e - 52)"
proof -
  have "(2::real) powi (52 + (e - 52)) = 2 powi 52 * 2 powi (e - 52)"
    by (rule power_int_add) simp
  then show ?thesis by simp
qed

lemma double_round_minus: "double_round (- x) = - double_round x"
  by (simp add: double_round_def double_ulp_def round_even_minus)

lemma double_round_nonneg: "0 \<le> x \<Longrightarrow> 0 \<le> double_round x"
proof -
  assume "0 \<le> x"
  with double_ulp_pos [of x] have "0 \<le> x / double_ulp x" by simp
  then have "0 \<le> round_even (x / double_ulp x)"
    using round_even_mono [of 0 "x / double_ulp x"] by simp
  with double_ulp_pos [of x] show ?thesis by (simp add: double_round_def)
qed

lemma double_round_mono_nonneg:
  assumes "0 \<le> x" and "x \<le> y"
  shows "double_round x \<le> double_round y"
proof -
  from assms have y0: "0 \<le> y" by simp
  from assms have ax: "\<bar>x\<bar> = x" and ay: "\<bar>y\<bar> = y" by simp_all
  have le: "binade x \<le> binade y" using assms(2) by (rule binade_mono)
  show ?thesis
  proof (cases "binade x = binade y")
    case True
    then have u: "double_ulp x = double_ulp y" by (simp add: double_ulp_def ax ay)
    from assms(2) double_ulp_pos [of y] have "x / double_ulp y \<le> y / double_ulp y"
      by (simp add: divide_right_mono)
    then have "round_even (x / double_ulp y) \<le> round_even (y / double_ulp y)"
      by (rule round_even_mono)
    with double_ulp_pos [of y] show ?thesis
      by (simp add: double_round_def u)
  next
    case False
    with le have lt: "binade x < binade y" by simp
    let ?ux = "(2::real) powi (binade x - 52)"
    let ?uy = "(2::real) powi (binade y - 52)"
    have ux: "0 < ?ux" and uy: "0 < ?uy" by (simp_all add: zero_less_power_int)
    from lt binade_range [of y] have "binade x < 1023" by simp
    then have "x < 2 powi (binade x + 1)" by (rule binade_upper)
    then have "x < 2 ^ 53 * ?ux" unfolding pow2_53 .
    then have "x \<le> of_int (2 ^ 53) * ?ux" by simp
    with ux have "x / ?ux \<le> of_int (2 ^ 53)" by (simp add: pos_divide_le_eq)
    then have "round_even (x / ?ux) \<le> 2 ^ 53"
      using round_even_mono [of "x / ?ux" "of_int (2 ^ 53)"] by simp
    then have "of_int (round_even (x / ?ux)) * ?ux \<le> of_int (2 ^ 53) * ?ux"
      using ux by (intro mult_right_mono) simp_all
    then have a: "double_round x \<le> 2 powi (binade x + 1)"
      unfolding pow2_53 by (simp add: double_round_def double_ulp_def ax)
    from lt binade_range [of x] have "- 1022 < binade y" by simp
    then have "2 powi (binade y) \<le> y" by (rule binade_lower)
    then have "2 ^ 52 * ?uy \<le> y" unfolding pow2_52 [of "binade y"] .
    then have "of_int (2 ^ 52) * ?uy \<le> y" by simp
    with uy have "of_int (2 ^ 52) \<le> y / ?uy" by (simp add: pos_le_divide_eq)
    then have "2 ^ 52 \<le> round_even (y / ?uy)"
      using round_even_mono [of "of_int (2 ^ 52)" "y / ?uy"] by simp
    then have "of_int (2 ^ 52) * ?uy \<le> of_int (round_even (y / ?uy)) * ?uy"
      using uy by (intro mult_right_mono) simp_all
    then have b: "2 powi (binade y) \<le> double_round y"
      unfolding pow2_52 [of "binade y"] by (simp add: double_round_def double_ulp_def ay)
    from lt have "(2::real) powi (binade x + 1) \<le> 2 powi (binade y)"
      by (intro power_int_increasing) simp_all
    with a b show ?thesis by linarith
  qed
qed

lemma double_round_mono: "x \<le> y \<Longrightarrow> double_round x \<le> double_round y"
proof -
  assume le: "x \<le> y"
  consider "0 \<le> x" | "y \<le> 0" | "x < 0" "0 < y" by linarith
  then show ?thesis
  proof cases
    case 1
    then show ?thesis using le by (rule double_round_mono_nonneg)
  next
    case 2
    with le have "0 \<le> - y" "- y \<le> - x" by simp_all
    then have "double_round (- y) \<le> double_round (- x)" by (rule double_round_mono_nonneg)
    then show ?thesis by (simp add: double_round_minus)
  next
    case 3
    then have "0 \<le> double_round (- x)" "0 \<le> double_round y"
      by (simp_all add: double_round_nonneg)
    then show ?thesis by (simp add: double_round_minus)
  qed
qed

lemma double_round_abs: "\<bar>double_round x\<bar> = double_round \<bar>x\<bar>"
proof (cases "0 \<le> x")
  case True
  then show ?thesis by (simp add: double_round_nonneg)
next
  case False
  then have "0 \<le> double_round (- x)" by (simp add: double_round_nonneg)
  with False show ?thesis by (simp add: double_round_minus abs_if)
qed

lemma double_round_exact:
  assumes "2 powi e \<le> \<bar>x\<bar>" and "\<bar>x\<bar> < 2 powi (e + 1)" and "- 1022 \<le> e" and "e \<le> 1023"
    and "x / 2 powi (e - 52) = of_int k"
  shows "double_round x = x"
proof -
  have b: "binade \<bar>x\<bar> = e" using assms(1-4) by (rule binade_eq)
  have "(2::real) powi (e - 52) \<noteq> 0" by simp
  with assms(5) have "x = of_int k * 2 powi (e - 52)" by (simp add: field_simps)
  then show ?thesis unfolding double_round_def double_ulp_def b assms(5) by simp
qed

lemma double_round_0 [simp]: "double_round 0 = 0"
  by (simp add: double_round_def)

lemma max_double_pos: "0 < max_double"
  by (simp add: max_double_def)

lemma to_double_finite:
  "\<bar>double_round x\<bar> \<le> max_double \<Longrightarrow> to_double x = Finite (double_round x)"
  by (auto simp: to_double_def Let_def)

lemma is_double_round: "is_double d \<Longrightarrow> double_round d = d \<and> \<bar>d\<bar> \<le> max_double"
  by (auto simp: is_double_def to_double_def Let_def split: if_splits)

lemma is_double_exact:
  assumes "2 powi e \<le> \<bar>x\<bar>" and "\<bar>x\<bar> < 2 powi (e + 1)" and "- 1022 \<le> e" and "e \<le> 1023"
    and "x / 2 powi (e - 52) = of_int k" and "\<bar>x\<bar> \<le> max_double"
  shows "is_double x"
proof -
  have "double_round x = x" using assms(1-5) by (rule double_round_exact)
  with assms(6) show ?thesis by (simp add: is_double_def to_double_finite)
qed

lemma is_double_0: "is_double 0"
  using max_double_pos by (simp add: is_double_def to_double_def)

text \<open>The integers below \<open>2\<^sup>5\<^sup>3\<close> in magnitude are binary64 values.\<close>

lemma binade_1: "binade 1 = 0"
  by (rule binade_eq) simp_all

lemma is_double_of_int:
  assumes "\<bar>n\<bar> < 2 ^ 53"
  shows "is_double (of_int n)"
proof (cases "n = 0")
  case True
  then show ?thesis by (simp add: is_double_0)
next
  case False
  define a :: real where "a = \<bar>of_int n\<bar>"
  define b where "b = binade a"
  from False have a1: "1 \<le> a" by (simp add: a_def)
  from assms have a53: "a < 2 ^ 53"
    unfolding a_def by (metis of_int_abs of_int_less_numeral_power_cancel_iff)
  from binade_mono [OF a1] have b0: "0 \<le> b" by (simp add: b_def binade_1)
  have b52: "b \<le> 52"
  proof (rule ccontr)
    assume "\<not> b \<le> 52"
    then have b53: "53 \<le> b" by simp
    then have "- 1022 < binade a" by (simp add: b_def)
    then have "2 powi b \<le> a" unfolding b_def by (rule binade_lower)
    moreover from b53 have "(2::real) powi 53 \<le> 2 powi b" by (intro power_int_increasing) simp_all
    ultimately show False using a53 by simp
  qed
  define k where "k = nat (52 - b)"
  from b0 b52 have kb: "b - 52 = - int k" by (simp add: k_def)
  have u: "(2::real) powi (b - 52) = 1 / 2 ^ k"
    unfolding kb by (simp add: power_int_minus field_simps)
  have q: "of_int n / (2::real) powi (b - 52) = of_int (n * 2 ^ k)"
    unfolding u by simp
  have "double_round (of_int n) = of_int n"
    unfolding double_round_def double_ulp_def a_def [symmetric] b_def [symmetric] q round_even_of_int
    unfolding u by simp
  moreover from a53 have "\<bar>of_int n :: real\<bar> \<le> max_double"
    unfolding a_def [symmetric] max_double_def by simp
  ultimately show ?thesis by (simp add: is_double_def to_double_finite)
qed

lemma is_double_numeral: "numeral k < (2::int) ^ 53 \<Longrightarrow> is_double (numeral k)"
  using is_double_of_int [of "numeral k"] by simp

lemma double_round_binade:
  assumes "2 powi e \<le> \<bar>x\<bar>" and "\<bar>x\<bar> < 2 powi (e + 1)" and "- 1022 \<le> e" and "e \<le> 1023"
  shows "double_round x = of_int (round_even (x / 2 powi (e - 52))) * 2 powi (e - 52)"
proof -
  have "binade \<bar>x\<bar> = e" using assms by (rule binade_eq)
  then show ?thesis by (simp add: double_round_def double_ulp_def)
qed

text \<open>
  The two comparisons of \<^verbatim>\<open>intersect_circle_rect\<close> against exact arithmetic. When the
  exact distance \<open>\<bar>a\<bar>\<close> is at most the exact bound \<open>b\<close>, the rounded distance does not
  exceed the rounded bound, and it is at most \<open>b\<close> itself when \<open>b\<close> is a binary64 value.
\<close>

lemma double_gt_PlusInf [simp]: "double_gt v PlusInf = False"
  by (cases v) simp_all

lemma double_gt_sound:
  assumes "\<bar>a\<bar> \<le> b"
  shows "\<not> double_gt (double_fabs (to_double a)) (to_double b)"
proof -
  from assms have "double_round \<bar>a\<bar> \<le> double_round b" by (rule double_round_mono)
  then have le: "\<bar>double_round a\<bar> \<le> double_round b" by (simp add: double_round_abs)
  show ?thesis
  proof (cases "max_double < double_round b")
    case True
    then have "to_double b = PlusInf" by (simp add: to_double_def)
    then show ?thesis by simp
  next
    case False
    with le have m: "\<bar>double_round b\<bar> \<le> max_double" "\<bar>double_round a\<bar> \<le> max_double" by simp_all
    with le show ?thesis by (simp add: to_double_finite)
  qed
qed

lemma double_le_complete:
  assumes "\<bar>a\<bar> \<le> b" and "is_double b"
  shows "double_le (double_fabs (to_double a)) (Finite b)"
proof -
  from assms(2) have b: "double_round b = b" "\<bar>b\<bar> \<le> max_double"
    using is_double_round by simp_all
  from assms(1) have "double_round \<bar>a\<bar> \<le> double_round b" by (rule double_round_mono)
  with b have le: "\<bar>double_round a\<bar> \<le> b" by (simp add: double_round_abs)
  with b have "\<bar>double_round a\<bar> \<le> max_double" by simp
  with le show ?thesis by (simp add: to_double_finite)
qed

text \<open>
  \<^verbatim>\<open>painter_is_2d_circle_clipped\<close> on a window whose half sizes are binary64 values (the
  divisions by 2 are then exact): the four tests of \<^verbatim>\<open>intersect_circle_rect\<close>.
\<close>

lemma painter_is_2d_circle_clipped_tests:
  assumes "window_size (proj painter) = (W, H)" and "is_double (W / 2)" and "is_double (H / 2)"
  shows "painter_is_2d_circle_clipped painter (x, y) r =
    (\<not> (if double_gt (double_fabs (to_double (x - W / 2))) (to_double (W / 2 + r)) then False
         else if double_gt (double_fabs (to_double (y - H / 2))) (to_double (H / 2 + r)) then False
         else if double_le (double_fabs (to_double (x - W / 2))) (Finite (W / 2)) then True
         else if double_le (double_fabs (to_double (y - H / 2))) (Finite (H / 2)) then True
         else double_le
                (double_add
                   (sqr (double_sub (double_fabs (to_double (x - W / 2))) (Finite (W / 2))))
                   (sqr (double_sub (double_fabs (to_double (y - H / 2))) (Finite (H / 2)))))
                (double_mul (Finite r) (Finite r))))"
proof -
  from assms(2) have w: "to_double (W / 2) = Finite (W / 2)" by (simp add: is_double_def)
  from assms(3) have h: "to_double (H / 2) = Finite (H / 2)" by (simp add: is_double_def)
  show ?thesis
    by (simp add: painter_is_2d_circle_clipped_def intersect_circle_rect_def assms(1) Let_def w h)
qed

lemma circle_beyond_band:
  fixes hw r x y :: real
  assumes "hw + r < \<bar>x - hw\<bar>" and "0 \<le> r"
  shows "\<not> (\<exists>a b. 0 \<le> a \<and> a \<le> 2 * hw \<and> P b \<and> (a - x)\<^sup>2 + (b - y)\<^sup>2 \<le> r\<^sup>2)"
proof
  assume "\<exists>a b. 0 \<le> a \<and> a \<le> 2 * hw \<and> P b \<and> (a - x)\<^sup>2 + (b - y)\<^sup>2 \<le> r\<^sup>2"
  then obtain a b where a: "0 \<le> a" "a \<le> 2 * hw" and le: "(a - x)\<^sup>2 + (b - y)\<^sup>2 \<le> r\<^sup>2"
    by blast
  from a have "\<bar>a - hw\<bar> \<le> hw" by linarith
  with assms(1) have "r < \<bar>a - x\<bar>" by linarith
  with assms(2) have "r\<^sup>2 < \<bar>a - x\<bar>\<^sup>2" by (intro power_strict_mono) simp_all
  then have "r\<^sup>2 < (a - x)\<^sup>2" by simp
  moreover have "0 \<le> (b - y)\<^sup>2" by simp
  ultimately show False using le by linarith
qed

text \<open>
  The test in exact arithmetic: the circle meets the window rectangle exactly when the
  excesses of the centre beyond the rectangle, along the two axes, have a sum of
  squares that is at most the square of the radius; and the four comparisons and the
  corner test of \<^verbatim>\<open>intersect_circle_rect\<close>, when none of their operands is rounded,
  decide just that.
\<close>

lemma sq_le_sq: "0 \<le> a \<Longrightarrow> a \<le> b \<Longrightarrow> a * a \<le> b * (b::real)"
  by (rule mult_mono) auto

lemma sq_lt_sq: "0 \<le> a \<Longrightarrow> a < b \<Longrightarrow> a * a < b * (b::real)"
  by (rule mult_strict_mono') auto

lemma sq_abs_ge: "e \<le> \<bar>d\<bar> \<Longrightarrow> 0 \<le> e \<Longrightarrow> e * e \<le> d * (d::real)"
proof -
  assume "e \<le> \<bar>d\<bar>" "0 \<le> e"
  then have "e * e \<le> \<bar>d\<bar> * \<bar>d\<bar>" by (rule sq_le_sq [rotated])
  then show ?thesis by simp
qed

text \<open>The distance from a coordinate to the interval \<open>[0, w]\<close> along one axis.\<close>

lemma axis_excess:
  fixes x w q :: real
  assumes "0 \<le> q" "q \<le> w"
  shows "max 0 (\<bar>x - w / 2\<bar> - w / 2) \<le> \<bar>q - x\<bar>"
  using assms by (auto simp: abs_if max_def split: if_splits)

lemma axis_clamp:
  fixes x w :: real
  assumes "0 \<le> w"
  shows "\<exists>q. 0 \<le> q \<and> q \<le> w \<and> \<bar>q - x\<bar> = max 0 (\<bar>x - w / 2\<bar> - w / 2)"
proof -
  have "0 \<le> max 0 (min w x) \<and> max 0 (min w x) \<le> w \<and>
        \<bar>max 0 (min w x) - x\<bar> = max 0 (\<bar>x - w / 2\<bar> - w / 2)"
    using assms by (auto simp: abs_if max_def min_def split: if_splits)
  then show ?thesis by blast
qed

lemma circle_rect_dist:
  fixes x y w h r :: real
  assumes "0 \<le> w" "0 \<le> h"
  shows "(\<exists>qx qy. 0 \<le> qx \<and> qx \<le> w \<and> 0 \<le> qy \<and> qy \<le> h \<and>
            (qx - x) * (qx - x) + (qy - y) * (qy - y) \<le> r * r) =
         (max 0 (\<bar>x - w / 2\<bar> - w / 2) * max 0 (\<bar>x - w / 2\<bar> - w / 2) +
          max 0 (\<bar>y - h / 2\<bar> - h / 2) * max 0 (\<bar>y - h / 2\<bar> - h / 2) \<le> r * r)"
    (is "?L = ?R")
proof
  assume ?L
  then obtain qx qy where q: "0 \<le> qx" "qx \<le> w" "0 \<le> qy" "qy \<le> h"
    "(qx - x) * (qx - x) + (qy - y) * (qy - y) \<le> r * r" by blast
  have "max 0 (\<bar>x - w / 2\<bar> - w / 2) * max 0 (\<bar>x - w / 2\<bar> - w / 2) \<le> (qx - x) * (qx - x)"
    using axis_excess [OF q(1,2), of x] by (intro sq_abs_ge) auto
  moreover
  have "max 0 (\<bar>y - h / 2\<bar> - h / 2) * max 0 (\<bar>y - h / 2\<bar> - h / 2) \<le> (qy - y) * (qy - y)"
    using axis_excess [OF q(3,4), of y] by (intro sq_abs_ge) auto
  ultimately show ?R using q(5) by linarith
next
  assume R: ?R
  from axis_clamp [OF assms(1), of x] obtain qx where
    qx: "0 \<le> qx" "qx \<le> w" "\<bar>qx - x\<bar> = max 0 (\<bar>x - w / 2\<bar> - w / 2)" by blast
  from axis_clamp [OF assms(2), of y] obtain qy where
    qy: "0 \<le> qy" "qy \<le> h" "\<bar>qy - y\<bar> = max 0 (\<bar>y - h / 2\<bar> - h / 2)" by blast
  have "(qx - x) * (qx - x) = \<bar>qx - x\<bar> * \<bar>qx - x\<bar>" by simp
  moreover have "(qy - y) * (qy - y) = \<bar>qy - y\<bar> * \<bar>qy - y\<bar>" by simp
  ultimately have "(qx - x) * (qx - x) + (qy - y) * (qy - y) \<le> r * r"
    using R qx(3) qy(3) by simp
  with qx qy show ?L by blast
qed


lemma circle_tests_excess:
  fixes x y w h r :: real
  assumes "0 \<le> r"
  shows "(if \<bar>x - w / 2\<bar> > w / 2 + r then False
     else if \<bar>y - h / 2\<bar> > h / 2 + r then False
     else if \<bar>x - w / 2\<bar> \<le> w / 2 then True
     else if \<bar>y - h / 2\<bar> \<le> h / 2 then True
     else (\<bar>x - w / 2\<bar> - w / 2) * (\<bar>x - w / 2\<bar> - w / 2) +
          (\<bar>y - h / 2\<bar> - h / 2) * (\<bar>y - h / 2\<bar> - h / 2) \<le> r * r) =
         (max 0 (\<bar>x - w / 2\<bar> - w / 2) * max 0 (\<bar>x - w / 2\<bar> - w / 2) +
          max 0 (\<bar>y - h / 2\<bar> - h / 2) * max 0 (\<bar>y - h / 2\<bar> - h / 2) \<le> r * r)"
proof -
  define dx where "dx = \<bar>x - w / 2\<bar>"
  define dy where "dy = \<bar>y - h / 2\<bar>"
  have sq0: "0 \<le> a * a" for a :: real by simp
  consider (a) "dx > w / 2 + r" | (b) "dx \<le> w / 2 + r" "dy > h / 2 + r"
    | (c) "dx \<le> w / 2 + r" "dy \<le> h / 2 + r" "dx \<le> w / 2"
    | (d) "dx \<le> w / 2 + r" "dy \<le> h / 2 + r" "dx > w / 2" "dy \<le> h / 2"
    | (e) "dx \<le> w / 2 + r" "dy \<le> h / 2 + r" "dx > w / 2" "dy > h / 2"
    by linarith
  then have "(if dx > w / 2 + r then False
     else if dy > h / 2 + r then False
     else if dx \<le> w / 2 then True
     else if dy \<le> h / 2 then True
     else (dx - w / 2) * (dx - w / 2) + (dy - h / 2) * (dy - h / 2) \<le> r * r) =
         (max 0 (dx - w / 2) * max 0 (dx - w / 2) +
          max 0 (dy - h / 2) * max 0 (dy - h / 2) \<le> r * r)"
  proof cases
    case a
    with assms have "r * r < (dx - w / 2) * (dx - w / 2)" by (intro sq_lt_sq) auto
    moreover from a assms have "max 0 (dx - w / 2) = dx - w / 2" by simp
    ultimately have "\<not> (max 0 (dx - w / 2) * max 0 (dx - w / 2) +
        max 0 (dy - h / 2) * max 0 (dy - h / 2) \<le> r * r)"
      using sq0 [of "max 0 (dy - h / 2)"] by linarith
    with a show ?thesis by simp
  next
    case b
    with assms have "r * r < (dy - h / 2) * (dy - h / 2)" by (intro sq_lt_sq) auto
    moreover from b assms have "max 0 (dy - h / 2) = dy - h / 2" by simp
    ultimately have "\<not> (max 0 (dx - w / 2) * max 0 (dx - w / 2) +
        max 0 (dy - h / 2) * max 0 (dy - h / 2) \<le> r * r)"
      using sq0 [of "max 0 (dx - w / 2)"] by linarith
    with b show ?thesis by simp
  next
    case c
    then have ex: "max 0 (dx - w / 2) = 0" by simp
    from c assms have "max 0 (dy - h / 2) \<le> r" by simp
    then have "max 0 (dy - h / 2) * max 0 (dy - h / 2) \<le> r * r" by (intro sq_le_sq) auto
    with ex c show ?thesis by simp
  next
    case d
    then have ey: "max 0 (dy - h / 2) = 0" by simp
    from d assms have "max 0 (dx - w / 2) \<le> r" by simp
    then have "max 0 (dx - w / 2) * max 0 (dx - w / 2) \<le> r * r" by (intro sq_le_sq) auto
    with ey d show ?thesis by simp
  next
    case e
    then have "max 0 (dx - w / 2) = dx - w / 2" "max 0 (dy - h / 2) = dy - h / 2" by simp_all
    with e show ?thesis by simp
  qed
  then show ?thesis unfolding dx_def dy_def .
qed

lemma painter_is_2d_circle_clipped_exact:
  assumes "window_size (proj painter) = (W, H)" and "is_double (W / 2)" and "is_double (H / 2)"
    and "0 \<le> r" and "0 \<le> W" and "0 \<le> H"
    and "is_double (x - W / 2)" and "is_double (y - H / 2)"
    and "is_double (W / 2 + r)" and "is_double (H / 2 + r)"
    and "is_double (\<bar>x - W / 2\<bar> - W / 2)" and "is_double (\<bar>y - H / 2\<bar> - H / 2)"
    and "is_double ((\<bar>x - W / 2\<bar> - W / 2)\<^sup>2)" and "is_double ((\<bar>y - H / 2\<bar> - H / 2)\<^sup>2)"
    and "is_double ((\<bar>x - W / 2\<bar> - W / 2)\<^sup>2 + (\<bar>y - H / 2\<bar> - H / 2)\<^sup>2)"
    and "is_double (r\<^sup>2)"
  shows "painter_is_2d_circle_clipped painter (x, y) r =
    (\<not> (\<exists>a b. 0 \<le> a \<and> a \<le> W \<and> 0 \<le> b \<and> b \<le> H \<and> (a - x)\<^sup>2 + (b - y)\<^sup>2 \<le> r\<^sup>2))"
proof -
  note d = assms(7-16) [unfolded is_double_def power2_eq_square]
  have "painter_is_2d_circle_clipped painter (x, y) r =
    (\<not> (if \<bar>x - W / 2\<bar> > W / 2 + r then False
     else if \<bar>y - H / 2\<bar> > H / 2 + r then False
     else if \<bar>x - W / 2\<bar> \<le> W / 2 then True
     else if \<bar>y - H / 2\<bar> \<le> H / 2 then True
     else (\<bar>x - W / 2\<bar> - W / 2) * (\<bar>x - W / 2\<bar> - W / 2) +
          (\<bar>y - H / 2\<bar> - H / 2) * (\<bar>y - H / 2\<bar> - H / 2) \<le> r * r))"
    unfolding painter_is_2d_circle_clipped_tests [OF assms(1-3)]
    by (simp add: d sqr_def)
  also have "\<dots> = (\<not> (\<exists>a b. 0 \<le> a \<and> a \<le> W \<and> 0 \<le> b \<and> b \<le> H \<and>
      (a - x) * (a - x) + (b - y) * (b - y) \<le> r * r))"
    by (simp only: circle_tests_excess [OF assms(4)] circle_rect_dist [OF assms(5,6)])
  finally show ?thesis by (simp only: power2_eq_square)
qed

text \<open>
  Claim C10, as amended. With window size \<open>(W, H)\<close>, \<^verbatim>\<open>painter_is_2d_point_clipped\<close> returns true
  exactly for the points with \<open>0 \<le> x \<le> W\<close> and \<open>0 \<le> y \<le> H\<close>, that is for the points inside
  the window. \<^verbatim>\<open>painter_is_2d_circle_clipped\<close> has the opposite polarity in this sense, for a
  radius \<open>r \<ge> 0\<close> and a window whose half sizes are binary64 values:
  \<^item> it returns false for every circle whose centre is inside the window;
  \<^item> when it returns true for a centre that is not diagonally beyond a corner of the
    window (\<open>0 \<le> x \<le> W\<close> or \<open>0 \<le> y \<le> H\<close>), no point of the window rectangle lies within
    distance \<open>r\<close> of the centre;
  \<^item> when no operation of the test rounds (the differences, sums and squares that it
    computes are binary64 values, as they are for integer coordinates of moderate
    size), it returns true exactly when no point of the window rectangle lies within
    distance \<open>r\<close> of the centre.
  It does not return true for every circle that misses the window: the distances are
  rounded before they are compared.
\<close>

theorem painter_2d_clip_tests_polarity:
  assumes "window_size (proj painter) = (W, H)" and "is_double (W / 2)" and "is_double (H / 2)"
    and "0 \<le> r"
  shows "(painter_is_2d_point_clipped painter (x, y) = (0 \<le> x \<and> x \<le> W \<and> 0 \<le> y \<and> y \<le> H)) \<and>
    (0 \<le> x \<and> x \<le> W \<and> 0 \<le> y \<and> y \<le> H \<longrightarrow> \<not> painter_is_2d_circle_clipped painter (x, y) r) \<and>
    ((0 \<le> x \<and> x \<le> W \<or> 0 \<le> y \<and> y \<le> H) \<and> painter_is_2d_circle_clipped painter (x, y) r \<longrightarrow>
       \<not> (\<exists>a b. 0 \<le> a \<and> a \<le> W \<and> 0 \<le> b \<and> b \<le> H \<and> (a - x)\<^sup>2 + (b - y)\<^sup>2 \<le> r\<^sup>2)) \<and>
    (0 \<le> W \<and> 0 \<le> H \<and>
     is_double (x - W / 2) \<and> is_double (y - H / 2) \<and>
     is_double (W / 2 + r) \<and> is_double (H / 2 + r) \<and>
     is_double (\<bar>x - W / 2\<bar> - W / 2) \<and> is_double (\<bar>y - H / 2\<bar> - H / 2) \<and>
     is_double ((\<bar>x - W / 2\<bar> - W / 2)\<^sup>2) \<and> is_double ((\<bar>y - H / 2\<bar> - H / 2)\<^sup>2) \<and>
     is_double ((\<bar>x - W / 2\<bar> - W / 2)\<^sup>2 + (\<bar>y - H / 2\<bar> - H / 2)\<^sup>2) \<and> is_double (r\<^sup>2) \<longrightarrow>
       painter_is_2d_circle_clipped painter (x, y) r =
         (\<not> (\<exists>a b. 0 \<le> a \<and> a \<le> W \<and> 0 \<le> b \<and> b \<le> H \<and> (a - x)\<^sup>2 + (b - y)\<^sup>2 \<le> r\<^sup>2)))"
proof (intro conjI impI)
  note tests = painter_is_2d_circle_clipped_tests [OF assms(1-3), of x y r]
  have inx: "\<not> double_gt (double_fabs (to_double (x - W / 2))) (to_double (W / 2 + r)) \<and>
      double_le (double_fabs (to_double (x - W / 2))) (Finite (W / 2))"
    if "0 \<le> x \<and> x \<le> W"
  proof -
    from that have a: "\<bar>x - W / 2\<bar> \<le> W / 2" by linarith
    with assms(4) have "\<bar>x - W / 2\<bar> \<le> W / 2 + r" by simp
    then have "\<not> double_gt (double_fabs (to_double (x - W / 2))) (to_double (W / 2 + r))"
      by (rule double_gt_sound)
    moreover from a assms(2)
    have "double_le (double_fabs (to_double (x - W / 2))) (Finite (W / 2))"
      by (rule double_le_complete)
    ultimately show ?thesis by simp
  qed
  have iny: "\<not> double_gt (double_fabs (to_double (y - H / 2))) (to_double (H / 2 + r)) \<and>
      double_le (double_fabs (to_double (y - H / 2))) (Finite (H / 2))"
    if "0 \<le> y \<and> y \<le> H"
  proof -
    from that have a: "\<bar>y - H / 2\<bar> \<le> H / 2" by linarith
    with assms(4) have "\<bar>y - H / 2\<bar> \<le> H / 2 + r" by simp
    then have "\<not> double_gt (double_fabs (to_double (y - H / 2))) (to_double (H / 2 + r))"
      by (rule double_gt_sound)
    moreover from a assms(3)
    have "double_le (double_fabs (to_double (y - H / 2))) (Finite (H / 2))"
      by (rule double_le_complete)
    ultimately show ?thesis by simp
  qed
  show "painter_is_2d_point_clipped painter (x, y) = (0 \<le> x \<and> x \<le> W \<and> 0 \<le> y \<and> y \<le> H)"
    using assms(1) by (auto simp: painter_is_2d_point_clipped_def)
  {
    assume "0 \<le> x \<and> x \<le> W \<and> 0 \<le> y \<and> y \<le> H"
    then have "0 \<le> x \<and> x \<le> W" "0 \<le> y \<and> y \<le> H" by simp_all
    from inx [OF this(1)] iny [OF this(2)]
    show "\<not> painter_is_2d_circle_clipped painter (x, y) r"
      unfolding tests by simp
  }
  {
    assume h: "(0 \<le> x \<and> x \<le> W \<or> 0 \<le> y \<and> y \<le> H) \<and> painter_is_2d_circle_clipped painter (x, y) r"
    then have clipped: "painter_is_2d_circle_clipped painter (x, y) r" by simp
    from h consider "0 \<le> x \<and> x \<le> W" | "0 \<le> y \<and> y \<le> H" by blast
    then show "\<not> (\<exists>a b. 0 \<le> a \<and> a \<le> W \<and> 0 \<le> b \<and> b \<le> H \<and> (a - x)\<^sup>2 + (b - y)\<^sup>2 \<le> r\<^sup>2)"
    proof cases
      case 1
      from clipped inx [OF 1]
      have "double_gt (double_fabs (to_double (y - H / 2))) (to_double (H / 2 + r))"
        unfolding tests by (simp split: if_splits)
      with double_gt_sound [of "y - H / 2" "H / 2 + r"] have "H / 2 + r < \<bar>y - H / 2\<bar>"
        by (cases "\<bar>y - H / 2\<bar> \<le> H / 2 + r") simp_all
      from circle_beyond_band [OF this assms(4), of "\<lambda>a. 0 \<le> a \<and> a \<le> W" x]
      have no: "\<not> (\<exists>b a. 0 \<le> b \<and> b \<le> 2 * (H / 2) \<and> (0 \<le> a \<and> a \<le> W) \<and>
          (b - y)\<^sup>2 + (a - x)\<^sup>2 \<le> r\<^sup>2)" .
      show ?thesis
      proof
        assume "\<exists>a b. 0 \<le> a \<and> a \<le> W \<and> 0 \<le> b \<and> b \<le> H \<and> (a - x)\<^sup>2 + (b - y)\<^sup>2 \<le> r\<^sup>2"
        then obtain a b where "0 \<le> a" "a \<le> W" "0 \<le> b" "b \<le> H"
          "(a - x)\<^sup>2 + (b - y)\<^sup>2 \<le> r\<^sup>2" by blast
        then have "0 \<le> b \<and> b \<le> 2 * (H / 2) \<and> (0 \<le> a \<and> a \<le> W) \<and>
          (b - y)\<^sup>2 + (a - x)\<^sup>2 \<le> r\<^sup>2" by simp
        with no show False by blast
      qed
    next
      case 2
      from clipped iny [OF 2]
      have "double_gt (double_fabs (to_double (x - W / 2))) (to_double (W / 2 + r))"
        unfolding tests by (simp split: if_splits)
      with double_gt_sound [of "x - W / 2" "W / 2 + r"] have "W / 2 + r < \<bar>x - W / 2\<bar>"
        by (cases "\<bar>x - W / 2\<bar> \<le> W / 2 + r") simp_all
      from circle_beyond_band [OF this assms(4), of "\<lambda>b. 0 \<le> b \<and> b \<le> H" y]
      have no: "\<not> (\<exists>a b. 0 \<le> a \<and> a \<le> 2 * (W / 2) \<and> (0 \<le> b \<and> b \<le> H) \<and>
          (a - x)\<^sup>2 + (b - y)\<^sup>2 \<le> r\<^sup>2)" .
      show ?thesis
      proof
        assume "\<exists>a b. 0 \<le> a \<and> a \<le> W \<and> 0 \<le> b \<and> b \<le> H \<and> (a - x)\<^sup>2 + (b - y)\<^sup>2 \<le> r\<^sup>2"
        then obtain a b where "0 \<le> a" "a \<le> W" "0 \<le> b" "b \<le> H"
          "(a - x)\<^sup>2 + (b - y)\<^sup>2 \<le> r\<^sup>2" by blast
        then have "0 \<le> a \<and> a \<le> 2 * (W / 2) \<and> (0 \<le> b \<and> b \<le> H) \<and>
          (a - x)\<^sup>2 + (b - y)\<^sup>2 \<le> r\<^sup>2" by simp
        with no show False by blast
      qed
    qed
  }
  assume e: "0 \<le> W \<and> 0 \<le> H \<and>
     is_double (x - W / 2) \<and> is_double (y - H / 2) \<and>
     is_double (W / 2 + r) \<and> is_double (H / 2 + r) \<and>
     is_double (\<bar>x - W / 2\<bar> - W / 2) \<and> is_double (\<bar>y - H / 2\<bar> - H / 2) \<and>
     is_double ((\<bar>x - W / 2\<bar> - W / 2)\<^sup>2) \<and> is_double ((\<bar>y - H / 2\<bar> - H / 2)\<^sup>2) \<and>
     is_double ((\<bar>x - W / 2\<bar> - W / 2)\<^sup>2 + (\<bar>y - H / 2\<bar> - H / 2)\<^sup>2) \<and> is_double (r\<^sup>2)"
  show "painter_is_2d_circle_clipped painter (x, y) r =
         (\<not> (\<exists>a b. 0 \<le> a \<and> a \<le> W \<and> 0 \<le> b \<and> b \<le> H \<and> (a - x)\<^sup>2 + (b - y)\<^sup>2 \<le> r\<^sup>2))"
    using assms e by (intro painter_is_2d_circle_clipped_exact) simp_all
qed

text \<open>
  Evaluation on concrete values: the window of \<open>ex_painter\<close> is 800 by 600, the numbers
  below are binary64 values, and \<open>401 + 2\<^sup>-\<^sup>5\<^sup>2\<close> is rounded to 401 (the binary64 numbers
  between 256 and 512 are \<open>2\<^sup>-\<^sup>4\<^sup>4\<close> apart).
\<close>

lemma round_even_add_small:
  "0 \<le> d \<Longrightarrow> d < 1/2 \<Longrightarrow> round_even (of_int n + d) = n"
proof -
  assume d: "0 \<le> d" "d < 1/2"
  then have "\<lfloor>of_int n + d\<rfloor> = n" by (simp add: floor_unique)
  with d show ?thesis by (simp add: round_even_def Let_def)
qed

lemma is_double_binade_8:
  "256 \<le> \<bar>x\<bar> \<Longrightarrow> \<bar>x\<bar> < 512 \<Longrightarrow> x * 2 ^ 44 = of_int k \<Longrightarrow> is_double x"
  by (rule is_double_exact [where e = 8 and k = k])
     (simp_all add: max_double_def power_int_minus field_simps)

lemma is_double_binade_9:
  "512 \<le> \<bar>x\<bar> \<Longrightarrow> \<bar>x\<bar> < 1024 \<Longrightarrow> x * 2 ^ 43 = of_int k \<Longrightarrow> is_double x"
  by (rule is_double_exact [where e = 9 and k = k])
     (simp_all add: max_double_def power_int_minus field_simps)

lemma is_double_binade_0:
  "1 \<le> \<bar>x\<bar> \<Longrightarrow> \<bar>x\<bar> < 2 \<Longrightarrow> x * 2 ^ 52 = of_int k \<Longrightarrow> is_double x"
  by (rule is_double_exact [where e = 0 and k = k])
     (simp_all add: max_double_def power_int_minus field_simps)

lemma ex_doubles:
  "is_double 300" "is_double 301" "is_double 400" "is_double 401" "is_double 450" "is_double 500"
  "is_double 600" "is_double 800" "is_double 900" "is_double 1" "is_double 50" "is_double 100"
  "is_double (- 1 - 1 / 2 ^ 52)"
proof -
  show "is_double 300" by (rule is_double_binade_8 [where k = "300 * 2 ^ 44"]) simp_all
  show "is_double 301" by (rule is_double_binade_8 [where k = "301 * 2 ^ 44"]) simp_all
  show "is_double 400" by (rule is_double_binade_8 [where k = "400 * 2 ^ 44"]) simp_all
  show "is_double 401" by (rule is_double_binade_8 [where k = "401 * 2 ^ 44"]) simp_all
  show "is_double 450" by (rule is_double_binade_8 [where k = "450 * 2 ^ 44"]) simp_all
  show "is_double 500" by (rule is_double_binade_8 [where k = "500 * 2 ^ 44"]) simp_all
  show "is_double 600" by (rule is_double_binade_9 [where k = "600 * 2 ^ 43"]) simp_all
  show "is_double 800" by (rule is_double_binade_9 [where k = "800 * 2 ^ 43"]) simp_all
  show "is_double 900" by (rule is_double_binade_9 [where k = "900 * 2 ^ 43"]) simp_all
  show "is_double 1" by (rule is_double_binade_0 [where k = "2 ^ 52"]) simp_all
  show "is_double 50"
    by (rule is_double_exact [where e = 5 and k = "50 * 2 ^ 47"])
       (simp_all add: max_double_def power_int_minus field_simps)
  show "is_double 100"
    by (rule is_double_exact [where e = 6 and k = "100 * 2 ^ 46"])
       (simp_all add: max_double_def power_int_minus field_simps)
  show "is_double (- 1 - 1 / 2 ^ 52)"
    by (rule is_double_binade_0 [where k = "- (2 ^ 52) - 1"]) (simp_all add: field_simps)
qed

lemma ex_round_401: "double_round (401 + 1 / 2 ^ 52) = 401"
proof -
  have q: "(401 + 1 / 2 ^ 52) / 2 powi (8 - 52) = (of_int (401 * 2 ^ 44) + 1 / 256 :: real)"
    by (simp add: power_int_minus field_simps)
  have "double_round (401 + 1 / 2 ^ 52) =
      of_int (round_even ((401 + 1 / 2 ^ 52) / 2 powi (8 - 52))) * 2 powi (8 - 52)"
    by (rule double_round_binade) simp_all
  also have "round_even ((401 + 1 / 2 ^ 52) / 2 powi (8 - 52)) = 401 * 2 ^ 44"
    unfolding q by (rule round_even_add_small) simp_all
  finally show ?thesis by (simp add: power_int_minus)
qed

lemma ex_to_double_401: "to_double (- 1 - 1 / 2 ^ 52 - 800 / 2) = Finite (- 401)"
proof -
  have e: "(- 1 - 1 / 2 ^ 52 - 800 / 2 :: real) = - (401 + 1 / 2 ^ 52)" by simp
  have "double_round (- 1 - 1 / 2 ^ 52 - 800 / 2) = - 401"
    unfolding e double_round_minus ex_round_401 by simp
  then show ?thesis by (simp add: to_double_def max_double_def)
qed


lemma ex_window_size: "window_size (proj ex_painter) = (800, 600)"
  by (simp add: ex_painter_def ex_proj_def)

lemma to_double_numeral: "numeral k < (2::int) ^ 53 \<Longrightarrow> to_double (numeral k) = Finite (numeral k)"
  using is_double_numeral [of k] by (simp add: is_double_def)

lemma to_double_0: "to_double 0 = Finite 0"
  using is_double_0 by (simp add: is_double_def)

text \<open>
  A circle of radius 50 whose centre \<open>(100, 100)\<close> is inside the window; one whose centre
  \<open>(900, 300)\<close> is 100 to the right of it; and two circles of radius 15 beyond the corner
  \<open>(800, 600)\<close>, one at distance 15 of the corner, which it touches, the other farther.
\<close>

theorem painter_2d_clip_tests_polarity_witness:
  "window_size (proj ex_painter) = (800, 600) \<and> is_double (800 / 2) \<and> is_double (600 / 2) \<and>
   (0::real) \<le> 50 \<and> (0::real) \<le> 15 \<and>
   painter_is_2d_point_clipped ex_painter (100, 100) \<and>
   \<not> painter_is_2d_circle_clipped ex_painter (100, 100) 50 \<and>
   \<not> painter_is_2d_point_clipped ex_painter (900, 300) \<and>
   painter_is_2d_circle_clipped ex_painter (900, 300) 50 \<and>
   \<not> (\<exists>a b. 0 \<le> a \<and> a \<le> 800 \<and> 0 \<le> b \<and> b \<le> 600 \<and> (a - 900)\<^sup>2 + (b - 300)\<^sup>2 \<le> (50::real)\<^sup>2) \<and>
   is_double (812 - 800 / 2) \<and> is_double (609 - 600 / 2) \<and>
   is_double (800 / 2 + 15) \<and> is_double (600 / 2 + 15) \<and>
   is_double (\<bar>812 - 800 / 2\<bar> - 800 / 2) \<and> is_double (\<bar>609 - 600 / 2\<bar> - 600 / 2) \<and>
   is_double ((\<bar>812 - 800 / 2\<bar> - 800 / 2)\<^sup>2) \<and> is_double ((\<bar>609 - 600 / 2\<bar> - 600 / 2)\<^sup>2) \<and>
   is_double ((\<bar>812 - 800 / 2\<bar> - 800 / 2)\<^sup>2 + (\<bar>609 - 600 / 2\<bar> - 600 / 2)\<^sup>2) \<and>
   is_double (15\<^sup>2) \<and>
   \<not> painter_is_2d_circle_clipped ex_painter (812, 609) 15 \<and>
   (\<exists>a b. 0 \<le> a \<and> a \<le> 800 \<and> 0 \<le> b \<and> b \<le> 600 \<and> (a - 812)\<^sup>2 + (b - 609)\<^sup>2 \<le> (15::real)\<^sup>2) \<and>
   painter_is_2d_circle_clipped ex_painter (813, 609) 15 \<and>
   \<not> (\<exists>a b. 0 \<le> a \<and> a \<le> 800 \<and> 0 \<le> b \<and> b \<le> 600 \<and> (a - 813)\<^sup>2 + (b - 609)\<^sup>2 \<le> (15::real)\<^sup>2)"
proof -
  have hw: "is_double (800 / 2)" and hh: "is_double (600 / 2)"
    by (simp_all add: is_double_numeral)
  have r: "(0::real) \<le> 50" and r': "(0::real) \<le> 15" by simp_all
  note inside = painter_2d_clip_tests_polarity [OF ex_window_size hw hh r, of 100 100]
  note beyond = painter_2d_clip_tests_polarity [OF ex_window_size hw hh r, of 900 300]
  note touching = painter_2d_clip_tests_polarity [OF ex_window_size hw hh r', of 812 609]
  note farther = painter_2d_clip_tests_polarity [OF ex_window_size hw hh r', of 813 609]
  have c: "painter_is_2d_circle_clipped ex_painter (900, 300) 50"
    unfolding painter_is_2d_circle_clipped_tests [OF ex_window_size hw hh]
    by (simp add: to_double_numeral)
  have t: "\<not> painter_is_2d_circle_clipped ex_painter (812, 609) 15"
    unfolding painter_is_2d_circle_clipped_tests [OF ex_window_size hw hh]
    by (simp add: to_double_numeral sqr_def)
  have f: "painter_is_2d_circle_clipped ex_painter (813, 609) 15"
    unfolding painter_is_2d_circle_clipped_tests [OF ex_window_size hw hh]
    by (simp add: to_double_numeral sqr_def)
  have et: "is_double (812 - 800 / 2) \<and> is_double (609 - 600 / 2) \<and>
   is_double (800 / 2 + 15) \<and> is_double (600 / 2 + 15) \<and>
   is_double (\<bar>812 - 800 / 2\<bar> - 800 / 2) \<and> is_double (\<bar>609 - 600 / 2\<bar> - 600 / 2) \<and>
   is_double ((\<bar>812 - 800 / 2\<bar> - 800 / 2)\<^sup>2) \<and> is_double ((\<bar>609 - 600 / 2\<bar> - 600 / 2)\<^sup>2) \<and>
   is_double ((\<bar>812 - 800 / 2\<bar> - 800 / 2)\<^sup>2 + (\<bar>609 - 600 / 2\<bar> - 600 / 2)\<^sup>2) \<and>
   is_double (15\<^sup>2)"
    by (simp add: is_double_numeral)
  have ef: "is_double (813 - 800 / 2) \<and> is_double (609 - 600 / 2) \<and>
   is_double (800 / 2 + 15) \<and> is_double (600 / 2 + 15) \<and>
   is_double (\<bar>813 - 800 / 2\<bar> - 800 / 2) \<and> is_double (\<bar>609 - 600 / 2\<bar> - 600 / 2) \<and>
   is_double ((\<bar>813 - 800 / 2\<bar> - 800 / 2)\<^sup>2) \<and> is_double ((\<bar>609 - 600 / 2\<bar> - 600 / 2)\<^sup>2) \<and>
   is_double ((\<bar>813 - 800 / 2\<bar> - 800 / 2)\<^sup>2 + (\<bar>609 - 600 / 2\<bar> - 600 / 2)\<^sup>2) \<and>
   is_double (15\<^sup>2)"
    by (simp add: is_double_numeral)
  from inside have a: "painter_is_2d_point_clipped ex_painter (100, 100)" by simp
  from inside have b: "\<not> painter_is_2d_circle_clipped ex_painter (100, 100) 50" by simp
  from beyond have d: "\<not> painter_is_2d_point_clipped ex_painter (900, 300)" by simp
  from beyond c have e: "\<not> (\<exists>a b. 0 \<le> a \<and> a \<le> 800 \<and> 0 \<le> b \<and> b \<le> 600 \<and>
      (a - 900)\<^sup>2 + (b - 300)\<^sup>2 \<le> (50::real)\<^sup>2)" by simp
  have w0: "(0::real) \<le> 800 \<and> (0::real) \<le> 600" by simp
  from touching [THEN conjunct2, THEN conjunct2, THEN conjunct2] w0 et t
  have g: "\<exists>a b. 0 \<le> a \<and> a \<le> 800 \<and> 0 \<le> b \<and> b \<le> 600 \<and>
      (a - 812)\<^sup>2 + (b - 609)\<^sup>2 \<le> (15::real)\<^sup>2" by blast
  from farther [THEN conjunct2, THEN conjunct2, THEN conjunct2] w0 ef f
  have h: "\<not> (\<exists>a b. 0 \<le> a \<and> a \<le> 800 \<and> 0 \<le> b \<and> b \<le> 600 \<and>
      (a - 813)\<^sup>2 + (b - 609)\<^sup>2 \<le> (15::real)\<^sup>2)" by blast
  from ex_window_size hw hh r r' a b c d e et t g f h show ?thesis by blast
qed

text \<open>
  The claim as stated fails for the circle of radius 1 around \<open>(- 1 - 2\<^sup>-\<^sup>5\<^sup>2, 300)\<close>, whose
  coordinates and radius are binary64 values. No point of the window rectangle lies
  within distance 1 of the centre, and the centre is outside the window, so both tests
  return false: \<^verbatim>\<open>fabs(x - 400)\<close> is \<open>401 + 2\<^sup>-\<^sup>5\<^sup>2\<close> rounded, that is 401, which is not
  greater than \<^verbatim>\<open>400 + 1\<close>.
\<close>

theorem painter_is_2d_circle_clipped_rounding_counterexample:
  "window_size (proj ex_painter) = (800, 600) \<and>
   is_double 800 \<and> is_double 600 \<and> is_double (- 1 - 1 / 2 ^ 52) \<and> is_double 300 \<and> is_double 1 \<and>
   \<not> (\<exists>a b. 0 \<le> a \<and> a \<le> 800 \<and> 0 \<le> b \<and> b \<le> 600 \<and>
         (a - (- 1 - 1 / 2 ^ 52))\<^sup>2 + (b - 300)\<^sup>2 \<le> (1::real)\<^sup>2) \<and>
   \<not> painter_is_2d_circle_clipped ex_painter (- 1 - 1 / 2 ^ 52, 300) 1 \<and>
   \<not> painter_is_2d_point_clipped ex_painter (- 1 - 1 / 2 ^ 52, 300)"
proof -
  have hw: "is_double (800 / 2)" and hh: "is_double (600 / 2)" by (simp_all add: ex_doubles)
  have "(400::real) + 1 < \<bar>(- 1 - 1 / 2 ^ 52) - 400\<bar>" by simp
  from circle_beyond_band [OF this, of "\<lambda>b. 0 \<le> b \<and> b \<le> 600" 300]
  have miss: "\<not> (\<exists>a b. 0 \<le> a \<and> a \<le> 800 \<and> 0 \<le> b \<and> b \<le> 600 \<and>
         (a - (- 1 - 1 / 2 ^ 52))\<^sup>2 + (b - 300)\<^sup>2 \<le> (1::real)\<^sup>2)" by simp
  have c: "\<not> painter_is_2d_circle_clipped ex_painter (- 1 - 1 / 2 ^ 52, 300) 1"
    unfolding painter_is_2d_circle_clipped_tests [OF ex_window_size hw hh] ex_to_double_401
    by (simp add: to_double_numeral to_double_0)
  have p: "\<not> painter_is_2d_point_clipped ex_painter (- 1 - 1 / 2 ^ 52, 300)"
    by (simp add: painter_is_2d_point_clipped_def ex_window_size)
  from ex_window_size ex_doubles miss c p show ?thesis by blast
qed

subsection \<open>Helper facts\<close>

lemma xyz_set_xyz [simp]: "xyz (set_xyz v u) = u"
  by (cases v, cases u) (simp add: xyz_def set_xyz_def)

lemma xyz_set_w [simp]: "xyz (set_w v d) = xyz v"
  by (cases v) (simp add: xyz_def set_w_def)

lemma set_xyz_set_xyz [simp]: "set_xyz (set_xyz v u) u' = set_xyz v u'"
  by (cases v, cases u, cases u') (simp add: set_xyz_def)

lemma vec3_dot_neg: "vec3_dot (vec3_mul (- 1) c) v = - vec3_dot c v"
  by (cases c, cases v) (simp add: vec3_dot_def vec3_mul_def)

lemma cap_contains_set_xyz:
  "cap_contains_vec3 (set_xyz (x, y, z, w) c) v = (w \<le> vec3_dot c v)"
  by (cases c) (simp add: cap_contains_vec3_def set_xyz_def xyz_def)

lemma capIntersectsCap_formula:
  assumes "- 1 \<le> wa" "wa \<le> 1" "- 1 \<le> wb" "wb \<le> 1"
  shows "capIntersectsCap (a0, a1, a2, wa) (b0, b1, b2, wb) =
    (wa * wb - sqrt (1 - wa\<^sup>2) * sqrt (1 - wb\<^sup>2) < a0 * b0 + a1 * b1 + a2 * b2)"
  using assms
  by (simp add: capIntersectsCap_def cap_angle_def xyz_def vec3_dot_def cos_add sin_arccos)

lemma cos_91_degrees: "- (4/5) \<le> cos (91 * pi / 180)"
proof -
  have "cos (91 * pi / 180) = cos (pi / 180 + pi / 2)" by (simp add: field_simps)
  also have "\<dots> = - sin (pi / 180)" by (simp only: cos_add) simp
  finally have eq: "cos (91 * pi / 180) = - sin (pi / 180)" .
  have "sin (pi / 180) \<le> pi / 180" by (rule sin_x_le_x) simp
  also have "\<dots> \<le> 4 / 5" using pi_less_4 by simp
  finally show ?thesis using eq by simp
qed

lemma ex_intersects_point:
  "- 1 \<le> wa \<Longrightarrow> wa \<le> 1 \<Longrightarrow>
   cap_intersects_cap ex_swe (a0, a1, a2, wa) (b0, b1, b2, 1) = (wa < a0 * b0 + a1 * b1 + a2 * b2)"
  by (simp add: ex_swe_def capIntersectsCap_formula)

lemma upt_4: "[0 ..< 4] = [0, 1, 2, 3]"
  by (simp add: upt_rec)

lemma all_less_4: "(\<forall>i<4. Q (i::nat)) = (Q 0 \<and> Q 1 \<and> Q 2 \<and> Q 3)"
proof
  assume "\<forall>i<4. Q i" then show "Q 0 \<and> Q 1 \<and> Q 2 \<and> Q 3" by simp
next
  assume q: "Q 0 \<and> Q 1 \<and> Q 2 \<and> Q 3"
  show "\<forall>i<4. Q i"
  proof (intro allI impI)
    fix i :: nat assume "i < 4"
    then consider "i = 0" | "i = 1" | "i = 2" | "i = 3" by linarith
    then show "Q i" using q by cases simp_all
  qed
qed

subsection \<open>The cap test\<close>

text \<open>
  Claim C6. For every frame and every cap, \<^verbatim>\<open>painter_is_cap_clipped\<close> returns true whenever
  the cap does not intersect the bounding cap of the frame; and when the flag
  \<^verbatim>\<open>PAINTER_HIDE_BELOW_HORIZON\<close> is set it returns true whenever the cap does not intersect
  the sky cap of the frame, whatever the side caps are. (The example that follows the
  theorem is a cap that intersects the bounding cap and the four side caps, and lies
  below the horizon.)
\<close>

theorem painter_is_cap_clipped_disjoint:
  "(\<not> cap_intersects_cap E (bounding_cap (clip_info painter ! nat frame)) cap \<longrightarrow>
      painter_is_cap_clipped E painter frame cap) \<and>
   (flags painter AND PAINTER_HIDE_BELOW_HORIZON E \<noteq> 0 \<and>
    \<not> cap_intersects_cap E (sky_cap (clip_info painter ! nat frame)) cap \<longrightarrow>
      painter_is_cap_clipped E painter frame cap)"
  by (simp add: painter_is_cap_clipped_def)

theorem painter_is_cap_clipped_disjoint_witness:
  "\<not> cap_intersects_cap ex_swe (bounding_cap (clip_info ex_painter_wide ! nat 0)) (3/5, 0, - 4/5, 1) \<and>
   painter_is_cap_clipped ex_swe ex_painter_wide 0 (3/5, 0, - 4/5, 1) \<and>
   flags ex_painter_down AND PAINTER_HIDE_BELOW_HORIZON ex_swe \<noteq> 0 \<and>
   \<not> cap_intersects_cap ex_swe (sky_cap (clip_info ex_painter_down ! nat 0)) (3/5, 0, - 4/5, 1) \<and>
   cap_intersects_cap ex_swe (bounding_cap (clip_info ex_painter_down ! nat 0)) (3/5, 0, - 4/5, 1) \<and>
   cap_intersects_cap ex_swe (viewport_caps (clip_info ex_painter_down ! nat 0) ! 0) (3/5, 0, - 4/5, 1) \<and>
   cap_intersects_cap ex_swe (viewport_caps (clip_info ex_painter_down ! nat 0) ! 1) (3/5, 0, - 4/5, 1) \<and>
   cap_intersects_cap ex_swe (viewport_caps (clip_info ex_painter_down ! nat 0) ! 2) (3/5, 0, - 4/5, 1) \<and>
   cap_intersects_cap ex_swe (viewport_caps (clip_info ex_painter_down ! nat 0) ! 3) (3/5, 0, - 4/5, 1) \<and>
   painter_is_cap_clipped ex_swe ex_painter_down 0 (3/5, 0, - 4/5, 1)"
proof -
  have a: "\<not> cap_intersects_cap ex_swe (bounding_cap (clip_info ex_painter_wide ! nat 0)) (3/5, 0, - 4/5, 1)"
    by (simp add: ex_painter_wide_def ex_clip_info_wide_def ex_intersects_point)
  have b: "flags ex_painter_down AND PAINTER_HIDE_BELOW_HORIZON ex_swe \<noteq> 0"
    by (simp add: ex_painter_down_def ex_swe_def)
  have c: "\<not> cap_intersects_cap ex_swe (sky_cap (clip_info ex_painter_down ! nat 0)) (3/5, 0, - 4/5, 1)"
    using cos_91_degrees
    by (simp add: ex_painter_down_def ex_clip_info_down_def ex_intersects_point not_less)
  have d: "cap_intersects_cap ex_swe (bounding_cap (clip_info ex_painter_down ! nat 0)) (3/5, 0, - 4/5, 1) \<and>
   cap_intersects_cap ex_swe (viewport_caps (clip_info ex_painter_down ! nat 0) ! 0) (3/5, 0, - 4/5, 1) \<and>
   cap_intersects_cap ex_swe (viewport_caps (clip_info ex_painter_down ! nat 0) ! 1) (3/5, 0, - 4/5, 1) \<and>
   cap_intersects_cap ex_swe (viewport_caps (clip_info ex_painter_down ! nat 0) ! 2) (3/5, 0, - 4/5, 1) \<and>
   cap_intersects_cap ex_swe (viewport_caps (clip_info ex_painter_down ! nat 0) ! 3) (3/5, 0, - 4/5, 1)"
    by (simp add: ex_painter_down_def ex_clip_info_down_def ex_intersects_point)
  from painter_is_cap_clipped_disjoint [of ex_swe ex_painter_wide 0 "(3/5, 0, - 4/5, 1)"] a
  have e: "painter_is_cap_clipped ex_swe ex_painter_wide 0 (3/5, 0, - 4/5, 1)" by blast
  from painter_is_cap_clipped_disjoint [of ex_swe ex_painter_down 0 "(3/5, 0, - 4/5, 1)"] b c
  have f: "painter_is_cap_clipped ex_swe ex_painter_down 0 (3/5, 0, - 4/5, 1)" by blast
  from a b c d e f show ?thesis by blast
qed

subsection \<open>The quad test\<close>

lemma quad_backface_loop_all:
  "0 \<le> i \<Longrightarrow> i \<le> 4 \<Longrightarrow>
   quad_backface_loop E painter frame corners direction i =
   (\<forall>j. i \<le> j \<and> j < 4 \<longrightarrow>
      0 \<le> vec3_dot (xyz (quad_corner_normal E painter frame (corners ! nat j))) direction)"
proof (induction E painter frame corners direction i rule: quad_backface_loop.induct)
  case (1 E painter frame corners direction i)
  show ?case
  proof (cases "i < 4")
    case False
    with "1.prems" show ?thesis by (simp add: quad_backface_loop.simps)
  next
    case True
    show ?thesis
    proof (cases "vec3_dot (xyz (quad_corner_normal E painter frame (corners ! nat i))) direction < 0")
      case neg: True
      with \<open>i < 4\<close> have "\<not> quad_backface_loop E painter frame corners direction i"
        by (simp add: quad_backface_loop.simps)
      moreover from neg \<open>i < 4\<close>
      have "\<not> (\<forall>j. i \<le> j \<and> j < 4 \<longrightarrow>
        0 \<le> vec3_dot (xyz (quad_corner_normal E painter frame (corners ! nat j))) direction)"
        by (intro notI) (drule spec [of _ i], simp)
      ultimately show ?thesis by simp
    next
      case nonneg: False
      with \<open>i < 4\<close> have eq: "quad_backface_loop E painter frame corners direction i =
          quad_backface_loop E painter frame corners direction (i + 1)"
        by (subst quad_backface_loop.simps) simp
      from nonneg \<open>i < 4\<close> "1.IH" "1.prems"
      have IH: "quad_backface_loop E painter frame corners direction (i + 1) =
        (\<forall>j. i + 1 \<le> j \<and> j < 4 \<longrightarrow>
          0 \<le> vec3_dot (xyz (quad_corner_normal E painter frame (corners ! nat j))) direction)"
        by simp
      have "(\<forall>j. i \<le> j \<and> j < 4 \<longrightarrow>
          0 \<le> vec3_dot (xyz (quad_corner_normal E painter frame (corners ! nat j))) direction) =
        (\<forall>j. i + 1 \<le> j \<and> j < 4 \<longrightarrow>
          0 \<le> vec3_dot (xyz (quad_corner_normal E painter frame (corners ! nat j))) direction)"
        (is "?A = ?B")
      proof
        assume ?A then show ?B by simp
      next
        assume b: ?B
        show ?A
        proof (intro allI impI)
          fix j assume j: "i \<le> j \<and> j < 4"
          show "0 \<le> vec3_dot (xyz (quad_corner_normal E painter frame (corners ! nat j))) direction"
          proof (cases "j = i")
            case True with nonneg show ?thesis by simp
          next
            case False with b j show ?thesis by simp
          qed
        qed
      qed
      with eq IH show ?thesis by simp
    qed
  qed
qed

lemma quad_backface_loop_nat:
  "quad_backface_loop E painter frame corners direction 0 =
   (\<forall>i<4. 0 \<le> vec3_dot (xyz (quad_corner_normal E painter frame (corners ! i))) direction)"
proof -
  have "quad_backface_loop E painter frame corners direction 0 =
    (\<forall>j. 0 \<le> j \<and> j < 4 \<longrightarrow>
      0 \<le> vec3_dot (xyz (quad_corner_normal E painter frame (corners ! nat j))) direction)"
    by (rule quad_backface_loop_all) simp_all
  also have "\<dots> = (\<forall>i<4. 0 \<le> vec3_dot (xyz (quad_corner_normal E painter frame (corners ! i))) direction)"
  proof (intro iffI allI impI)
    fix i :: nat
    assume h: "\<forall>j. 0 \<le> j \<and> j < 4 \<longrightarrow>
      0 \<le> vec3_dot (xyz (quad_corner_normal E painter frame (corners ! nat j))) direction"
      and "i < 4"
    then have "0 \<le> vec3_dot (xyz (quad_corner_normal E painter frame (corners ! nat (int i)))) direction"
      by (intro h [rule_format]) simp
    then show "0 \<le> vec3_dot (xyz (quad_corner_normal E painter frame (corners ! i))) direction"
      by simp
  next
    fix j :: int
    assume h: "\<forall>i<4. 0 \<le> vec3_dot (xyz (quad_corner_normal E painter frame (corners ! i))) direction"
      and "0 \<le> j \<and> j < 4"
    then have "nat j < 4" by auto
    with h show "0 \<le> vec3_dot (xyz (quad_corner_normal E painter frame (corners ! nat j))) direction"
      by blast
  qed
  finally show ?thesis .
qed

lemma painter_is_quad_clipped_high_order:
  "\<not> order m < 2 \<Longrightarrow> quad_outside_block E painter frame m outside = None \<Longrightarrow>
   painter_is_quad_clipped E painter frame m outside =
     Some (quad_corner_tests E painter frame m outside)"
  by (subst painter_is_quad_clipped.simps) simp

lemma painter_is_quad_clipped_solid:
  assumes "order m > 1"
    and "\<not> is_clipped 4 (map (\<lambda>i. quad_corner_projected E painter frame (uv_map_grid E m 1 ! i)) [0 ..< 4])"
  shows "painter_is_quad_clipped E painter frame m False =
      Some (Inr (\<forall>i<4. 0 \<le> vec3_dot (xyz (quad_corner_normal E painter frame (uv_map_grid E m 1 ! i)))
              (quad_direction E painter frame)))"
proof -
  have blk: "quad_outside_block E painter frame m False = None"
    by (simp add: quad_outside_block_def)
  from assms(1) have "\<not> order m < 2" by simp
  then have "painter_is_quad_clipped E painter frame m False =
      Some (quad_corner_tests E painter frame m False)"
    using blk by (rule painter_is_quad_clipped_high_order)
  also from assms have "quad_corner_tests E painter frame m False =
      Inr (\<forall>i<4. 0 \<le> vec3_dot (xyz (quad_corner_normal E painter frame (uv_map_grid E m 1 ! i)))
              (quad_direction E painter frame))"
    by (simp add: quad_corner_tests_def Let_def quad_backface_loop_nat)
  finally show ?thesis .
qed

text \<open>Evaluation of the quad test on the example tiles.\<close>

lemma ex_direction: "quad_direction ex_swe ex_painter_planet 0 = (0, 0, 1)"
  by (simp add: quad_direction_def ex_painter_planet_def ex_swe_def xyz_def vec3_dot_def
      vec3_mul_def Let_def)

lemma ex_normal:
  "x * x + y * y + z * z = 1 \<Longrightarrow>
   xyz (quad_corner_normal ex_swe ex_painter_planet 0 (x, y, z, w)) = (x, y, z)"
  by (simp add: quad_corner_normal_def ex_painter_planet_def ex_swe_def ex_mat4_mul_vec4_def
      xyz_def set_xyz_def set_w_def vec3_dot_def vec3_mul_def Let_def)

lemma ex_projected:
  "quad_corner_projected ex_swe ex_painter_planet 0 (x, y, z, w) = (x, y, 0, 1)"
  by (simp add: quad_corner_projected_def ex_painter_planet_def ex_swe_def ex_mat4_mul_vec4_def
      ex_project_def ex_proj_def set_w_def Let_def)

lemma ex_grid_front:
  "uv_map_grid ex_swe \<lparr>order = k, user = 2 * n\<rparr> 1 =
     [(2/3, 1/3, - 2/3, 0), (2/3, - 1/3, - 2/3, 0), (- 2/3, - 1/3, - 2/3, 0), (- 2/3, 1/3, - 2/3, 0)]"
  by (simp add: ex_swe_def)

lemma ex_grid_back:
  "uv_map_grid ex_swe \<lparr>order = k, user = 2 * n + 1\<rparr> 1 =
     [(2/3, 1/3, 2/3, 0), (2/3, - 1/3, 2/3, 0), (- 2/3, - 1/3, 2/3, 0), (- 2/3, 1/3, 2/3, 0)]"
  by (simp add: ex_swe_def)

lemma ex_not_frustum_clipped:
  "\<not> is_clipped 4 [(2/3, 1/3, 0, 1), (2/3, - 1/3, 0, 1), (- 2/3, - 1/3, 0, 1), (- 2/3, 1/3, 0, 1)]"
  by (simp add: is_clipped_def is_clipped_outer.simps is_clipped_inner.simps is_clipped_P_def
      plane_dot_def)

lemma ex_front_not_clipped:
  "\<not> is_clipped 4 (map (\<lambda>i. quad_corner_projected ex_swe ex_painter_planet 0
        (uv_map_grid ex_swe \<lparr>order = k, user = 2 * n\<rparr> 1 ! i)) [0 ..< 4])"
  unfolding ex_grid_front upt_4 using ex_not_frustum_clipped by (simp add: ex_projected)

lemma ex_back_not_clipped:
  "\<not> is_clipped 4 (map (\<lambda>i. quad_corner_projected ex_swe ex_painter_planet 0
        (uv_map_grid ex_swe \<lparr>order = k, user = 2 * n + 1\<rparr> 1 ! i)) [0 ..< 4])"
  unfolding ex_grid_back upt_4 using ex_not_frustum_clipped by (simp add: ex_projected)

lemma ex_front_dot:
  "vec3_dot (xyz (quad_corner_normal ex_swe ex_painter_planet 0
      (uv_map_grid ex_swe \<lparr>order = k, user = 2 * n\<rparr> 1 ! 0))) (quad_direction ex_swe ex_painter_planet 0) < 0"
  unfolding ex_grid_front ex_direction by (simp add: ex_normal vec3_dot_def)

lemma ex_back_dots:
  "\<forall>i<4. vec3_dot (xyz (quad_corner_normal ex_swe ex_painter_planet 0
      (uv_map_grid ex_swe \<lparr>order = k, user = 2 * n + 1\<rparr> 1 ! i))) (quad_direction ex_swe ex_painter_planet 0) \<ge> 0"
  unfolding ex_grid_back ex_direction all_less_4 by (simp add: ex_normal vec3_dot_def)

lemma ex_front_tile:
  "1 < k \<Longrightarrow>
   painter_is_quad_clipped ex_swe ex_painter_planet 0 \<lparr>order = k, user = 2 * n\<rparr> False = Some (Inr False)"
proof -
  assume k: "1 < k"
  then have o: "order \<lparr>order = k, user = 2 * n\<rparr> > 1" by simp
  have "\<not> (\<forall>i<4. 0 \<le> vec3_dot (xyz (quad_corner_normal ex_swe ex_painter_planet 0
      (uv_map_grid ex_swe \<lparr>order = k, user = 2 * n\<rparr> 1 ! i))) (quad_direction ex_swe ex_painter_planet 0))"
    using ex_front_dot [of k n] by (intro notI) (drule spec [of _ 0], simp)
  with painter_is_quad_clipped_solid [OF o ex_front_not_clipped] show ?thesis by simp
qed

lemma ex_back_tile:
  "1 < k \<Longrightarrow>
   painter_is_quad_clipped ex_swe ex_painter_planet 0 \<lparr>order = k, user = 2 * n + 1\<rparr> False = Some (Inr True)"
proof -
  assume k: "1 < k"
  then have o: "order \<lparr>order = k, user = 2 * n + 1\<rparr> > 1" by simp
  from painter_is_quad_clipped_solid [OF o ex_back_not_clipped] ex_back_dots [of k n]
  show ?thesis by simp
qed

lemma ex_children:
  "uv_map_subdivide ex_swe \<lparr>order = 1, user = 0\<rparr> ! 0 = \<lparr>order = 2, user = 0\<rparr> \<and>
   uv_map_subdivide ex_swe \<lparr>order = 1, user = 0\<rparr> ! 1 = \<lparr>order = 2, user = 1\<rparr> \<and>
   uv_map_subdivide ex_swe \<lparr>order = 1, user = 0\<rparr> ! 2 = \<lparr>order = 2, user = 2\<rparr> \<and>
   uv_map_subdivide ex_swe \<lparr>order = 1, user = 0\<rparr> ! 3 = \<lparr>order = 2, user = 3\<rparr>"
  by (simp add: ex_swe_def)

lemma ex_quad_bounding_cap:
  "quad_bounding_cap ex_swe ex_painter_wide m = uv_map_get_bounding_cap ex_swe m"
  by (cases "uv_map_get_bounding_cap ex_swe m")
     (simp add: quad_bounding_cap_def Let_def ex_painter_wide_def mat4_identity_def
        set_xyz_def xyz_def ex_swe_def ex_mat4_mul_vec4_def)

lemma ex_parent_cap:
  "uv_map_get_bounding_cap ex_swe \<lparr>order = 1, user = 0\<rparr> = (1, 0, 0, 0)"
  by (simp add: ex_swe_def)

lemma ex_child_caps:
  "uv_map_get_bounding_cap ex_swe \<lparr>order = 2, user = 0\<rparr> = (3/5, 0, - 4/5, 1) \<and>
   uv_map_get_bounding_cap ex_swe \<lparr>order = 2, user = 1\<rparr> = (4/5, 0, - 3/5, 1) \<and>
   uv_map_get_bounding_cap ex_swe \<lparr>order = 2, user = 2\<rparr> = (2/3, 1/3, - 2/3, 1) \<and>
   uv_map_get_bounding_cap ex_swe \<lparr>order = 2, user = 3\<rparr> = (2/3, - 1/3, - 2/3, 1)"
  by (simp add: ex_swe_def ex_tile_caps_def)

lemma ex_parent_cap_not_clipped:
  "\<not> painter_is_cap_clipped ex_swe ex_painter_wide 0 (1, 0, 0, 0)"
proof -
  have "cap_intersects_cap ex_swe (0, 0, 1, - 1/2) (1, 0, 0, 0)"
    by (simp add: ex_swe_def capIntersectsCap_formula power2_eq_square)
  then show ?thesis
    by (simp add: painter_is_cap_clipped_def ex_painter_wide_def ex_clip_info_wide_def Let_def)
qed

lemma ex_child_cap_clipped:
  "z \<le> - 1/2 \<Longrightarrow> painter_is_cap_clipped ex_swe ex_painter_wide 0 (x, y, z, 1)"
  by (simp add: painter_is_cap_clipped_def ex_painter_wide_def ex_clip_info_wide_def
      ex_intersects_point)

lemma ex_child_clipped:
  "uv_map_get_bounding_cap ex_swe m = (x, y, z, 1) \<Longrightarrow> x * x + y * y + z * z = 1 \<Longrightarrow>
   z \<le> - 1/2 \<Longrightarrow> painter_is_quad_clipped ex_swe ex_painter_wide 0 m True = Some (Inr True)"
proof -
  assume cap: "uv_map_get_bounding_cap ex_swe m = (x, y, z, 1)"
    and unit: "x * x + y * y + z * z = 1" and z: "z \<le> - 1/2"
  have n: "vec3_is_normalized ex_swe (xyz (x, y, z, 1))"
    using unit by (simp add: ex_swe_def xyz_def vec3_dot_def)
  have "quad_outside_block ex_swe ex_painter_wide 0 m True = Some (Inr True)"
    using n ex_child_cap_clipped [OF z, of x y]
    by (simp add: quad_outside_block_def Let_def ex_quad_bounding_cap cap)
  then show ?thesis by (subst painter_is_quad_clipped.simps) simp
qed

text \<open>
  The vectors of the back-face test written with the functions that the code calls: the
  corner with its fourth component set to 0, multiplied by the transform, normalized
  and converted to the view frame; row 3 of the transform, normalized and converted; and
  for the frustum test the corner with its fourth component set to 1, multiplied by the
  transform, converted and projected.
\<close>

lemma quad_corner_normal_explicit:
  "xyz (quad_corner_normal E painter frame (x, y, z, w)) =
     convert_frame E (obs painter) frame (FRAME_VIEW E) True
       (vec3_normalize E
          (case mat4_mul_vec4 E (transform painter) (x, y, z, 0) of (a, b, c, d) \<Rightarrow> (a, b, c)))"
  by (simp add: quad_corner_normal_def Let_def set_w_def set_xyz_def xyz_def split: prod.splits)

lemma quad_direction_explicit:
  "transform painter = (r0, r1, r2, (tx, ty, tz, tw)) \<Longrightarrow>
   quad_direction E painter frame =
     convert_frame E (obs painter) frame (FRAME_VIEW E) True (vec3_normalize E (tx, ty, tz))"
  by (simp add: quad_direction_def Let_def xyz_def)

lemma quad_corner_projected_explicit:
  "quad_corner_projected E painter frame (x, y, z, w) =
     snd (project E (proj painter) 0 4
            (convert_framev4 E (obs painter) frame (FRAME_VIEW E)
               (mat4_mul_vec4 E (transform painter) (x, y, z, 1))))"
  by (simp add: quad_corner_projected_def Let_def set_w_def)

text \<open>
  Claim C7. For a solid-body quad (\<open>outside = false\<close>) of order greater than 1 whose four
  projected corners are not fully clipped by the frustum test, \<^verbatim>\<open>painter_is_quad_clipped\<close>
  returns false (not clipped) if the dot product of the view-space normal with the
  direction to the centre of the body is negative at one of the four corners at least,
  and returns true (clipped) if it is non-negative at the four corners. The normal of a
  corner \<open>(x, y, z, w)\<close> is the vector \<open>(x, y, z, 0)\<close> multiplied by the transform of the
  painter, normalized and converted from the frame of the quad to the view frame; the
  direction is the translation of the transform (its row 3), normalized and converted
  in the same way; the projected corner is \<open>(x, y, z, 1)\<close> multiplied by the transform,
  converted to the view frame and projected.
\<close>

theorem painter_is_quad_clipped_backface:
  assumes "order m > 1"
    and "uv_map_grid E m 1 = corners"
    and "transform painter = (r0, r1, r2, (tx, ty, tz, tw))"
    and "direction =
      convert_frame E (obs painter) frame (FRAME_VIEW E) True (vec3_normalize E (tx, ty, tz))"
    and "normal = (\<lambda>(x, y, z, w).
      convert_frame E (obs painter) frame (FRAME_VIEW E) True
        (vec3_normalize E
           (case mat4_mul_vec4 E (transform painter) (x, y, z, 0) of (a, b, c, d) \<Rightarrow> (a, b, c))))"
    and "projected = (\<lambda>(x, y, z, w).
      snd (project E (proj painter) 0 4
             (convert_framev4 E (obs painter) frame (FRAME_VIEW E)
                (mat4_mul_vec4 E (transform painter) (x, y, z, 1)))))"
    and "\<not> is_clipped 4 [projected (corners ! 0), projected (corners ! 1),
                         projected (corners ! 2), projected (corners ! 3)]"
  shows "((\<exists>i<4. vec3_dot (normal (corners ! i)) direction < 0) \<longrightarrow>
            painter_is_quad_clipped E painter frame m False = Some (Inr False)) \<and>
         ((\<forall>i<4. vec3_dot (normal (corners ! i)) direction \<ge> 0) \<longrightarrow>
            painter_is_quad_clipped E painter frame m False = Some (Inr True))"
proof -
  have n: "xyz (quad_corner_normal E painter frame c) = normal c" for c
    unfolding assms(5) by (cases c) (simp add: quad_corner_normal_explicit)
  have p: "quad_corner_projected E painter frame c = projected c" for c
    unfolding assms(6) by (cases c) (simp add: quad_corner_projected_explicit)
  have d: "quad_direction E painter frame = direction"
    unfolding assms(4) using assms(3) by (rule quad_direction_explicit)
  have nc: "\<not> is_clipped 4
      (map (\<lambda>i. quad_corner_projected E painter frame (uv_map_grid E m 1 ! i)) [0 ..< 4])"
    using assms(7) by (simp add: upt_4 p assms(2))
  note res = painter_is_quad_clipped_solid [OF assms(1) nc, unfolded n d assms(2)]
  show ?thesis
  proof (intro conjI impI)
    assume "\<exists>i<4. vec3_dot (normal (corners ! i)) direction < 0"
    then have "\<not> (\<forall>i<4. 0 \<le> vec3_dot (normal (corners ! i)) direction)"
      by (auto simp: not_le)
    with res show "painter_is_quad_clipped E painter frame m False = Some (Inr False)" by simp
  next
    assume "\<forall>i<4. vec3_dot (normal (corners ! i)) direction \<ge> 0"
    with res show "painter_is_quad_clipped E painter frame m False = Some (Inr True)" by simp
  qed
qed

text \<open>
  Two tiles of order 2 of the body of \<open>ex_painter_planet_rot\<close>, in the frame 0 of
  \<open>ex_swe_rot\<close>. The normals are the corners rotated twice (by the transform and by the
  frame conversion), \<open>(x, y, z) \<mapsto> (z, x, y)\<close>; the direction is \<open>(1, 0, 0)\<close>. The corners of
  the first tile have \<open>z = - 2/3\<close>: the tile faces the observer. Those of the second have
  \<open>z = 2/3\<close>: it is culled.
\<close>

lemma sqrt_16: "sqrt 16 = 4"
  by (rule real_sqrt_unique) simp_all

lemma ex_rot_grid:
  "uv_map_grid ex_swe_rot \<lparr>order = 2, user = 0\<rparr> 1 =
     [(2/3, 1/3, - (2/3), 0), (2/3, - (1/3), - (2/3), 0), (- (2/3), - (1/3), - (2/3), 0), (- (2/3), 1/3, - (2/3), 0)]"
  "uv_map_grid ex_swe_rot \<lparr>order = 2, user = 1\<rparr> 1 =
     [(2/3, 1/3, 2/3, 0), (2/3, - (1/3), 2/3, 0), (- (2/3), - (1/3), 2/3, 0), (- (2/3), 1/3, 2/3, 0)]"
  by (simp_all add: ex_swe_rot_def ex_swe_def)

lemma ex_rot_transform:
  "transform ex_painter_planet_rot = ((0, 0, 2, 0), (2, 0, 0, 0), (0, 2, 0, 0), (0, 4, 0, 1))"
  by (simp add: ex_painter_planet_rot_def)

lemma ex_rot_direction:
  "convert_frame ex_swe_rot u 0 (FRAME_VIEW ex_swe_rot) True
     (vec3_normalize ex_swe_rot (0, 4, 0)) = (1, 0, 0)"
  by (simp add: ex_swe_rot_def ex_swe_def vec3_dot_def vec3_mul_def sqrt_16)

lemma ex_rot_normal:
  "x * x + y * y + z * z = 1 \<Longrightarrow>
   convert_frame ex_swe_rot u 0 (FRAME_VIEW ex_swe_rot) True
     (vec3_normalize ex_swe_rot
        (case mat4_mul_vec4 ex_swe_rot (transform ex_painter_planet_rot) (x, y, z, 0) of
           (a, b, c, d) \<Rightarrow> (a, b, c))) = (z, x, y)"
proof -
  assume u: "x * x + y * y + z * z = 1"
  have "4 * (y * y) + 4 * (z * z) + 4 * (x * x) = 4 * (x * x + y * y + z * z)"
    by (simp add: algebra_simps)
  with u have s: "4 * (y * y) + 4 * (z * z) + 4 * (x * x) = 4" by simp
  show ?thesis
    by (simp add: ex_swe_rot_def ex_swe_def ex_painter_planet_rot_def ex_mat4_mul_vec4_def
        vec3_dot_def vec3_mul_def s)
qed

lemma ex_rot_projected:
  "snd (project ex_swe_rot (proj ex_painter_planet_rot) 0 4
          (convert_framev4 ex_swe_rot u 0 (FRAME_VIEW ex_swe_rot)
             (mat4_mul_vec4 ex_swe_rot (transform ex_painter_planet_rot) (x, y, z, 1)))) =
     ((2 * z + 4) / 8, 2 * x / 8, 0, 1)"
  by (simp add: ex_swe_rot_def ex_swe_def ex_painter_planet_rot_def ex_mat4_mul_vec4_def)

lemma ex_rot_not_frustum_clipped:
  "\<not> is_clipped 4 [(1/3, 1/6, 0, 1), (1/3, 1/6, 0, 1), (1/3, - (1/6), 0, 1), (1/3, - (1/6), 0, 1)]"
  "\<not> is_clipped 4 [(2/3, 1/6, 0, 1), (2/3, 1/6, 0, 1), (2/3, - (1/6), 0, 1), (2/3, - (1/6), 0, 1)]"
  by (simp_all add: is_clipped_def is_clipped_outer.simps is_clipped_inner.simps is_clipped_P_def
      plane_dot_def)

theorem painter_is_quad_clipped_backface_witness:
  "uv_map_grid ex_swe_rot \<lparr>order = 2, user = 0\<rparr> 1 =
     [(2/3, 1/3, - (2/3), 0), (2/3, - (1/3), - (2/3), 0), (- (2/3), - (1/3), - (2/3), 0), (- (2/3), 1/3, - (2/3), 0)] \<and>
   uv_map_grid ex_swe_rot \<lparr>order = 2, user = 1\<rparr> 1 =
     [(2/3, 1/3, 2/3, 0), (2/3, - (1/3), 2/3, 0), (- (2/3), - (1/3), 2/3, 0), (- (2/3), 1/3, 2/3, 0)] \<and>
   transform ex_painter_planet_rot = ((0, 0, 2, 0), (2, 0, 0, 0), (0, 2, 0, 0), (0, 4, 0, 1)) \<and>
   convert_frame ex_swe_rot (obs ex_painter_planet_rot) 0 (FRAME_VIEW ex_swe_rot) True
     (vec3_normalize ex_swe_rot (0, 4, 0)) = (1, 0, 0) \<and>
   snd (project ex_swe_rot (proj ex_painter_planet_rot) 0 4
          (convert_framev4 ex_swe_rot (obs ex_painter_planet_rot) 0 (FRAME_VIEW ex_swe_rot)
             (mat4_mul_vec4 ex_swe_rot (transform ex_painter_planet_rot) (2/3, 1/3, - (2/3), 1)))) = (1/3, 1/6, 0, 1) \<and>
   snd (project ex_swe_rot (proj ex_painter_planet_rot) 0 4
          (convert_framev4 ex_swe_rot (obs ex_painter_planet_rot) 0 (FRAME_VIEW ex_swe_rot)
             (mat4_mul_vec4 ex_swe_rot (transform ex_painter_planet_rot) (2/3, - (1/3), - (2/3), 1)))) = (1/3, 1/6, 0, 1) \<and>
   snd (project ex_swe_rot (proj ex_painter_planet_rot) 0 4
          (convert_framev4 ex_swe_rot (obs ex_painter_planet_rot) 0 (FRAME_VIEW ex_swe_rot)
             (mat4_mul_vec4 ex_swe_rot (transform ex_painter_planet_rot) (- (2/3), - (1/3), - (2/3), 1)))) = (1/3, - (1/6), 0, 1) \<and>
   snd (project ex_swe_rot (proj ex_painter_planet_rot) 0 4
          (convert_framev4 ex_swe_rot (obs ex_painter_planet_rot) 0 (FRAME_VIEW ex_swe_rot)
             (mat4_mul_vec4 ex_swe_rot (transform ex_painter_planet_rot) (- (2/3), 1/3, - (2/3), 1)))) = (1/3, - (1/6), 0, 1) \<and>
   convert_frame ex_swe_rot (obs ex_painter_planet_rot) 0 (FRAME_VIEW ex_swe_rot) True
     (vec3_normalize ex_swe_rot
        (case mat4_mul_vec4 ex_swe_rot (transform ex_painter_planet_rot) (2/3, 1/3, - (2/3), 0) of
           (a, b, c, d) \<Rightarrow> (a, b, c))) = (- (2/3), 2/3, 1/3) \<and>
   snd (project ex_swe_rot (proj ex_painter_planet_rot) 0 4
          (convert_framev4 ex_swe_rot (obs ex_painter_planet_rot) 0 (FRAME_VIEW ex_swe_rot)
             (mat4_mul_vec4 ex_swe_rot (transform ex_painter_planet_rot) (2/3, 1/3, 2/3, 1)))) = (2/3, 1/6, 0, 1) \<and>
   snd (project ex_swe_rot (proj ex_painter_planet_rot) 0 4
          (convert_framev4 ex_swe_rot (obs ex_painter_planet_rot) 0 (FRAME_VIEW ex_swe_rot)
             (mat4_mul_vec4 ex_swe_rot (transform ex_painter_planet_rot) (2/3, - (1/3), 2/3, 1)))) = (2/3, 1/6, 0, 1) \<and>
   snd (project ex_swe_rot (proj ex_painter_planet_rot) 0 4
          (convert_framev4 ex_swe_rot (obs ex_painter_planet_rot) 0 (FRAME_VIEW ex_swe_rot)
             (mat4_mul_vec4 ex_swe_rot (transform ex_painter_planet_rot) (- (2/3), - (1/3), 2/3, 1)))) = (2/3, - (1/6), 0, 1) \<and>
   snd (project ex_swe_rot (proj ex_painter_planet_rot) 0 4
          (convert_framev4 ex_swe_rot (obs ex_painter_planet_rot) 0 (FRAME_VIEW ex_swe_rot)
             (mat4_mul_vec4 ex_swe_rot (transform ex_painter_planet_rot) (- (2/3), 1/3, 2/3, 1)))) = (2/3, - (1/6), 0, 1) \<and>
   convert_frame ex_swe_rot (obs ex_painter_planet_rot) 0 (FRAME_VIEW ex_swe_rot) True
     (vec3_normalize ex_swe_rot
        (case mat4_mul_vec4 ex_swe_rot (transform ex_painter_planet_rot) (2/3, 1/3, 2/3, 0) of
           (a, b, c, d) \<Rightarrow> (a, b, c))) = (2/3, 2/3, 1/3) \<and>
   convert_frame ex_swe_rot (obs ex_painter_planet_rot) 0 (FRAME_VIEW ex_swe_rot) True
     (vec3_normalize ex_swe_rot
        (case mat4_mul_vec4 ex_swe_rot (transform ex_painter_planet_rot) (2/3, - (1/3), 2/3, 0) of
           (a, b, c, d) \<Rightarrow> (a, b, c))) = (2/3, 2/3, - (1/3)) \<and>
   convert_frame ex_swe_rot (obs ex_painter_planet_rot) 0 (FRAME_VIEW ex_swe_rot) True
     (vec3_normalize ex_swe_rot
        (case mat4_mul_vec4 ex_swe_rot (transform ex_painter_planet_rot) (- (2/3), - (1/3), 2/3, 0) of
           (a, b, c, d) \<Rightarrow> (a, b, c))) = (2/3, - (2/3), - (1/3)) \<and>
   convert_frame ex_swe_rot (obs ex_painter_planet_rot) 0 (FRAME_VIEW ex_swe_rot) True
     (vec3_normalize ex_swe_rot
        (case mat4_mul_vec4 ex_swe_rot (transform ex_painter_planet_rot) (- (2/3), 1/3, 2/3, 0) of
           (a, b, c, d) \<Rightarrow> (a, b, c))) = (2/3, - (2/3), 1/3) \<and>
   order \<lparr>order = 2, user = 0::nat\<rparr> > 1 \<and>
   \<not> is_clipped 4 [(1/3, 1/6, 0, 1), (1/3, 1/6, 0, 1), (1/3, - (1/6), 0, 1), (1/3, - (1/6), 0, 1)] \<and>
   vec3_dot (- (2/3), 2/3, 1/3) (1, 0, 0) < 0 \<and>
   painter_is_quad_clipped ex_swe_rot ex_painter_planet_rot 0 \<lparr>order = 2, user = 0\<rparr> False =
     Some (Inr False) \<and>
   order \<lparr>order = 2, user = 1::nat\<rparr> > 1 \<and>
   \<not> is_clipped 4 [(2/3, 1/6, 0, 1), (2/3, 1/6, 0, 1), (2/3, - (1/6), 0, 1), (2/3, - (1/6), 0, 1)] \<and>
   vec3_dot (2/3, 2/3, 1/3) (1, 0, 0) \<ge> 0 \<and>
   vec3_dot (2/3, 2/3, - (1/3)) (1, 0, 0) \<ge> 0 \<and>
   vec3_dot (2/3, - (2/3), - (1/3)) (1, 0, 0) \<ge> 0 \<and>
   vec3_dot (2/3, - (2/3), 1/3) (1, 0, 0) \<ge> 0 \<and>
   painter_is_quad_clipped ex_swe_rot ex_painter_planet_rot 0 \<lparr>order = 2, user = 1\<rparr> False =
     Some (Inr True)"
proof -
  let ?front = "\<lparr>order = 2, user = 0::nat\<rparr>"
  let ?rear = "\<lparr>order = 2, user = 1::nat\<rparr>"
  let ?normal = "\<lambda>(x, y, z, w).
      convert_frame ex_swe_rot (obs ex_painter_planet_rot) 0 (FRAME_VIEW ex_swe_rot) True
        (vec3_normalize ex_swe_rot
           (case mat4_mul_vec4 ex_swe_rot (transform ex_painter_planet_rot) (x, y, z, 0) of
              (a, b, c, d) \<Rightarrow> (a, b, c)))"
  let ?projected = "\<lambda>(x, y, z, w).
      snd (project ex_swe_rot (proj ex_painter_planet_rot) 0 4
             (convert_framev4 ex_swe_rot (obs ex_painter_planet_rot) 0 (FRAME_VIEW ex_swe_rot)
                (mat4_mul_vec4 ex_swe_rot (transform ex_painter_planet_rot) (x, y, z, 1))))"
  let ?cf = "[(2/3, 1/3, - (2/3), 0), (2/3, - (1/3), - (2/3), 0), (- (2/3), - (1/3), - (2/3), 0),
      (- (2/3), 1/3, - (2/3), 0::real)]"
  let ?cr = "[(2/3, 1/3, 2/3, 0), (2/3, - (1/3), 2/3, 0), (- (2/3), - (1/3), 2/3, 0),
      (- (2/3), 1/3, 2/3, 0::real)]"
  have g1: "uv_map_grid ex_swe_rot \<lparr>order = 2, user = 0\<rparr> 1 =
       [(2/3, 1/3, - (2/3), 0), (2/3, - (1/3), - (2/3), 0), (- (2/3), - (1/3), - (2/3), 0), (- (2/3), 1/3, - (2/3), 0)]"
    by (rule ex_rot_grid)
  have g2: "uv_map_grid ex_swe_rot \<lparr>order = 2, user = 1\<rparr> 1 =
       [(2/3, 1/3, 2/3, 0), (2/3, - (1/3), 2/3, 0), (- (2/3), - (1/3), 2/3, 0), (- (2/3), 1/3, 2/3, 0)]"
    by (rule ex_rot_grid)
  have tr: "transform ex_painter_planet_rot = ((0, 0, 2, 0), (2, 0, 0, 0), (0, 2, 0, 0), (0, 4, 0, 1))"
    by (rule ex_rot_transform)
  have dir: "convert_frame ex_swe_rot (obs ex_painter_planet_rot) 0 (FRAME_VIEW ex_swe_rot) True
       (vec3_normalize ex_swe_rot (0, 4, 0)) = (1, 0, 0)"
    by (rule ex_rot_direction)
  have pf0: "snd (project ex_swe_rot (proj ex_painter_planet_rot) 0 4
            (convert_framev4 ex_swe_rot (obs ex_painter_planet_rot) 0 (FRAME_VIEW ex_swe_rot)
               (mat4_mul_vec4 ex_swe_rot (transform ex_painter_planet_rot) (2/3, 1/3, - (2/3), 1)))) = (1/3, 1/6, 0, 1)"
    by (simp add: ex_rot_projected)
  have pf1: "snd (project ex_swe_rot (proj ex_painter_planet_rot) 0 4
            (convert_framev4 ex_swe_rot (obs ex_painter_planet_rot) 0 (FRAME_VIEW ex_swe_rot)
               (mat4_mul_vec4 ex_swe_rot (transform ex_painter_planet_rot) (2/3, - (1/3), - (2/3), 1)))) = (1/3, 1/6, 0, 1)"
    by (simp add: ex_rot_projected)
  have pf2: "snd (project ex_swe_rot (proj ex_painter_planet_rot) 0 4
            (convert_framev4 ex_swe_rot (obs ex_painter_planet_rot) 0 (FRAME_VIEW ex_swe_rot)
               (mat4_mul_vec4 ex_swe_rot (transform ex_painter_planet_rot) (- (2/3), - (1/3), - (2/3), 1)))) = (1/3, - (1/6), 0, 1)"
    by (simp add: ex_rot_projected)
  have pf3: "snd (project ex_swe_rot (proj ex_painter_planet_rot) 0 4
            (convert_framev4 ex_swe_rot (obs ex_painter_planet_rot) 0 (FRAME_VIEW ex_swe_rot)
               (mat4_mul_vec4 ex_swe_rot (transform ex_painter_planet_rot) (- (2/3), 1/3, - (2/3), 1)))) = (1/3, - (1/6), 0, 1)"
    by (simp add: ex_rot_projected)
  have nf0: "convert_frame ex_swe_rot (obs ex_painter_planet_rot) 0 (FRAME_VIEW ex_swe_rot) True
       (vec3_normalize ex_swe_rot
          (case mat4_mul_vec4 ex_swe_rot (transform ex_painter_planet_rot) (2/3, 1/3, - (2/3), 0) of
             (a, b, c, d) \<Rightarrow> (a, b, c))) = (- (2/3), 2/3, 1/3)"
    by (rule ex_rot_normal) simp
  have pr0: "snd (project ex_swe_rot (proj ex_painter_planet_rot) 0 4
            (convert_framev4 ex_swe_rot (obs ex_painter_planet_rot) 0 (FRAME_VIEW ex_swe_rot)
               (mat4_mul_vec4 ex_swe_rot (transform ex_painter_planet_rot) (2/3, 1/3, 2/3, 1)))) = (2/3, 1/6, 0, 1)"
    by (simp add: ex_rot_projected)
  have pr1: "snd (project ex_swe_rot (proj ex_painter_planet_rot) 0 4
            (convert_framev4 ex_swe_rot (obs ex_painter_planet_rot) 0 (FRAME_VIEW ex_swe_rot)
               (mat4_mul_vec4 ex_swe_rot (transform ex_painter_planet_rot) (2/3, - (1/3), 2/3, 1)))) = (2/3, 1/6, 0, 1)"
    by (simp add: ex_rot_projected)
  have pr2: "snd (project ex_swe_rot (proj ex_painter_planet_rot) 0 4
            (convert_framev4 ex_swe_rot (obs ex_painter_planet_rot) 0 (FRAME_VIEW ex_swe_rot)
               (mat4_mul_vec4 ex_swe_rot (transform ex_painter_planet_rot) (- (2/3), - (1/3), 2/3, 1)))) = (2/3, - (1/6), 0, 1)"
    by (simp add: ex_rot_projected)
  have pr3: "snd (project ex_swe_rot (proj ex_painter_planet_rot) 0 4
            (convert_framev4 ex_swe_rot (obs ex_painter_planet_rot) 0 (FRAME_VIEW ex_swe_rot)
               (mat4_mul_vec4 ex_swe_rot (transform ex_painter_planet_rot) (- (2/3), 1/3, 2/3, 1)))) = (2/3, - (1/6), 0, 1)"
    by (simp add: ex_rot_projected)
  have nr0: "convert_frame ex_swe_rot (obs ex_painter_planet_rot) 0 (FRAME_VIEW ex_swe_rot) True
       (vec3_normalize ex_swe_rot
          (case mat4_mul_vec4 ex_swe_rot (transform ex_painter_planet_rot) (2/3, 1/3, 2/3, 0) of
             (a, b, c, d) \<Rightarrow> (a, b, c))) = (2/3, 2/3, 1/3)"
    by (rule ex_rot_normal) simp
  have nr1: "convert_frame ex_swe_rot (obs ex_painter_planet_rot) 0 (FRAME_VIEW ex_swe_rot) True
       (vec3_normalize ex_swe_rot
          (case mat4_mul_vec4 ex_swe_rot (transform ex_painter_planet_rot) (2/3, - (1/3), 2/3, 0) of
             (a, b, c, d) \<Rightarrow> (a, b, c))) = (2/3, 2/3, - (1/3))"
    by (rule ex_rot_normal) simp
  have nr2: "convert_frame ex_swe_rot (obs ex_painter_planet_rot) 0 (FRAME_VIEW ex_swe_rot) True
       (vec3_normalize ex_swe_rot
          (case mat4_mul_vec4 ex_swe_rot (transform ex_painter_planet_rot) (- (2/3), - (1/3), 2/3, 0) of
             (a, b, c, d) \<Rightarrow> (a, b, c))) = (2/3, - (2/3), - (1/3))"
    by (rule ex_rot_normal) simp
  have nr3: "convert_frame ex_swe_rot (obs ex_painter_planet_rot) 0 (FRAME_VIEW ex_swe_rot) True
       (vec3_normalize ex_swe_rot
          (case mat4_mul_vec4 ex_swe_rot (transform ex_painter_planet_rot) (- (2/3), 1/3, 2/3, 0) of
             (a, b, c, d) \<Rightarrow> (a, b, c))) = (2/3, - (2/3), 1/3)"
    by (rule ex_rot_normal) simp
  have o1: "order ?front > 1" and o2: "order ?rear > 1" by simp_all
  have d1: "vec3_dot (- (2/3), 2/3, 1/3) (1, 0, 0) < 0" by (simp add: vec3_dot_def)
  have d2: "vec3_dot (2/3, 2/3, 1/3) (1, 0, 0) \<ge> 0" "vec3_dot (2/3, 2/3, - (1/3)) (1, 0, 0) \<ge> 0"
    "vec3_dot (2/3, - (2/3), - (1/3)) (1, 0, 0) \<ge> 0" "vec3_dot (2/3, - (2/3), 1/3) (1, 0, 0) \<ge> 0"
    by (simp_all add: vec3_dot_def)
  have c1: "\<not> is_clipped 4 [?projected (?cf ! 0), ?projected (?cf ! 1), ?projected (?cf ! 2),
      ?projected (?cf ! 3)]"
    using ex_rot_not_frustum_clipped(1) by (simp add: ex_rot_projected)
  have c2: "\<not> is_clipped 4 [?projected (?cr ! 0), ?projected (?cr ! 1), ?projected (?cr ! 2),
      ?projected (?cr ! 3)]"
    using ex_rot_not_frustum_clipped(2) by (simp add: ex_rot_projected)
  have gf0: "\<And>u. convert_frame ex_swe_rot u 0 (FRAME_VIEW ex_swe_rot) True
      (vec3_normalize ex_swe_rot
         (case mat4_mul_vec4 ex_swe_rot (transform ex_painter_planet_rot) (2/3, 1/3, - (2/3), 0) of
            (a, b, c, d) \<Rightarrow> (a, b, c))) = (- (2/3), 2/3, 1/3)"
    by (rule ex_rot_normal) simp
  have gr0: "\<And>u. convert_frame ex_swe_rot u 0 (FRAME_VIEW ex_swe_rot) True
      (vec3_normalize ex_swe_rot
         (case mat4_mul_vec4 ex_swe_rot (transform ex_painter_planet_rot) (2/3, 1/3, 2/3, 0) of
            (a, b, c, d) \<Rightarrow> (a, b, c))) = (2/3, 2/3, 1/3)"
    by (rule ex_rot_normal) simp
  have gr1: "\<And>u. convert_frame ex_swe_rot u 0 (FRAME_VIEW ex_swe_rot) True
      (vec3_normalize ex_swe_rot
         (case mat4_mul_vec4 ex_swe_rot (transform ex_painter_planet_rot) (2/3, - (1/3), 2/3, 0) of
            (a, b, c, d) \<Rightarrow> (a, b, c))) = (2/3, 2/3, - (1/3))"
    by (rule ex_rot_normal) simp
  have gr2: "\<And>u. convert_frame ex_swe_rot u 0 (FRAME_VIEW ex_swe_rot) True
      (vec3_normalize ex_swe_rot
         (case mat4_mul_vec4 ex_swe_rot (transform ex_painter_planet_rot) (- (2/3), - (1/3), 2/3, 0) of
            (a, b, c, d) \<Rightarrow> (a, b, c))) = (2/3, - (2/3), - (1/3))"
    by (rule ex_rot_normal) simp
  have gr3: "\<And>u. convert_frame ex_swe_rot u 0 (FRAME_VIEW ex_swe_rot) True
      (vec3_normalize ex_swe_rot
         (case mat4_mul_vec4 ex_swe_rot (transform ex_painter_planet_rot) (- (2/3), 1/3, 2/3, 0) of
            (a, b, c, d) \<Rightarrow> (a, b, c))) = (2/3, - (2/3), 1/3)"
    by (rule ex_rot_normal) simp
  have e1: "\<exists>i<4. vec3_dot (?normal (?cf ! i)) (1, 0, 0) < 0"
    using d1 by (intro exI [of _ 0]) (simp add: gf0)
  have e2: "\<forall>i<4. vec3_dot (?normal (?cr ! i)) (1, 0, 0) \<ge> 0"
    unfolding all_less_4 using d2 by (simp add: gr0 gr1 gr2 gr3)
  from painter_is_quad_clipped_backface [OF o1 g1 tr dir [symmetric] refl refl c1] e1
  have r1: "painter_is_quad_clipped ex_swe_rot ex_painter_planet_rot 0 ?front False =
      Some (Inr False)"
    by blast
  from painter_is_quad_clipped_backface [OF o2 g2 tr dir [symmetric] refl refl c2] e2
  have r2: "painter_is_quad_clipped ex_swe_rot ex_painter_planet_rot 0 ?rear False =
      Some (Inr True)"
    by blast
  note n = ex_rot_not_frustum_clipped
  from g1 g2 tr dir pf0 pf1 pf2 pf3 nf0 pr0 pr1 pr2 pr3 nr0 nr1 nr2 nr3 o1 o2 d1 d2 r1 r2 n show ?thesis by blast
qed

text \<open>
  Claim C1, as amended. For a quad of order below 2 tested with \<open>outside = true\<close> whose
  bounding cap, taken to the view space, is normalized and not clipped against the
  \<^verbatim>\<open>clip_info\<close> of the frame, \<^verbatim>\<open>painter_is_quad_clipped\<close> returns false (not clipped) without
  looking at the children. The recursion into the four children is the case
  \<open>outside = false\<close> of a quad of order below 2: when the four children return, the quad
  is clipped exactly when every child is clipped.
\<close>

theorem painter_is_quad_clipped_low_order:
  "order m < 2 \<Longrightarrow>
   (vec3_is_normalized E (xyz (quad_bounding_cap E painter m)) \<and>
    \<not> painter_is_cap_clipped E painter frame (quad_bounding_cap E painter m) \<longrightarrow>
      painter_is_quad_clipped E painter frame m True = Some (Inr False)) \<and>
   (painter_is_quad_clipped E painter frame (uv_map_subdivide E m ! 0) False = Some (Inr ca) \<and>
    painter_is_quad_clipped E painter frame (uv_map_subdivide E m ! 1) False = Some (Inr cb) \<and>
    painter_is_quad_clipped E painter frame (uv_map_subdivide E m ! 2) False = Some (Inr cc) \<and>
    painter_is_quad_clipped E painter frame (uv_map_subdivide E m ! 3) False = Some (Inr cd) \<longrightarrow>
      painter_is_quad_clipped E painter frame m False = Some (Inr (ca \<and> cb \<and> cc \<and> cd)))"
proof (intro conjI impI)
  assume ord: "order m < 2"
  {
    assume "vec3_is_normalized E (xyz (quad_bounding_cap E painter m)) \<and>
      \<not> painter_is_cap_clipped E painter frame (quad_bounding_cap E painter m)"
    with ord have "quad_outside_block E painter frame m True = Some (Inr False)"
      by (simp add: quad_outside_block_def Let_def)
    then show "painter_is_quad_clipped E painter frame m True = Some (Inr False)"
      by (subst painter_is_quad_clipped.simps) simp
  }
  {
    assume ch: "painter_is_quad_clipped E painter frame (uv_map_subdivide E m ! 0) False = Some (Inr ca) \<and>
      painter_is_quad_clipped E painter frame (uv_map_subdivide E m ! 1) False = Some (Inr cb) \<and>
      painter_is_quad_clipped E painter frame (uv_map_subdivide E m ! 2) False = Some (Inr cc) \<and>
      painter_is_quad_clipped E painter frame (uv_map_subdivide E m ! 3) False = Some (Inr cd)"
    have blk: "quad_outside_block E painter frame m False = None"
      by (simp add: quad_outside_block_def)
    show "painter_is_quad_clipped E painter frame m False = Some (Inr (ca \<and> cb \<and> cc \<and> cd))"
      by (subst painter_is_quad_clipped.simps) (simp add: blk ord ch Let_def del: One_nat_def)
  }
qed

theorem painter_is_quad_clipped_low_order_witness:
  "order \<lparr>order = 1, user = 0::nat\<rparr> < 2 \<and>
   vec3_is_normalized ex_swe (xyz (quad_bounding_cap ex_swe ex_painter_wide \<lparr>order = 1, user = 0\<rparr>)) \<and>
   \<not> painter_is_cap_clipped ex_swe ex_painter_wide 0
       (quad_bounding_cap ex_swe ex_painter_wide \<lparr>order = 1, user = 0\<rparr>) \<and>
   painter_is_quad_clipped ex_swe ex_painter_wide 0 \<lparr>order = 1, user = 0\<rparr> True = Some (Inr False) \<and>
   painter_is_quad_clipped ex_swe ex_painter_planet 0
     (uv_map_subdivide ex_swe \<lparr>order = 1, user = 0\<rparr> ! 0) False = Some (Inr False) \<and>
   painter_is_quad_clipped ex_swe ex_painter_planet 0
     (uv_map_subdivide ex_swe \<lparr>order = 1, user = 0\<rparr> ! 1) False = Some (Inr True) \<and>
   painter_is_quad_clipped ex_swe ex_painter_planet 0
     (uv_map_subdivide ex_swe \<lparr>order = 1, user = 0\<rparr> ! 2) False = Some (Inr False) \<and>
   painter_is_quad_clipped ex_swe ex_painter_planet 0
     (uv_map_subdivide ex_swe \<lparr>order = 1, user = 0\<rparr> ! 3) False = Some (Inr True) \<and>
   painter_is_quad_clipped ex_swe ex_painter_planet 0 \<lparr>order = 1, user = 0\<rparr> False = Some (Inr False)"
proof -
  let ?m = "\<lparr>order = 1, user = 0::nat\<rparr>"
  have o: "order ?m < 2" by simp
  have n: "vec3_is_normalized ex_swe (xyz (quad_bounding_cap ex_swe ex_painter_wide ?m))"
    by (simp add: ex_quad_bounding_cap ex_parent_cap) (simp add: ex_swe_def xyz_def vec3_dot_def)
  have c: "\<not> painter_is_cap_clipped ex_swe ex_painter_wide 0 (quad_bounding_cap ex_swe ex_painter_wide ?m)"
    using ex_parent_cap_not_clipped by (simp add: ex_quad_bounding_cap ex_parent_cap)
  have k0: "painter_is_quad_clipped ex_swe ex_painter_planet 0 (uv_map_subdivide ex_swe ?m ! 0) False
      = Some (Inr False)"
    using ex_front_tile [of 2 0] ex_children by simp
  have k1: "painter_is_quad_clipped ex_swe ex_painter_planet 0 (uv_map_subdivide ex_swe ?m ! 1) False
      = Some (Inr True)"
    using ex_back_tile [of 2 0] ex_children by simp
  have k2: "painter_is_quad_clipped ex_swe ex_painter_planet 0 (uv_map_subdivide ex_swe ?m ! 2) False
      = Some (Inr False)"
    using ex_front_tile [of 2 1] ex_children by simp
  have k3: "painter_is_quad_clipped ex_swe ex_painter_planet 0 (uv_map_subdivide ex_swe ?m ! 3) False
      = Some (Inr True)"
    using ex_back_tile [of 2 1] ex_children by simp
  from painter_is_quad_clipped_low_order
    [OF o, where E = ex_swe and painter = ex_painter_wide and frame = 0] n c
  have r1: "painter_is_quad_clipped ex_swe ex_painter_wide 0 ?m True = Some (Inr False)"
    by blast
  from painter_is_quad_clipped_low_order
    [OF o, where E = ex_swe and painter = ex_painter_planet and frame = 0
       and ca = False and cb = True and cc = False and cd = True]
    k0 k1 k2 k3
  have r2: "painter_is_quad_clipped ex_swe ex_painter_planet 0 ?m False = Some (Inr False)"
    by simp
  from o n c r1 k0 k1 k2 k3 r2 show ?thesis by blast
qed

text \<open>
  The claim as stated fails on a quad of order 1 whose bounding cap is not clipped and
  whose four children are all clipped (with \<open>outside = true\<close>): a recursion into the
  children would return clipped, the function returns not clipped.
\<close>

theorem painter_is_quad_clipped_no_recursion_counterexample:
  "order \<lparr>order = 1, user = 0::nat\<rparr> < 2 \<and>
   vec3_is_normalized ex_swe (xyz (quad_bounding_cap ex_swe ex_painter_wide \<lparr>order = 1, user = 0\<rparr>)) \<and>
   \<not> painter_is_cap_clipped ex_swe ex_painter_wide 0
       (quad_bounding_cap ex_swe ex_painter_wide \<lparr>order = 1, user = 0\<rparr>) \<and>
   painter_is_quad_clipped ex_swe ex_painter_wide 0
     (uv_map_subdivide ex_swe \<lparr>order = 1, user = 0\<rparr> ! 0) True = Some (Inr True) \<and>
   painter_is_quad_clipped ex_swe ex_painter_wide 0
     (uv_map_subdivide ex_swe \<lparr>order = 1, user = 0\<rparr> ! 1) True = Some (Inr True) \<and>
   painter_is_quad_clipped ex_swe ex_painter_wide 0
     (uv_map_subdivide ex_swe \<lparr>order = 1, user = 0\<rparr> ! 2) True = Some (Inr True) \<and>
   painter_is_quad_clipped ex_swe ex_painter_wide 0
     (uv_map_subdivide ex_swe \<lparr>order = 1, user = 0\<rparr> ! 3) True = Some (Inr True) \<and>
   painter_is_quad_clipped ex_swe ex_painter_wide 0 \<lparr>order = 1, user = 0\<rparr> True = Some (Inr False)"
proof -
  let ?m = "\<lparr>order = 1, user = 0::nat\<rparr>"
  have o: "order ?m < 2" by simp
  have n: "vec3_is_normalized ex_swe (xyz (quad_bounding_cap ex_swe ex_painter_wide ?m))"
    by (simp add: ex_quad_bounding_cap ex_parent_cap) (simp add: ex_swe_def xyz_def vec3_dot_def)
  have c: "\<not> painter_is_cap_clipped ex_swe ex_painter_wide 0 (quad_bounding_cap ex_swe ex_painter_wide ?m)"
    using ex_parent_cap_not_clipped by (simp add: ex_quad_bounding_cap ex_parent_cap)
  have k0: "painter_is_quad_clipped ex_swe ex_painter_wide 0 (uv_map_subdivide ex_swe ?m ! 0) True
      = Some (Inr True)"
    using ex_children ex_child_caps by (simp add: ex_child_clipped [of _ "3/5" 0 "- 4/5"])
  have k1: "painter_is_quad_clipped ex_swe ex_painter_wide 0 (uv_map_subdivide ex_swe ?m ! 1) True
      = Some (Inr True)"
    using ex_children ex_child_caps by (simp add: ex_child_clipped [of _ "4/5" 0 "- 3/5"])
  have k2: "painter_is_quad_clipped ex_swe ex_painter_wide 0 (uv_map_subdivide ex_swe ?m ! 2) True
      = Some (Inr True)"
    using ex_children ex_child_caps by (simp add: ex_child_clipped [of _ "2/3" "1/3" "- 2/3"])
  have k3: "painter_is_quad_clipped ex_swe ex_painter_wide 0 (uv_map_subdivide ex_swe ?m ! 3) True
      = Some (Inr True)"
    using ex_children ex_child_caps by (simp add: ex_child_clipped [of _ "2/3" "- 1/3" "- 2/3"])
  have "quad_outside_block ex_swe ex_painter_wide 0 ?m True = Some (Inr False)"
    using n c by (simp add: quad_outside_block_def Let_def)
  then have r: "painter_is_quad_clipped ex_swe ex_painter_wide 0 ?m True = Some (Inr False)"
    by (subst painter_is_quad_clipped.simps) simp
  from o n c k0 k1 k2 k3 r show ?thesis by blast
qed

subsection \<open>Lines\<close>





subsection \<open>Cap geometry of the spec\<close>

lemma cos_two_arccos:
  "- 1 \<le> w \<Longrightarrow> w \<le> 1 \<Longrightarrow> cos (2 * arccos w) = 2 * w * w - 1"
proof -
  assume w: "- 1 \<le> w" "w \<le> 1"
  have "cos (2 * arccos w) = 2 * (cos (arccos w))\<^sup>2 - 1" by (rule cos_double_cos)
  also from w have "\<dots> = 2 * w * w - 1" by (simp add: power2_eq_square)
  finally show ?thesis .
qed

text \<open>
  Claim C9, as amended. For a cap with a unit centre and \<open>cos(half_angle) = w\<close> in
  \<open>[-1, 1]\<close>, \<open>capContainsPoint(a, a.center)\<close> is true, and \<open>capIntersectsCap(a, a)\<close>, defined by
  the strict inequality \<open>dot(a.center, b.center) > cos(a.angle + b.angle)\<close>, is true exactly
  when \<open>-1 < w < 1\<close>: it is false for a cap reduced to a point (\<open>w = 1\<close>) and for the whole
  sphere (\<open>w = -1\<close>).
\<close>

theorem cap_self_intersection_and_center:
  "x * x + y * y + z * z = 1 \<Longrightarrow> - 1 \<le> w \<Longrightarrow> w \<le> 1 \<Longrightarrow>
   capIntersectsCap (x, y, z, w) (x, y, z, w) = (- 1 < w \<and> w < 1) \<and>
   cap_contains_vec3 (x, y, z, w) (x, y, z)"
proof -
  assume unit: "x * x + y * y + z * z = 1" and w: "- 1 \<le> w" "w \<le> 1"
  have "capIntersectsCap (x, y, z, w) (x, y, z, w) = (2 * w * w - 1 < 1)"
    using unit w by (simp add: capIntersectsCap_def cap_angle_def xyz_def vec3_dot_def cos_two_arccos)
  also have "\<dots> = (w * w < 1)" by auto
  also have "\<dots> = (- 1 < w \<and> w < 1)"
  proof
    assume lt: "w * w < 1"
    have "\<not> w \<le> - 1"
    proof
      assume "w \<le> - 1"
      then have "1 * 1 \<le> (- w) * (- w)" by (intro mult_mono) auto
      with lt show False by simp
    qed
    moreover have "\<not> 1 \<le> w"
    proof
      assume "1 \<le> w"
      then have "1 * 1 \<le> w * w" by (intro mult_mono) auto
      with lt show False by simp
    qed
    ultimately show "- 1 < w \<and> w < 1" by simp
  next
    assume "- 1 < w \<and> w < 1"
    then have "\<bar>w\<bar> < 1" by (auto simp: abs_if)
    then have "\<bar>w\<bar> * \<bar>w\<bar> < 1 * 1" by (intro mult_strict_mono') auto
    then show "w * w < 1" by simp
  qed
  finally have a: "capIntersectsCap (x, y, z, w) (x, y, z, w) = (- 1 < w \<and> w < 1)" .
  from unit w have b: "cap_contains_vec3 (x, y, z, w) (x, y, z)"
    by (simp add: cap_contains_vec3_def xyz_def vec3_dot_def)
  from a b show ?thesis by simp
qed

theorem cap_self_intersection_and_center_witness:
  "(1::real) * 1 + 0 * 0 + 0 * 0 = 1 \<and> - 1 \<le> (0::real) \<and> (0::real) \<le> 1 \<and>
   capIntersectsCap (1, 0, 0, 0) (1, 0, 0, 0) \<and> cap_contains_vec3 (1, 0, 0, 0) (1, 0, 0)"
  using cap_self_intersection_and_center [of 1 0 0 0] by simp

text \<open>
  The claim as stated fails for the cap of half-angle 0 around \<open>(1, 0, 0)\<close>: the centre is
  a unit vector, \<open>w = 1\<close> is in \<open>[-1, 1]\<close>, and the inequality \<open>1 > cos(0 + 0)\<close> is false.
\<close>

theorem point_cap_self_intersection_counterexample:
  "(1::real) * 1 + 0 * 0 + 0 * 0 = 1 \<and> - 1 \<le> (1::real) \<and> (1::real) \<le> 1 \<and>
   \<not> capIntersectsCap (1, 0, 0, 1) (1, 0, 0, 1)"
  by (simp add: capIntersectsCap_def cap_angle_def xyz_def vec3_dot_def)

subsection \<open>The viewport cap builder\<close>

lemma side_cap_contains:
  "(case old of (x, y, z, w) \<Rightarrow> w) \<le> 0 \<Longrightarrow> cap_contains_vec3 (side_cap E cap p i old) cap"
proof -
  obtain x y z w where old: "old = (x, y, z, w)" by (cases old)
  assume "(case old of (x, y, z, w) \<Rightarrow> w) \<le> 0"
  with old have w: "w \<le> 0" by simp
  from w show ?thesis
    by (auto simp: side_cap_def Let_def old cap_contains_set_xyz vec3_dot_neg)
qed

lemma side_cap_xyz:
  "xyz (side_cap E cap p i old) = vec3_normalize E (vec3_cross (p ! i) (p ! ((i + 1) mod 4))) \<or>
   xyz (side_cap E cap p i old) =
     vec3_mul (- 1) (vec3_normalize E (vec3_cross (p ! i) (p ! ((i + 1) mod 4))))"
  by (simp add: side_cap_def Let_def)

lemma side_caps_loop_step:
  "i < 4 \<Longrightarrow> 0 \<le> i \<Longrightarrow> nat i < length caps \<Longrightarrow>
   side_caps_loop E cap p i caps =
     side_caps_loop E cap p (i + 1) (caps[nat i := side_cap E cap p (nat i) (caps ! nat i)])"
  by (subst side_caps_loop.simps)
     (simp add: Let_def side_cap_def nat_add_distrib nat_mod_distrib)

lemma side_caps_loop_length:
  "length (side_caps_loop E cap p i caps) = length caps"
proof (induction E cap p i caps rule: side_caps_loop.induct)
  case (1 E cap p i caps)
  show ?case
  proof (cases "i < 4")
    case False
    then show ?thesis by (simp add: side_caps_loop.simps)
  next
    case True
    then show ?thesis
      by (subst side_caps_loop.simps) (simp add: Let_def "1.IH")
  qed
qed

lemma side_caps_loop_nth:
  "0 \<le> i \<Longrightarrow> 4 \<le> length caps \<Longrightarrow> j < length caps \<Longrightarrow>
   side_caps_loop E cap p i caps ! j =
     (if i \<le> int j \<and> j < 4 then side_cap E cap p j (caps ! j) else caps ! j)"
proof (induction E cap p i caps rule: side_caps_loop.induct)
  case (1 E cap p i caps)
  show ?case
  proof (cases "i < 4")
    case False
    then show ?thesis by (auto simp: side_caps_loop.simps)
  next
    case True
    with "1.prems" have ni: "nat i < length caps" by simp
    define caps' where "caps' = caps[nat i := side_cap E cap p (nat i) (caps ! nat i)]"
    have step: "side_caps_loop E cap p i caps = side_caps_loop E cap p (i + 1) caps'"
      unfolding caps'_def using True "1.prems"(1) ni by (rule side_caps_loop_step)
    have len: "length caps' = length caps" by (simp add: caps'_def)
    have caps'_eq: "caps' =
      (let c = vec3_cross (p ! nat i) (p ! nat ((i + 1) mod 4));
           c = vec3_normalize E c;
           caps = caps[nat i := set_xyz (caps ! nat i) c];
           caps = (if \<not> cap_contains_vec3 (caps ! nat i) cap
                   then caps[nat i := set_xyz (caps ! nat i) (vec3_mul (- 1) (xyz (caps ! nat i)))]
                   else caps)
       in caps)"
      using True "1.prems"(1) ni
      by (simp add: caps'_def Let_def side_cap_def nat_add_distrib nat_mod_distrib)
    have IH: "side_caps_loop E cap p (i + 1) caps' ! j =
      (if i + 1 \<le> int j \<and> j < 4 then side_cap E cap p j (caps' ! j) else caps' ! j)"
      using "1.IH" [OF True refl refl refl caps'_eq [unfolded Let_def]] "1.prems" len
      by simp
    have n4: "nat i < 4" using \<open>i < 4\<close> by auto
    show ?thesis
    proof (cases "j = nat i")
      case True
      with IH step ni n4 "1.prems"(1) show ?thesis by (simp add: caps'_def)
    next
      case False
      then have "caps' ! j = caps ! j" by (simp add: caps'_def)
      moreover from False "1.prems"(1) have "(i + 1 \<le> int j) = (i \<le> int j)" by auto
      ultimately show ?thesis using IH step by simp
    qed
  qed
qed


lemma viewport_max_sep_loop_ge:
  "viewport_max_sep_loop E cap p i s = Inr r \<Longrightarrow> s \<le> r"
proof (induction E cap p i s rule: viewport_max_sep_loop.induct)
  case (1 E cap p i max_sep)
  show ?case
  proof (cases "i < 4")
    case False
    with "1.prems" show ?thesis by (simp add: viewport_max_sep_loop.simps)
  next
    case True
    show ?thesis
    proof (cases "vec3_is_normalized E (p ! nat i)")
      case False
      with True "1.prems" show ?thesis by (simp add: viewport_max_sep_loop.simps)
    next
      case norm: True
      with True "1.prems"
      have "viewport_max_sep_loop E cap p (i + 1) (max max_sep (eraSepp E cap (p ! nat i))) = Inr r"
        by (subst (asm) viewport_max_sep_loop.simps) simp
      with True norm "1.IH" have "max max_sep (eraSepp E cap (p ! nat i)) \<le> r" by simp
      then show ?thesis by simp
    qed
  qed
qed

lemma viewport_max_sep_Inr:
  assumes "viewport_max_sep E painter frame = Inr s"
  shows "\<exists>c cs. viewport_center E painter frame = Some c \<and>
     viewport_corners E painter frame = Some cs \<and>
     viewport_max_sep_loop E c (map snd cs) 0
       (if fst (cs ! 0) \<and> fst (cs ! 1) \<and> fst (cs ! 2) \<and> fst (cs ! 3) then 0 else pi) = Inr s"
proof (cases "viewport_center E painter frame")
  case None
  with assms show ?thesis by (simp add: viewport_max_sep_def)
next
  case c: (Some c)
  show ?thesis
  proof (cases "viewport_corners E painter frame")
    case None
    with assms c show ?thesis by (simp add: viewport_max_sep_def)
  next
    case (Some cs)
    from assms have "viewport_max_sep_loop E c (map snd cs) 0
       (if \<not> (fst (cs ! 0) \<and> fst (cs ! 1) \<and> fst (cs ! 2) \<and> fst (cs ! 3)) then pi else 0) = Inr s"
      unfolding viewport_max_sep_def c Some Let_def by (simp only: option.case)
    then have "viewport_max_sep_loop E c (map snd cs) 0
       (if fst (cs ! 0) \<and> fst (cs ! 1) \<and> fst (cs ! 2) \<and> fst (cs ! 3) then 0 else pi) = Inr s"
      by (simp only: if_conn(4))
    with c Some show ?thesis by blast
  qed
qed

lemma viewport_max_sep_corners_ok:
  assumes "viewport_max_sep E painter frame = Inr s" and "s \<le> pi / 2"
    and "viewport_corners E painter frame = Some cs"
  shows "fst (cs ! 0) \<and> fst (cs ! 1) \<and> fst (cs ! 2) \<and> fst (cs ! 3)"
proof (rule ccontr)
  assume n: "\<not> ?thesis"
  then have e: "(if fst (cs ! 0) \<and> fst (cs ! 1) \<and> fst (cs ! 2) \<and> fst (cs ! 3) then 0 else pi) = pi"
    by (rule if_not_P)
  from viewport_max_sep_Inr [OF assms(1)] assms(3) obtain c where
    "viewport_max_sep_loop E c (map snd cs) 0
       (if fst (cs ! 0) \<and> fst (cs ! 1) \<and> fst (cs ! 2) \<and> fst (cs ! 3) then 0 else pi) = Inr s"
    by auto
  then have "viewport_max_sep_loop E c (map snd cs) 0 pi = Inr s" unfolding e .
  then have "pi \<le> s" by (rule viewport_max_sep_loop_ge)
  with assms(2) pi_gt_zero show False by simp
qed

lemma viewport_corners_length:
  "viewport_corners E painter frame = Some cs \<Longrightarrow> length cs = 4"
  by (auto simp: viewport_corners_def Let_def split: option.splits)

lemma compute_viewport_cap_narrow:
  assumes "viewport_center E painter frame = Some c"
    and "viewport_corners E painter frame = Some cs"
    and "vec3_is_normalized E c"
    and "viewport_max_sep E painter frame = Inr s" and "s \<le> pi / 2"
  shows "compute_viewport_cap E painter frame =
    Inr (painter\<lparr>clip_info := (clip_info painter)[nat frame :=
      (clip_info painter ! nat frame)
        \<lparr>bounding_cap := set_w (set_xyz (bounding_cap (clip_info painter ! nat frame)) c) (cos s),
         nb_viewport_caps := 4,
         viewport_caps :=
           side_caps_loop E c (map snd cs) 0 (viewport_caps (clip_info painter ! nat frame))\<rparr>]\<rparr>)"
  using assms by (simp add: compute_viewport_cap_def Let_def)

lemma compute_viewport_cap_wide:
  assumes "viewport_center E painter frame = Some c"
    and "vec3_is_normalized E c"
    and "viewport_max_sep E painter frame = Inr s" and "pi / 2 < s"
  shows "compute_viewport_cap E painter frame =
    Inr (painter\<lparr>clip_info := (clip_info painter)[nat frame :=
      (clip_info painter ! nat frame)
        \<lparr>bounding_cap :=
           set_w (set_xyz (bounding_cap (clip_info painter ! nat frame)) c) (cos s)\<rparr>]\<rparr>)"
  using assms by (simp add: compute_viewport_cap_def Let_def)

lemma compute_viewport_cap_zero_window:
  "fst (window_size (proj painter)) = 0 \<or> snd (window_size (proj painter)) = 0 \<Longrightarrow>
   compute_viewport_cap E painter frame = Inl AssertionFailed"
  by (auto simp: compute_viewport_cap_def viewport_center_def painter_unproject_def Let_def)

lemma painter_unproject_clip_info [simp]:
  "painter_unproject E (painter\<lparr>clip_info := c\<rparr>) frame win_pos = painter_unproject E painter frame win_pos"
  by (simp add: painter_unproject_def cong: if_cong split: prod.splits)

lemma viewport_center_clip_info [simp]:
  "viewport_center E (painter\<lparr>clip_info := c\<rparr>) frame = viewport_center E painter frame"
  by (simp add: viewport_center_def)

lemma viewport_corners_clip_info [simp]:
  "viewport_corners E (painter\<lparr>clip_info := c\<rparr>) frame = viewport_corners E painter frame"
  by (simp add: viewport_corners_def cong: option.case_cong)

lemma viewport_max_sep_clip_info [simp]:
  "viewport_max_sep E (painter\<lparr>clip_info := c\<rparr>) frame = viewport_max_sep E painter frame"
  by (simp add: viewport_max_sep_def cong: option.case_cong)

lemma compute_viewport_cap_Inr:
  assumes "compute_viewport_cap E painter frame = Inr painter1"
  shows "\<exists>s info c cs. viewport_center E painter frame = Some c \<and>
     viewport_corners E painter frame = Some cs \<and>
     viewport_max_sep E painter frame = Inr s \<and>
     painter1 = painter\<lparr>clip_info := (clip_info painter)[nat frame := info]\<rparr> \<and>
     sky_cap info = sky_cap (clip_info painter ! nat frame) \<and>
     bounding_cap info =
       set_w (set_xyz (bounding_cap (clip_info painter ! nat frame)) c) (cos s) \<and>
     nb_viewport_caps info =
       (if s \<le> pi / 2 then 4 else nb_viewport_caps (clip_info painter ! nat frame)) \<and>
     viewport_caps info =
       (if s \<le> pi / 2
        then side_caps_loop E c (map snd cs) 0 (viewport_caps (clip_info painter ! nat frame))
        else viewport_caps (clip_info painter ! nat frame))"
proof (cases "viewport_max_sep E painter frame")
  case (Inl e)
  with assms show ?thesis
    by (simp add: compute_viewport_cap_def Let_def split: if_splits option.splits)
next
  case (Inr s)
  from viewport_max_sep_Inr [OF Inr] obtain c cs where
    c: "viewport_center E painter frame = Some c"
    and cs: "viewport_corners E painter frame = Some cs" by blast
  show ?thesis
  proof (cases "s \<le> pi / 2")
    case True
    with assms Inr c cs show ?thesis
      by (auto simp: compute_viewport_cap_def Let_def split: if_splits)
  next
    case False
    with assms Inr c cs show ?thesis
      by (auto simp: compute_viewport_cap_def Let_def split: if_splits)
  qed
qed

text \<open>
  What \<^verbatim>\<open>painter_update_clip_info\<close> leaves in the entry of each frame that the loop
  visits, when it returns: the bounding cap is rewritten; the number of side caps and
  the side caps are rewritten when \<^verbatim>\<open>max_sep\<close> is at most \<open>\<pi>/2\<close>, and are the old ones
  otherwise.
\<close>

lemma painter_update_clip_info_loop_inv:
  "painter_update_clip_info_loop E painter i = Inr painter' \<Longrightarrow> 0 \<le> i \<Longrightarrow>
   FRAMES_NB E \<le> int (length (clip_info painter)) \<Longrightarrow>
   proj painter' = proj painter \<and> obs painter' = obs painter \<and>
   flags painter' = flags painter \<and>
   length (clip_info painter') = length (clip_info painter) \<and>
   (\<forall>f. 0 \<le> f \<and> f < i \<longrightarrow> clip_info painter' ! nat f = clip_info painter ! nat f) \<and>
   (\<forall>f. i \<le> f \<and> f < FRAMES_NB E \<longrightarrow>
      (\<exists>s c cs. viewport_center E painter f = Some c \<and>
           viewport_corners E painter f = Some cs \<and>
           viewport_max_sep E painter f = Inr s \<and>
           bounding_cap (clip_info painter' ! nat f) =
             set_w (set_xyz (bounding_cap (clip_info painter ! nat f)) c) (cos s) \<and>
           nb_viewport_caps (clip_info painter' ! nat f) =
             (if s \<le> pi / 2 then 4 else nb_viewport_caps (clip_info painter ! nat f)) \<and>
           viewport_caps (clip_info painter' ! nat f) =
             (if s \<le> pi / 2
              then side_caps_loop E c (map snd cs) 0 (viewport_caps (clip_info painter ! nat f))
              else viewport_caps (clip_info painter ! nat f))))"
proof (induction E painter i arbitrary: painter' rule: painter_update_clip_info_loop.induct)
  case (1 E painter i)
  show ?case
  proof (cases "i < FRAMES_NB E")
    case False
    with "1.prems" have "painter' = painter"
      by (simp add: painter_update_clip_info_loop.simps)
    with False show ?thesis by auto
  next
    case True
    from True "1.prems"(1) obtain painter1 where
      c1: "compute_viewport_cap E painter i = Inr painter1"
      by (subst (asm) painter_update_clip_info_loop.simps) (auto split: sum.splits)
    define info2 where "info2 = (clip_info painter1 ! nat i)
        \<lparr>sky_cap := compute_sky_cap E (obs painter1) i (sky_cap (clip_info painter1 ! nat i))\<rparr>"
    define painter2 where "painter2 = painter1\<lparr>clip_info := (clip_info painter1)[nat i := info2]\<rparr>"
    from True "1.prems"(1) c1
    have rest: "painter_update_clip_info_loop E painter2 (i + 1) = Inr painter'"
      by (subst (asm) painter_update_clip_info_loop.simps)
         (simp add: Let_def painter2_def info2_def)
    from compute_viewport_cap_Inr [OF c1] obtain s info c cs where
      ce: "viewport_center E painter i = Some c"
      and co: "viewport_corners E painter i = Some cs"
      and s: "viewport_max_sep E painter i = Inr s"
      and p1: "painter1 = painter\<lparr>clip_info := (clip_info painter)[nat i := info]\<rparr>"
      and bc: "bounding_cap info =
        set_w (set_xyz (bounding_cap (clip_info painter ! nat i)) c) (cos s)"
      and nb: "nb_viewport_caps info =
        (if s \<le> pi / 2 then 4 else nb_viewport_caps (clip_info painter ! nat i))"
      and vc: "viewport_caps info =
        (if s \<le> pi / 2
         then side_caps_loop E c (map snd cs) 0 (viewport_caps (clip_info painter ! nat i))
         else viewport_caps (clip_info painter ! nat i))"
      by blast
    from True "1.prems"(2,3) have ni: "nat i < length (clip_info painter)" by auto
    have p2: "painter2 = painter\<lparr>clip_info := (clip_info painter)[nat i := info2]\<rparr>"
      by (simp add: painter2_def p1)
    have i2: "nb_viewport_caps info2 = nb_viewport_caps info"
        "bounding_cap info2 = bounding_cap info" "viewport_caps info2 = viewport_caps info"
      using ni by (simp_all add: info2_def p1)
    have len2: "length (clip_info painter2) = length (clip_info painter)"
      by (simp add: p2)
    have IH: "proj painter' = proj painter2 \<and> obs painter' = obs painter2 \<and>
      flags painter' = flags painter2 \<and>
      length (clip_info painter') = length (clip_info painter2) \<and>
      (\<forall>f. 0 \<le> f \<and> f < i + 1 \<longrightarrow> clip_info painter' ! nat f = clip_info painter2 ! nat f) \<and>
      (\<forall>f. i + 1 \<le> f \<and> f < FRAMES_NB E \<longrightarrow>
        (\<exists>s c cs. viewport_center E painter2 f = Some c \<and>
           viewport_corners E painter2 f = Some cs \<and>
           viewport_max_sep E painter2 f = Inr s \<and>
           bounding_cap (clip_info painter' ! nat f) =
             set_w (set_xyz (bounding_cap (clip_info painter2 ! nat f)) c) (cos s) \<and>
           nb_viewport_caps (clip_info painter' ! nat f) =
             (if s \<le> pi / 2 then 4 else nb_viewport_caps (clip_info painter2 ! nat f)) \<and>
           viewport_caps (clip_info painter' ! nat f) =
             (if s \<le> pi / 2
              then side_caps_loop E c (map snd cs) 0 (viewport_caps (clip_info painter2 ! nat f))
              else viewport_caps (clip_info painter2 ! nat f))))"
      using "1.IH" [OF True c1 refl refl, of painter'] rest "1.prems"(2,3) len2
      unfolding painter2_def info2_def Let_def by simp
    have unchanged: "\<forall>f. 0 \<le> f \<and> f < i \<longrightarrow> clip_info painter' ! nat f = clip_info painter ! nat f"
    proof (intro allI impI)
      fix f assume f: "0 \<le> f \<and> f < i"
      with IH have "clip_info painter' ! nat f = clip_info painter2 ! nat f" by simp
      moreover from f have "nat f \<noteq> nat i" by auto
      ultimately show "clip_info painter' ! nat f = clip_info painter ! nat f"
        by (simp add: p2)
    qed
    have visited: "\<forall>f. i \<le> f \<and> f < FRAMES_NB E \<longrightarrow>
      (\<exists>s c cs. viewport_center E painter f = Some c \<and>
           viewport_corners E painter f = Some cs \<and>
           viewport_max_sep E painter f = Inr s \<and>
           bounding_cap (clip_info painter' ! nat f) =
             set_w (set_xyz (bounding_cap (clip_info painter ! nat f)) c) (cos s) \<and>
           nb_viewport_caps (clip_info painter' ! nat f) =
             (if s \<le> pi / 2 then 4 else nb_viewport_caps (clip_info painter ! nat f)) \<and>
           viewport_caps (clip_info painter' ! nat f) =
             (if s \<le> pi / 2
              then side_caps_loop E c (map snd cs) 0 (viewport_caps (clip_info painter ! nat f))
              else viewport_caps (clip_info painter ! nat f)))"
    proof (intro allI impI)
      fix f assume f: "i \<le> f \<and> f < FRAMES_NB E"
      show "\<exists>s c cs. viewport_center E painter f = Some c \<and>
           viewport_corners E painter f = Some cs \<and>
           viewport_max_sep E painter f = Inr s \<and>
           bounding_cap (clip_info painter' ! nat f) =
             set_w (set_xyz (bounding_cap (clip_info painter ! nat f)) c) (cos s) \<and>
           nb_viewport_caps (clip_info painter' ! nat f) =
             (if s \<le> pi / 2 then 4 else nb_viewport_caps (clip_info painter ! nat f)) \<and>
           viewport_caps (clip_info painter' ! nat f) =
             (if s \<le> pi / 2
              then side_caps_loop E c (map snd cs) 0 (viewport_caps (clip_info painter ! nat f))
              else viewport_caps (clip_info painter ! nat f))"
      proof (cases "f = i")
        case True
        with IH "1.prems"(2) have "clip_info painter' ! nat i = clip_info painter2 ! nat i" by simp
        also have "\<dots> = info2" using ni by (simp add: p2)
        finally have "clip_info painter' ! nat i = info2" .
        with ce co s bc nb vc i2 True show ?thesis by simp
      next
        case False
        with f have f1: "i + 1 \<le> f \<and> f < FRAMES_NB E" by simp
        from False f "1.prems"(2) have "nat f \<noteq> nat i" by auto
        then have same: "clip_info painter2 ! nat f = clip_info painter ! nat f" by (simp add: p2)
        from IH f1 obtain s' c' cs' where
          A: "viewport_max_sep E painter2 f = Inr s'"
          and A1: "viewport_center E painter2 f = Some c'"
          and A2: "viewport_corners E painter2 f = Some cs'"
          and B: "bounding_cap (clip_info painter' ! nat f) =
             set_w (set_xyz (bounding_cap (clip_info painter2 ! nat f)) c') (cos s')"
          and C: "nb_viewport_caps (clip_info painter' ! nat f) =
             (if s' \<le> pi / 2 then 4 else nb_viewport_caps (clip_info painter2 ! nat f))"
          and D: "viewport_caps (clip_info painter' ! nat f) =
             (if s' \<le> pi / 2
              then side_caps_loop E c' (map snd cs') 0 (viewport_caps (clip_info painter2 ! nat f))
              else viewport_caps (clip_info painter2 ! nat f))"
          by blast
        have ms: "viewport_max_sep E painter2 f = viewport_max_sep E painter f"
          and cen: "viewport_center E painter2 f = viewport_center E painter f"
          and cor: "viewport_corners E painter2 f = viewport_corners E painter f"
          by (simp_all add: p2)
        from A A1 A2 B C D show ?thesis
          unfolding same ms cen cor by blast
      qed
    qed
    from IH unchanged visited show ?thesis by (simp add: p2)
  qed
qed

lemma painter_update_clip_info_nb_viewport_caps:
  assumes "painter_update_clip_info E painter = Inr painter'"
    and "FRAMES_NB E \<le> int (length (clip_info painter))"
    and "0 \<le> frame" "frame < FRAMES_NB E"
  shows "\<exists>max_sep. viewport_max_sep E painter frame = Inr max_sep \<and>
     nb_viewport_caps (clip_info painter' ! nat frame) =
       (if max_sep \<le> pi / 2 then 4 else nb_viewport_caps (clip_info painter ! nat frame))"
proof -
  from painter_update_clip_info_loop_inv [of E painter 0 painter'] assms
  have "\<exists>s c cs. viewport_center E painter frame = Some c \<and>
           viewport_corners E painter frame = Some cs \<and>
           viewport_max_sep E painter frame = Inr s \<and>
           bounding_cap (clip_info painter' ! nat frame) =
             set_w (set_xyz (bounding_cap (clip_info painter ! nat frame)) c) (cos s) \<and>
           nb_viewport_caps (clip_info painter' ! nat frame) =
             (if s \<le> pi / 2 then 4 else nb_viewport_caps (clip_info painter ! nat frame)) \<and>
           viewport_caps (clip_info painter' ! nat frame) =
             (if s \<le> pi / 2
              then side_caps_loop E c (map snd cs) 0
                     (viewport_caps (clip_info painter ! nat frame))
              else viewport_caps (clip_info painter ! nat frame))"
    by (simp add: painter_update_clip_info_def)
  then show ?thesis by blast
qed

lemma compute_viewport_cap_succeeds:
  assumes "viewport_center E painter frame = Some c"
    and "vec3_is_normalized E c"
    and "viewport_max_sep E painter frame = Inr s"
  shows "\<exists>info. compute_viewport_cap E painter frame =
     Inr (painter\<lparr>clip_info := (clip_info painter)[nat frame := info]\<rparr>)"
proof (cases "s \<le> pi / 2")
  case True
  from viewport_max_sep_Inr [OF assms(3)] obtain cs where
    "viewport_corners E painter frame = Some cs" by blast
  from compute_viewport_cap_narrow [OF assms(1) this assms(2,3) True] show ?thesis by blast
next
  case False
  then have "pi / 2 < s" by simp
  from compute_viewport_cap_wide [OF assms this] show ?thesis by blast
qed

lemma painter_update_clip_info_loop_succeeds:
  "(\<forall>f. i \<le> f \<and> f < FRAMES_NB E \<longrightarrow>
      (\<exists>c. viewport_center E painter f = Some c \<and> vec3_is_normalized E c) \<and>
      (\<exists>s. viewport_max_sep E painter f = Inr s)) \<Longrightarrow>
   \<exists>painter'. painter_update_clip_info_loop E painter i = Inr painter'"
proof (induction E painter i rule: painter_update_clip_info_loop.induct)
  case (1 E painter i)
  show ?case
  proof (cases "i < FRAMES_NB E")
    case False
    then show ?thesis by (simp add: painter_update_clip_info_loop.simps)
  next
    case True
    with "1.prems" have "\<exists>c. viewport_center E painter i = Some c \<and> vec3_is_normalized E c"
      and "\<exists>s. viewport_max_sep E painter i = Inr s" by auto
    then obtain c s where c: "viewport_center E painter i = Some c"
      and n: "vec3_is_normalized E c"
      and s: "viewport_max_sep E painter i = Inr s" by blast
    from compute_viewport_cap_succeeds [OF c n s] obtain info where
      c1: "compute_viewport_cap E painter i =
        Inr (painter\<lparr>clip_info := (clip_info painter)[nat i := info]\<rparr>)" by blast
    define painter1 where "painter1 = painter\<lparr>clip_info := (clip_info painter)[nat i := info]\<rparr>"
    define info2 where "info2 = (clip_info painter1 ! nat i)
        \<lparr>sky_cap := compute_sky_cap E (obs painter1) i (sky_cap (clip_info painter1 ! nat i))\<rparr>"
    define painter2 where "painter2 = painter1\<lparr>clip_info := (clip_info painter1)[nat i := info2]\<rparr>"
    have step: "painter_update_clip_info_loop E painter i =
        painter_update_clip_info_loop E painter2 (i + 1)"
      using True c1
      by (subst painter_update_clip_info_loop.simps)
         (simp add: Let_def painter2_def info2_def painter1_def)
    have inv: "\<forall>f. i + 1 \<le> f \<and> f < FRAMES_NB E \<longrightarrow>
      (\<exists>c. viewport_center E painter2 f = Some c \<and> vec3_is_normalized E c) \<and>
      (\<exists>s. viewport_max_sep E painter2 f = Inr s)"
      using "1.prems" by (simp add: painter2_def painter1_def)
    have "\<exists>painter'. painter_update_clip_info_loop E painter2 (i + 1) = Inr painter'"
      using "1.IH" [OF True c1 [folded painter1_def] refl refl] inv
      unfolding painter2_def info2_def Let_def by simp
    with step show ?thesis by simp
  qed
qed

text \<open>Evaluation of the viewport cap builder on the example painters.\<close>

lemma ex_window:
  "window_size (proj ex_painter) = (800, 600)"
  "window_size (proj ex_painter_stale) = (800, 600)"
  by (simp_all add: ex_painter_def ex_painter_stale_def ex_proj_def ex_proj_wide_def)

lemma ex_unproject:
  "painter_unproject ex_swe ex_painter frame (wx, wy) =
     Some (True, (2 * (wx / 800 * 2 - 1) / 3, (1 - wy / 600 * 2) / 3,
             1 - (wx / 800 * 2 - 1) * (wx / 800 * 2 - 1) / 3))"
  by (simp add: painter_unproject_def ex_painter_def ex_swe_def ex_project_def ex_proj_def
      xyz_def Let_def)

lemma ex_center: "viewport_center ex_swe ex_painter frame = Some (0, 0, 1)"
  by (simp add: viewport_center_def Let_def ex_unproject ex_window)

lemma ex_corners:
  "viewport_corners ex_swe ex_painter frame =
     Some [(True, (- 2/3, 1/3, 2/3)), (True, (2/3, 1/3, 2/3)),
           (True, (2/3, - 1/3, 2/3)), (True, (- 2/3, - 1/3, 2/3))]"
  by (simp add: viewport_corners_def Let_def MARGIN_def ex_unproject ex_window)

lemma ex_max_sep: "viewport_max_sep ex_swe ex_painter frame = Inr (arccos (2/3))"
proof -
  have a: "0 \<le> arccos (2/3 :: real)" by (rule arccos_lbound) simp_all
  show ?thesis
    unfolding viewport_max_sep_def ex_corners ex_center Let_def
    using a
    by (simp add: viewport_max_sep_loop.simps ex_swe_def vec3_dot_def max_def)
qed

lemma ex_wide_unproject:
  "proj painter = ex_proj_wide \<Longrightarrow>
   painter_unproject ex_swe painter frame (wx, wy) = Some (False, (0, 0, 1))"
  by (simp add: painter_unproject_def ex_swe_def ex_project_def ex_proj_wide_def xyz_def Let_def)

lemma ex_wide_center:
  "proj painter = ex_proj_wide \<Longrightarrow> viewport_center ex_swe painter frame = Some (0, 0, 1)"
  by (simp add: viewport_center_def Let_def ex_wide_unproject)

lemma ex_wide_corners:
  "proj painter = ex_proj_wide \<Longrightarrow>
   viewport_corners ex_swe painter frame =
     Some [(False, (0, 0, 1)), (False, (0, 0, 1)), (False, (0, 0, 1)), (False, (0, 0, 1))]"
  by (simp add: viewport_corners_def Let_def ex_wide_unproject)

lemma ex_wide_max_sep:
  "proj painter = ex_proj_wide \<Longrightarrow> viewport_max_sep ex_swe painter frame = Inr pi"
proof -
  assume p: "proj painter = ex_proj_wide"
  show ?thesis
    unfolding viewport_max_sep_def ex_wide_corners [OF p] ex_wide_center [OF p] Let_def
    using pi_gt_zero
    by (simp add: viewport_max_sep_loop.simps ex_swe_def vec3_dot_def max_def not_le)
qed

lemma ex_normalized_up: "vec3_is_normalized ex_swe (0, 0, 1)"
  by (simp add: ex_swe_def vec3_dot_def)

lemma ex_stale_fields:
  "clip_info ex_painter_stale = [ex_clip_info_down, ex_clip_info_down]"
  "obs ex_painter_stale = ()"
  "proj ex_painter_stale = ex_proj_wide"
  by (simp_all add: ex_painter_stale_def)

lemma ex_sky_cap:
  "compute_sky_cap ex_swe () frame (x, y, z, w) = (0, 0, 1, cos (91 * pi / 180))"
  by (simp add: compute_sky_cap_def ex_swe_def set_xyz_def set_w_def Let_def)

text \<open>
  The side caps when the stored fourth components are not positive. For a painter and
  a frame of its \<^verbatim>\<open>clip_info\<close> such that the centre of the window unprojects to a
  normalized vector, the maximum angular separation is at most \<open>\<pi>/2\<close> (all four corner
  unprojections have then succeeded) and the fourth components of the four stored side
  caps, which the builder never writes, are at most 0 (they are 0 in a zero-initialised
  painter): \<^verbatim>\<open>compute_viewport_cap\<close> sets the number of side caps to 4, and each side cap is
  the normalized cross product of two adjacent corner directions, or its opposite, and
  contains the centre of the bounding cap.
\<close>

lemma compute_viewport_cap_side_caps:
  assumes "0 \<le> frame" and "nat frame < length (clip_info painter)"
    and "length (viewport_caps (clip_info painter ! nat frame)) = 4"
    and "\<forall>i<4. (case viewport_caps (clip_info painter ! nat frame) ! i of (x, y, z, w) \<Rightarrow> w) \<le> 0"
    and "viewport_center E painter frame = Some c"
    and "viewport_corners E painter frame = Some cs"
    and "vec3_is_normalized E c"
    and "viewport_max_sep E painter frame = Inr max_sep"
    and "max_sep \<le> pi / 2"
  shows "\<exists>painter'. compute_viewport_cap E painter frame = Inr painter' \<and>
     (\<forall>i<4. fst (cs ! i)) \<and>
     xyz (bounding_cap (clip_info painter' ! nat frame)) = c \<and>
     nb_viewport_caps (clip_info painter' ! nat frame) = 4 \<and>
     length (viewport_caps (clip_info painter' ! nat frame)) = 4 \<and>
     (\<forall>i<4.
        (xyz (viewport_caps (clip_info painter' ! nat frame) ! i) =
           vec3_normalize E (vec3_cross (snd (cs ! i)) (snd (cs ! ((i + 1) mod 4)))) \<or>
         xyz (viewport_caps (clip_info painter' ! nat frame) ! i) =
           vec3_mul (- 1)
             (vec3_normalize E (vec3_cross (snd (cs ! i)) (snd (cs ! ((i + 1) mod 4)))))) \<and>
        cap_contains_vec3 (viewport_caps (clip_info painter' ! nat frame) ! i)
          (xyz (bounding_cap (clip_info painter' ! nat frame))))"
proof -
  let ?info = "clip_info painter ! nat frame"
  let ?p = "map snd cs"
  let ?caps = "side_caps_loop E c ?p 0 (viewport_caps ?info)"
  let ?info' = "?info\<lparr>bounding_cap := set_w (set_xyz (bounding_cap ?info) c) (cos max_sep),
         nb_viewport_caps := 4, viewport_caps := ?caps\<rparr>"
  let ?painter' = "painter\<lparr>clip_info := (clip_info painter)[nat frame := ?info']\<rparr>"
  have res: "compute_viewport_cap E painter frame = Inr ?painter'"
    using assms(5-9) by (rule compute_viewport_cap_narrow)
  have info': "clip_info ?painter' ! nat frame = ?info'"
    using assms(2) by simp
  have len_corners: "length cs = 4"
    using assms(6) by (rule viewport_corners_length)
  have ok: "\<forall>i<4. fst (cs ! i)"
    unfolding all_less_4 using viewport_max_sep_corners_ok [OF assms(8,9,6)] by simp
  have caps: "\<forall>i<4.
        (xyz (?caps ! i) =
           vec3_normalize E (vec3_cross (snd (cs ! i)) (snd (cs ! ((i + 1) mod 4)))) \<or>
         xyz (?caps ! i) =
           vec3_mul (- 1)
             (vec3_normalize E (vec3_cross (snd (cs ! i)) (snd (cs ! ((i + 1) mod 4)))))) \<and>
        cap_contains_vec3 (?caps ! i) c"
  proof (intro allI impI)
    fix i :: nat assume i: "i < 4"
    from i assms(3) have nth: "?caps ! i = side_cap E c ?p i (viewport_caps ?info ! i)"
      by (subst side_caps_loop_nth) simp_all
    from i have mod: "(i + 1) mod 4 < 4" by simp
    from i len_corners have pi: "?p ! i = snd (cs ! i)"
      by (intro nth_map) simp
    from mod len_corners
    have pi1: "?p ! ((i + 1) mod 4) = snd (cs ! ((i + 1) mod 4))"
      by (intro nth_map) simp
    from assms(4) i have "(case viewport_caps ?info ! i of (x, y, z, w) \<Rightarrow> w) \<le> 0" by blast
    then have "cap_contains_vec3 (side_cap E c ?p i (viewport_caps ?info ! i)) c"
      by (rule side_cap_contains)
    moreover note side_cap_xyz [of E c ?p i "viewport_caps ?info ! i"]
    ultimately show "(xyz (?caps ! i) =
           vec3_normalize E (vec3_cross (snd (cs ! i)) (snd (cs ! ((i + 1) mod 4)))) \<or>
         xyz (?caps ! i) =
           vec3_mul (- 1)
             (vec3_normalize E (vec3_cross (snd (cs ! i)) (snd (cs ! ((i + 1) mod 4)))))) \<and>
        cap_contains_vec3 (?caps ! i) c"
      unfolding nth pi [symmetric] pi1 [symmetric] by simp
  qed
  have len: "length ?caps = 4" using assms(3) by (simp add: side_caps_loop_length)
  show ?thesis
    apply (rule exI [of _ ?painter'])
    unfolding info'
    using res ok caps len by simp
qed

text \<open>
  So it is for the zero-initialised painter \<open>ex_painter\<close>: the four side caps contain
  the centre \<open>(0, 0, 1)\<close> of the bounding cap.
\<close>

lemma ex_side_caps_zero_initialised:
  "\<exists>painter'. compute_viewport_cap ex_swe ex_painter 0 = Inr painter' \<and>
      nb_viewport_caps (clip_info painter' ! nat 0) = 4 \<and>
      xyz (bounding_cap (clip_info painter' ! nat 0)) = (0, 0, 1) \<and>
      cap_contains_vec3 (viewport_caps (clip_info painter' ! nat 0) ! 0) (0, 0, 1) \<and>
      cap_contains_vec3 (viewport_caps (clip_info painter' ! nat 0) ! 1) (0, 0, 1) \<and>
      cap_contains_vec3 (viewport_caps (clip_info painter' ! nat 0) ! 2) (0, 0, 1) \<and>
      cap_contains_vec3 (viewport_caps (clip_info painter' ! nat 0) ! 3) (0, 0, 1)"
proof -
  have h0: "(0::int) \<le> 0" by simp
  have h1: "nat 0 < length (clip_info ex_painter)" by (simp add: ex_painter_def)
  have h2: "length (viewport_caps (clip_info ex_painter ! nat 0)) = 4"
    by (simp add: ex_painter_def ex_clip_info_zero_def)
  have h3: "\<forall>i<4. (case viewport_caps (clip_info ex_painter ! nat 0) ! i of (x, y, z, w) \<Rightarrow> w) \<le> 0"
    unfolding all_less_4 by (simp add: ex_painter_def ex_clip_info_zero_def)
  have h6: "arccos (2/3) \<le> pi / 2" by (rule arccos_le_pi2) simp_all
  from compute_viewport_cap_side_caps [OF h0 h1 h2 h3 ex_center ex_corners ex_normalized_up
      ex_max_sep h6]
  obtain painter' where p: "compute_viewport_cap ex_swe ex_painter 0 = Inr painter'"
      "xyz (bounding_cap (clip_info painter' ! nat 0)) = (0, 0, 1)"
      "nb_viewport_caps (clip_info painter' ! nat 0) = 4"
      "\<forall>i<4. cap_contains_vec3 (viewport_caps (clip_info painter' ! nat 0) ! i)
          (xyz (bounding_cap (clip_info painter' ! nat 0)))"
    by blast
  from p(4) have "cap_contains_vec3 (viewport_caps (clip_info painter' ! nat 0) ! 0) (0, 0, 1) \<and>
      cap_contains_vec3 (viewport_caps (clip_info painter' ! nat 0) ! 1) (0, 0, 1) \<and>
      cap_contains_vec3 (viewport_caps (clip_info painter' ! nat 0) ! 2) (0, 0, 1) \<and>
      cap_contains_vec3 (viewport_caps (clip_info painter' ! nat 0) ! 3) (0, 0, 1)"
    unfolding all_less_4 p(2) .
  with p(1-3) show ?thesis by blast
qed

lemma ex_side_cap_0_not_contained:
  "\<not> cap_contains_vec3
       (side_cap ex_swe (0, 0, 1) [(- (2/3), 1/3, 2/3), (2/3, 1/3, 2/3), (2/3, - (1/3), 2/3), (- (2/3), - (1/3), 2/3)]
          0 (0, 0, 0, 1)) (0, 0, 1)"
proof -
  have cr: "vec3_cross (- (2/3), 1/3, 2/3) (2/3, 1/3, 2/3) = (0, 8/9, - (4/9))"
    by (simp add: vec3_cross_def)
  have dt: "vec3_dot (0, 8/9, - (4/9)) (0, 8/9, - (4/9)) = 80/81"
    by (simp add: vec3_dot_def)
  have "(4/9)\<^sup>2 < (80/81 :: real)" by (simp add: power2_eq_square)
  then have s: "4/9 < sqrt (80/81)" by (rule real_less_rsqrt)
  then have s0: "0 < sqrt (80/81)" by simp
  from s s0 have lt: "4 / 9 / sqrt (80/81) < 1" by (simp add: field_simps)
  from s0 have "- (4 / 9) / sqrt (80/81) < 0" by (simp add: divide_neg_pos)
  then have neg: "- (4 / 9) / sqrt (80/81) < 1" by (rule less_trans) simp
  have nrm: "vec3_normalize ex_swe (0, 8/9, - (4/9)) = (0, 8/9 / sqrt (80/81), - (4/9) / sqrt (80/81))"
    by (simp add: ex_swe_def dt vec3_mul_def)
  show ?thesis
    using lt neg
    by (simp add: side_cap_def Let_def cr nrm cap_contains_vec3_def set_xyz_def xyz_def
        vec3_dot_def vec3_mul_def not_le)
qed

text \<open>
  Claim C8 at a failing input. The painter \<open>ex_painter_point_caps\<close> is \<open>ex_painter\<close> with
  the fourth component of its first stored side cap equal to 1 before the call, as
  storage that is not zero-initialised may hold: \<^verbatim>\<open>compute_viewport_cap\<close> writes the three
  components of the direction of each side cap with \<^verbatim>\<open>vec3_copy\<close> and \<^verbatim>\<open>vec3_mul\<close> and never
  writes the fourth, which \<^verbatim>\<open>cap_contains_vec3\<close> reads when the cap is oriented. The four
  corner unprojections succeed, the maximum separation is at most \<open>\<pi>/2\<close>, four side caps
  are produced, and the first one does not contain the centre of the bounding cap, with
  either sign of its direction.
\<close>

theorem compute_viewport_cap_side_cap_misses_center:
  "viewport_corners ex_swe ex_painter_point_caps 0 =
     Some [(True, (- 2/3, 1/3, 2/3)), (True, (2/3, 1/3, 2/3)),
           (True, (2/3, - 1/3, 2/3)), (True, (- 2/3, - 1/3, 2/3))] \<and>
   viewport_max_sep ex_swe ex_painter_point_caps 0 = Inr (arccos (2/3)) \<and>
   arccos (2/3) \<le> pi / 2 \<and>
   (case compute_viewport_cap ex_swe ex_painter_point_caps 0 of
      Inl e \<Rightarrow> False
    | Inr painter' \<Rightarrow>
        nb_viewport_caps (clip_info painter' ! 0) = 4 \<and>
        xyz (bounding_cap (clip_info painter' ! 0)) = (0, 0, 1) \<and>
        \<not> cap_contains_vec3 (viewport_caps (clip_info painter' ! 0) ! 0)
             (xyz (bounding_cap (clip_info painter' ! 0))))"
proof -
  have c: "viewport_corners ex_swe ex_painter_point_caps 0 = viewport_corners ex_swe ex_painter 0"
    by (simp add: ex_painter_point_caps_def)
  have m: "viewport_max_sep ex_swe ex_painter_point_caps 0 = Inr (arccos (2/3))"
    by (simp add: ex_painter_point_caps_def ex_max_sep)
  have ctr: "viewport_center ex_swe ex_painter_point_caps 0 = Some (0, 0, 1)"
    by (simp add: ex_painter_point_caps_def ex_center)
  have le: "arccos (2/3) \<le> pi / 2" by (rule arccos_le_pi2) simp_all
  have ci: "clip_info ex_painter_point_caps = [ex_clip_info_point_caps, ex_clip_info_point_caps]"
    by (simp add: ex_painter_point_caps_def)
  have vc: "viewport_caps ex_clip_info_point_caps = [(0, 0, 0, 1), (0, 0, 0, 0), (0, 0, 0, 0), (0, 0, 0, 0)]"
    by (simp add: ex_clip_info_point_caps_def)
  have nth0: "side_caps_loop ex_swe (0, 0, 1)
      [(- (2/3), 1/3, 2/3), (2/3, 1/3, 2/3), (2/3, - (1/3), 2/3), (- (2/3), - (1/3), 2/3)] 0
      [(0, 0, 0, 1), (0, 0, 0, 0), (0, 0, 0, 0), (0, 0, 0, 0)] ! 0 =
    side_cap ex_swe (0, 0, 1) [(- (2/3), 1/3, 2/3), (2/3, 1/3, 2/3), (2/3, - (1/3), 2/3), (- (2/3), - (1/3), 2/3)]
          0 (0, 0, 0, 1)"
    by (subst side_caps_loop_nth) simp_all
  have "compute_viewport_cap ex_swe ex_painter_point_caps 0 =
    Inr (ex_painter_point_caps\<lparr>clip_info := (clip_info ex_painter_point_caps)[nat 0 :=
      (clip_info ex_painter_point_caps ! nat 0)
        \<lparr>bounding_cap :=
           set_w (set_xyz (bounding_cap (clip_info ex_painter_point_caps ! nat 0)) (0, 0, 1))
             (cos (arccos (2/3))),
         nb_viewport_caps := 4,
         viewport_caps :=
           side_caps_loop ex_swe (0, 0, 1)
             (map snd [(True, (- 2/3, 1/3, 2/3)), (True, (2/3, 1/3, 2/3)),
                       (True, (2/3, - 1/3, 2/3)), (True, (- 2/3, - 1/3, 2/3))]) 0
             (viewport_caps (clip_info ex_painter_point_caps ! nat 0))\<rparr>]\<rparr>)"
    using ctr c [unfolded ex_corners] ex_normalized_up m le by (rule compute_viewport_cap_narrow)
  then have "(case compute_viewport_cap ex_swe ex_painter_point_caps 0 of
      Inl e \<Rightarrow> False
    | Inr painter' \<Rightarrow>
        nb_viewport_caps (clip_info painter' ! 0) = 4 \<and>
        xyz (bounding_cap (clip_info painter' ! 0)) = (0, 0, 1) \<and>
        \<not> cap_contains_vec3 (viewport_caps (clip_info painter' ! 0) ! 0)
             (xyz (bounding_cap (clip_info painter' ! 0))))"
    using ex_side_cap_0_not_contained
    by (simp add: ci vc nth0 ex_clip_info_point_caps_def set_xyz_def set_w_def xyz_def)
  with c m le show ?thesis by (simp add: ex_corners)
qed

text \<open>
  The state that \<^verbatim>\<open>painter_update_clip_info\<close> leaves when the painter holds four side caps
  and its projection fails to unproject the corners: the bounding cap and the sky cap
  are rewritten, the side caps and their number are the old ones.
\<close>

lemma ex_update_clip_info_stale:
  "nb_viewport_caps (clip_info ex_painter_stale ! 0) = 4 \<and>
   viewport_max_sep ex_swe ex_painter_stale 0 = Inr pi \<and> pi / 2 < pi \<and>
   painter_update_clip_info ex_swe ex_painter_stale =
     Inr (ex_painter_stale\<lparr>clip_info :=
       [ex_clip_info_down\<lparr>bounding_cap := (0, 0, 1, - 1), sky_cap := (0, 0, 1, cos (91 * pi / 180))\<rparr>,
        ex_clip_info_down\<lparr>bounding_cap := (0, 0, 1, - 1), sky_cap := (0, 0, 1, cos (91 * pi / 180))\<rparr>]\<rparr>) \<and>
   nb_viewport_caps (ex_clip_info_down\<lparr>bounding_cap := (0, 0, 1, - 1), sky_cap := (0, 0, 1, cos (91 * pi / 180))\<rparr>) = 4"
proof -
  have n: "vec3_is_normalized ex_swe (0, 0, 1)" by (simp add: ex_swe_def vec3_dot_def)
  have f: "FRAMES_NB ex_swe = 2" by (simp add: ex_swe_def)
  have b: "set_w (set_xyz (bounding_cap ex_clip_info_down) (0, 0, 1)) (- 1) = (0, 0, 1, - 1)"
    by (simp add: ex_clip_info_down_def set_xyz_def set_w_def)
  have s: "sky_cap ex_clip_info_down = (0, 0, 1, cos (91 * pi / 180))"
    by (simp add: ex_clip_info_down_def)
  have "painter_update_clip_info ex_swe ex_painter_stale =
     Inr (ex_painter_stale\<lparr>clip_info :=
       [ex_clip_info_down\<lparr>bounding_cap := (0, 0, 1, - 1), sky_cap := (0, 0, 1, cos (91 * pi / 180))\<rparr>,
        ex_clip_info_down\<lparr>bounding_cap := (0, 0, 1, - 1), sky_cap := (0, 0, 1, cos (91 * pi / 180))\<rparr>]\<rparr>)"
    using pi_gt_zero
    by (simp add: painter_update_clip_info_def painter_update_clip_info_loop.simps f
        compute_viewport_cap_def Let_def ex_wide_center ex_wide_max_sep n ex_stale_fields
        ex_sky_cap b s)
  moreover have "nb_viewport_caps (clip_info ex_painter_stale ! 0) = 4"
    by (simp add: ex_stale_fields ex_clip_info_down_def)
  moreover have "nb_viewport_caps (ex_clip_info_down\<lparr>bounding_cap := (0, 0, 1, - 1), sky_cap := (0, 0, 1, cos (91 * pi / 180))\<rparr>) = 4"
    by (simp add: ex_clip_info_down_def)
  ultimately show ?thesis using ex_wide_max_sep [of ex_painter_stale 0] pi_gt_zero by (simp add: ex_stale_fields)
qed

text \<open>
  The first side cap built for \<open>ex_painter\<close> is a half space whose pole has no \<open>x\<close>
  component: the point cap at \<open>(1, 0, 0)\<close> lies on its boundary and does not intersect it.
\<close>

lemma ex_side_cap_0_plane:
  "\<exists>y z. side_cap ex_swe (0, 0, 1)
      [(- (2/3), 1/3, 2/3), (2/3, 1/3, 2/3), (2/3, - (1/3), 2/3), (- (2/3), - (1/3), 2/3)]
      0 (0, 0, 0, 0) = (0, y, z, 0)"
  by (simp add: side_cap_def Let_def vec3_cross_def ex_swe_def vec3_mul_def vec3_dot_def
      set_xyz_def xyz_def cap_contains_vec3_def)

text \<open>
  Claim C2 at a failing input. The painter \<open>ex_painter\<close> has a zero-initialised
  \<^verbatim>\<open>clip_info\<close> and a narrow projection: a first \<^verbatim>\<open>painter_update_clip_info\<close> sets the number
  of side caps to 4. Its projection is then replaced by one whose backward mapping fails
  at the corners, so that \<^verbatim>\<open>max_sep\<close> is \<open>\<pi>\<close>, above \<open>\<pi>/2\<close>: after a second
  \<^verbatim>\<open>painter_update_clip_info\<close> the number of side caps is still 4, not 0, and the four
  caps are those of the narrow viewport. \<^verbatim>\<open>painter_is_cap_clipped\<close> then reports the point cap
  at \<open>(1, 0, 0)\<close> as clipped, though it intersects the new bounding cap, which is the whole
  sphere. (The lemma \<open>painter_update_clip_info_nb_viewport_caps\<close> is the general statement:
  the number is 4 when \<^verbatim>\<open>max_sep\<close> is at most \<open>\<pi>/2\<close> and is left as it was otherwise.)
\<close>

theorem painter_update_clip_info_keeps_stale_side_caps:
  "\<exists>painter1 painter2.
     nb_viewport_caps (clip_info ex_painter ! 0) = 0 \<and>
     painter_update_clip_info ex_swe ex_painter = Inr painter1 \<and>
     nb_viewport_caps (clip_info painter1 ! 0) = 4 \<and>
     viewport_max_sep ex_swe (painter1\<lparr>proj := ex_proj_wide\<rparr>) 0 = Inr pi \<and> pi / 2 < pi \<and>
     painter_update_clip_info ex_swe (painter1\<lparr>proj := ex_proj_wide\<rparr>) = Inr painter2 \<and>
     nb_viewport_caps (clip_info painter2 ! 0) = 4 \<and>
     cap_intersects_cap ex_swe (bounding_cap (clip_info painter2 ! 0)) (1, 0, 0, 1) \<and>
     painter_is_cap_clipped ex_swe painter2 0 (1, 0, 0, 1)"
proof -
  have f: "FRAMES_NB ex_swe = 2" by (simp add: ex_swe_def)
  have len: "length (clip_info ex_painter) = 2" by (simp add: ex_painter_def)
  have z: "nb_viewport_caps (clip_info ex_painter ! 0) = 0"
    by (simp add: ex_painter_def ex_clip_info_zero_def)
  have caps0: "viewport_caps (clip_info ex_painter ! 0) = [(0, 0, 0, 0), (0, 0, 0, 0), (0, 0, 0, 0), (0, 0, 0, 0)]"
    by (simp add: ex_painter_def ex_clip_info_zero_def)
  have fl0: "flags ex_painter = 0" by (simp add: ex_painter_def)
  have le: "arccos (2/3) \<le> pi / 2" by (rule arccos_le_pi2) simp_all
  have "\<exists>painter1. painter_update_clip_info_loop ex_swe ex_painter 0 = Inr painter1"
    by (rule painter_update_clip_info_loop_succeeds)
       (simp add: ex_center ex_max_sep ex_normalized_up)
  then obtain painter1 where r1: "painter_update_clip_info_loop ex_swe ex_painter 0 = Inr painter1"
    by blast
  from painter_update_clip_info_loop_inv [OF r1] f len le
  have inv1: "flags painter1 = flags ex_painter \<and>
      length (clip_info painter1) = length (clip_info ex_painter) \<and>
      (\<forall>f. 0 \<le> f \<and> f < 2 \<longrightarrow>
         nb_viewport_caps (clip_info painter1 ! nat f) = 4 \<and>
         viewport_caps (clip_info painter1 ! nat f) =
           side_caps_loop ex_swe (0, 0, 1)
             [(- (2/3), 1/3, 2/3), (2/3, 1/3, 2/3), (2/3, - (1/3), 2/3), (- (2/3), - (1/3), 2/3)] 0
             (viewport_caps (clip_info ex_painter ! nat f)))"
    by (simp add: ex_max_sep ex_center ex_corners)
  from inv1 [THEN conjunct2, THEN conjunct2, THEN spec, of 0] inv1 len caps0 fl0
  have l1: "length (clip_info painter1) = 2"
    and fl1: "flags painter1 = 0"
    and n1: "nb_viewport_caps (clip_info painter1 ! 0) = 4"
    and v1: "viewport_caps (clip_info painter1 ! 0) =
      side_caps_loop ex_swe (0, 0, 1)
        [(- (2/3), 1/3, 2/3), (2/3, 1/3, 2/3), (2/3, - (1/3), 2/3), (- (2/3), - (1/3), 2/3)] 0
        [(0, 0, 0, 0), (0, 0, 0, 0), (0, 0, 0, 0), (0, 0, 0, 0)]"
    by simp_all
  let ?q = "painter1\<lparr>proj := ex_proj_wide\<rparr>"
  have pq: "proj ?q = ex_proj_wide" by simp
  have "\<exists>painter2. painter_update_clip_info_loop ex_swe ?q 0 = Inr painter2"
    by (rule painter_update_clip_info_loop_succeeds)
       (simp add: ex_wide_center [OF pq] ex_wide_max_sep [OF pq] ex_normalized_up)
  then obtain painter2 where r2: "painter_update_clip_info_loop ex_swe ?q 0 = Inr painter2"
    by blast
  obtain bx "by" bz bw where b1: "bounding_cap (clip_info painter1 ! 0) = (bx, by, bz, bw)"
    by (cases "bounding_cap (clip_info painter1 ! 0)")
  from painter_update_clip_info_loop_inv [OF r2] f l1 pi_gt_zero
  have inv2: "flags painter2 = flags painter1 \<and>
      (\<forall>f. 0 \<le> f \<and> f < 2 \<longrightarrow>
         bounding_cap (clip_info painter2 ! nat f) =
           set_w (set_xyz (bounding_cap (clip_info painter1 ! nat f)) (0, 0, 1)) (- 1) \<and>
         nb_viewport_caps (clip_info painter2 ! nat f) = nb_viewport_caps (clip_info painter1 ! nat f) \<and>
         viewport_caps (clip_info painter2 ! nat f) = viewport_caps (clip_info painter1 ! nat f))"
    by (simp add: ex_wide_max_sep [OF pq] ex_wide_center [OF pq] ex_wide_corners [OF pq])
  from inv2 [THEN conjunct2, THEN spec, of 0] inv2
  have fl2: "flags painter2 = 0"
    and n2: "nb_viewport_caps (clip_info painter2 ! 0) = 4"
    and v2: "viewport_caps (clip_info painter2 ! 0) = viewport_caps (clip_info painter1 ! 0)"
    and b2: "bounding_cap (clip_info painter2 ! 0) = (0, 0, 1, - 1)"
    by (simp_all add: fl1 n1 b1 set_xyz_def set_w_def)
  from ex_side_cap_0_plane obtain y z where
    sc: "side_cap ex_swe (0, 0, 1)
      [(- (2/3), 1/3, 2/3), (2/3, 1/3, 2/3), (2/3, - (1/3), 2/3), (- (2/3), - (1/3), 2/3)]
      0 (0, 0, 0, 0) = (0, y, z, 0)" by blast
  have c0: "viewport_caps (clip_info painter2 ! 0) ! 0 = (0, y, z, 0)"
    unfolding v2 v1 by (subst side_caps_loop_nth) (simp_all add: sc)
  have i1: "cap_intersects_cap ex_swe (bounding_cap (clip_info painter2 ! 0)) (1, 0, 0, 1)"
    unfolding b2 by (simp add: ex_intersects_point)
  have i2: "\<not> cap_intersects_cap ex_swe (viewport_caps (clip_info painter2 ! 0) ! 0) (1, 0, 0, 1)"
    unfolding c0 by (simp add: ex_intersects_point)
  have clipped: "painter_is_cap_clipped ex_swe painter2 0 (1, 0, 0, 1)"
    using i1 i2 n2
    by (simp add: painter_is_cap_clipped_def Let_def painter_is_cap_clipped_loop.simps)
  from z r1 n1 r2 n2 ex_wide_max_sep [OF pq, of 0] pi_gt_zero i1 clipped
  show ?thesis by (auto simp: painter_update_clip_info_def)
qed
end
